theory Spec2Isabelle
  imports Complex_Main
begin

section \<open>Python values\<close>

text \<open>
  The adapters of \<^verbatim>\<open>App/app.py\<close> work on whatever \<^verbatim>\<open>response.json()\<close> returns, so
  the model keeps Python's dynamic typing: a value is \<^verbatim>\<open>None\<close>, a bool, an int, a
  float, a str, a list or a dict. A dict is the list of its items (keys distinct, in
  insertion order). A float is finite (\<open>PyFloat r\<close>, the real number \<open>r\<close> it denotes), an
  infinity (\<open>PyInf True\<close> is \<^verbatim>\<open>inf\<close>, \<open>PyInf False\<close> is \<^verbatim>\<open>-inf\<close>) or \<^verbatim>\<open>nan\<close>;
  \<^verbatim>\<open>json()\<close> gives the last two for the literals \<^verbatim>\<open>Infinity\<close> and \<^verbatim>\<open>NaN\<close>. A character of
  a str is a code point below 256. The values a column of the database holds (NULL, an
  integer, a real, a text) are values of the same kind; a BLOB is not modelled.

  The trigonometry of \<^verbatim>\<open>haversine\<close> is computed over the real numbers: there the
  rounding of floating-point arithmetic is not modelled.
\<close>

datatype pyval =
    PyNone
  | PyBool bool
  | PyInt int
  | PyFloat real
  | PyInf bool
  | PyNaN
  | PyStr string
  | PyList "pyval list"
  | PyDict "(string \<times> pyval) list"

text \<open>The exceptions the modelled code can raise; all derive from \<^verbatim>\<open>Exception\<close>.\<close>

datatype py_error =
    RequestError | HTTPError | JSONDecodeError | AttributeError | TypeError
  | OverflowError | ValueError

text \<open>Truth value testing, as \<^verbatim>\<open>if x:\<close> and \<^verbatim>\<open>x and y\<close> do it.\<close>

fun truthy :: "pyval \<Rightarrow> bool" where
  "truthy PyNone = False"
| "truthy (PyBool b) = b"
| "truthy (PyInt i) = (i \<noteq> 0)"
| "truthy (PyFloat r) = (r \<noteq> 0)"
| "truthy (PyInf s) = True"
| "truthy PyNaN = True"
| "truthy (PyStr s) = (s \<noteq> [])"
| "truthy (PyList xs) = (xs \<noteq> [])"
| "truthy (PyDict kvs) = (kvs \<noteq> [])"

text \<open>The value of a finite number (\<^verbatim>\<open>bool\<close> is a subclass of \<^verbatim>\<open>int\<close>).\<close>

fun num_of :: "pyval \<Rightarrow> real option" where
  "num_of (PyBool b) = Some (if b then 1 else 0)"
| "num_of (PyInt i) = Some (real_of_int i)"
| "num_of (PyFloat r) = Some r"
| "num_of _ = None"

text \<open>The chained comparison \<^verbatim>\<open>lo <= v <= hi\<close> with int bounds: \<^verbatim>\<open>TypeError\<close> when
  \<open>v\<close> is not a number. An int and a float are compared by their exact values; every
  comparison with \<^verbatim>\<open>nan\<close> is false, and an infinity is beyond one of the bounds.\<close>

definition between :: "int \<Rightarrow> pyval \<Rightarrow> int \<Rightarrow> py_error + bool" where
  "between lo v hi =
     (case v of
        PyNaN \<Rightarrow> Inr False
      | PyInf s \<Rightarrow> Inr False
      | _ \<Rightarrow>
          (case num_of v of
             None \<Rightarrow> Inl TypeError
           | Some r \<Rightarrow> Inr (real_of_int lo \<le> r \<and> r \<le> real_of_int hi)))"

text \<open>\<^verbatim>\<open>d.get(k, dflt)\<close>: only a dict has the method.\<close>

definition dict_get :: "(string \<times> pyval) list \<Rightarrow> string \<Rightarrow> pyval \<Rightarrow> pyval" where
  "dict_get kvs k dflt = (case map_of kvs k of None \<Rightarrow> dflt | Some v \<Rightarrow> v)"

fun py_get :: "pyval \<Rightarrow> string \<Rightarrow> pyval \<Rightarrow> py_error + pyval" where
  "py_get (PyDict kvs) k dflt = Inr (dict_get kvs k dflt)"
| "py_get _ k dflt = Inl AttributeError"

text \<open>\<^verbatim>\<open>len(x)\<close> and the elements \<^verbatim>\<open>for p in x\<close> visits: a str yields its
  characters, a dict its keys.\<close>

fun py_len :: "pyval \<Rightarrow> py_error + nat" where
  "py_len (PyList xs) = Inr (length xs)"
| "py_len (PyStr s) = Inr (length s)"
| "py_len (PyDict kvs) = Inr (length kvs)"
| "py_len _ = Inl TypeError"

fun py_iter :: "pyval \<Rightarrow> py_error + pyval list" where
  "py_iter (PyList xs) = Inr xs"
| "py_iter (PyStr s) = Inr (map (\<lambda>c. PyStr [c]) s)"
| "py_iter (PyDict kvs) = Inr (map (\<lambda>kv. PyStr (fst kv)) kvs)"
| "py_iter _ = Inl TypeError"

subsection \<open>String formatting\<close>

fun str_nat :: "nat \<Rightarrow> string" where
  "str_nat n =
     (if n < 10 then [''0123456789'' ! n]
      else str_nat (n div 10) @ [''0123456789'' ! (n mod 10)])"

declare str_nat.simps [simp del]

definition str_int :: "int \<Rightarrow> string" where
  "str_int i = (if i < 0 then CHR ''-'' # str_nat (nat (- i)) else str_nat (nat i))"

text \<open>What an f-string writes for a value. The text of a float, a list or a dict is
  the interpreter's \<^verbatim>\<open>repr\<close>, which the model takes as the parameter \<open>repr\<close>.\<close>

fun py_format :: "(pyval \<Rightarrow> string) \<Rightarrow> pyval \<Rightarrow> string" where
  "py_format repr (PyStr s) = s"
| "py_format repr (PyInt i) = str_int i"
| "py_format repr PyNone = ''None''"
| "py_format repr (PyBool b) = (if b then ''True'' else ''False'')"
| "py_format repr v = repr v"

text \<open>\<^verbatim>\<open>s.lower()\<close>, and the slug \<^verbatim>\<open>city.lower().replace(' ', '-')\<close>. The upper-case
  characters below 256 are the letters A to Z and the code points C0 to DE but D7 (the
  multiplication sign); each has its lower-case form 32 places further.\<close>

definition lower_char :: "char \<Rightarrow> char" where
  "lower_char c =
     (case map_of (zip
        (''ABCDEFGHIJKLMNOPQRSTUVWXYZ'' @
         [CHR 0xC0, CHR 0xC1, CHR 0xC2, CHR 0xC3, CHR 0xC4, CHR 0xC5, CHR 0xC6, CHR 0xC7,
          CHR 0xC8, CHR 0xC9, CHR 0xCA, CHR 0xCB, CHR 0xCC, CHR 0xCD, CHR 0xCE, CHR 0xCF,
          CHR 0xD0, CHR 0xD1, CHR 0xD2, CHR 0xD3, CHR 0xD4, CHR 0xD5, CHR 0xD6,
          CHR 0xD8, CHR 0xD9, CHR 0xDA, CHR 0xDB, CHR 0xDC, CHR 0xDD, CHR 0xDE])
        (''abcdefghijklmnopqrstuvwxyz'' @
         [CHR 0xE0, CHR 0xE1, CHR 0xE2, CHR 0xE3, CHR 0xE4, CHR 0xE5, CHR 0xE6, CHR 0xE7,
          CHR 0xE8, CHR 0xE9, CHR 0xEA, CHR 0xEB, CHR 0xEC, CHR 0xED, CHR 0xEE, CHR 0xEF,
          CHR 0xF0, CHR 0xF1, CHR 0xF2, CHR 0xF3, CHR 0xF4, CHR 0xF5, CHR 0xF6,
          CHR 0xF8, CHR 0xF9, CHR 0xFA, CHR 0xFB, CHR 0xFC, CHR 0xFD, CHR 0xFE])) c of
        None \<Rightarrow> c
      | Some l \<Rightarrow> l)"

definition py_lower :: "string \<Rightarrow> string" where
  "py_lower s = map lower_char s"

definition slug :: "string \<Rightarrow> string" where
  "slug city = map (\<lambda>c. if c = CHR '' '' then CHR ''-'' else c) (py_lower city)"

section \<open>Lookup tables\<close>

definition STATE_CODE_TO_NAME :: "(string \<times> string) list" where
  "STATE_CODE_TO_NAME =
    [(''AL'', ''alabama''), (''AZ'', ''arizona''), (''AR'', ''arkansas''), (''CA'', ''california''),
     (''CO'', ''colorado''), (''DE'', ''delaware''), (''FL'', ''florida''), (''GA'', ''georgia''),
     (''ID'', ''idaho''), (''IL'', ''illinois''), (''IN'', ''indiana''), (''IA'', ''iowa''),
     (''KS'', ''kansas''), (''KY'', ''kentucky''), (''LA'', ''louisiana''), (''MD'', ''maryland''),
     (''MN'', ''minnesota''), (''MS'', ''mississippi''), (''MO'', ''missouri''), (''NE'', ''nebraska''),
     (''NV'', ''nevada''), (''NH'', ''new-hampshire''), (''NJ'', ''new-jersey''), (''NM'', ''new-mexico''),
     (''NY'', ''new-york''), (''NC'', ''north-carolina''), (''OH'', ''ohio''), (''OK'', ''oklahoma''),
     (''OR'', ''oregon''), (''PA'', ''pennsylvania''), (''SC'', ''south-carolina''), (''TN'', ''tennessee''),
     (''TX'', ''texas''), (''UT'', ''utah''), (''VA'', ''virginia''), (''WA'', ''washington''),
     (''WV'', ''west-virginia''), (''WI'', ''wisconsin''), (''DC'', ''washington-dc'')]"

definition LANDCOM_PROPERTY_TYPES :: "(string \<times> int) list" where
  "LANDCOM_PROPERTY_TYPES =
    [(''homesite'', 8), (''recreational'', 4), (''waterfront'', 3584),
     (''undeveloped'', 32), (''commercial'', 64)]"

definition LANDWATCH_PROPERTY_TYPES :: "(string \<times> int) list" where
  "LANDWATCH_PROPERTY_TYPES =
    [(''recreational'', 4), (''undeveloped'', 32), (''commercial'', 64),
     (''homesite'', 4096), (''waterfront'', 3584)]"

text \<open>\<^verbatim>\<open>sum(TABLE.get(pt, 0) for pt in property_types)\<close>.\<close>

definition type_sum :: "(string \<times> int) list \<Rightarrow> string list \<Rightarrow> int" where
  "type_sum table property_types =
     sum_list (map (\<lambda>pt. case map_of table pt of None \<Rightarrow> 0 | Some code \<Rightarrow> code) property_types)"

text \<open>The filter computed at the head of each adapter: the default, replaced by the sum
  when \<^verbatim>\<open>property_types\<close> is non-empty and the sum is positive. The parameter
  \<^verbatim>\<open>property_types\<close> is a list of strings (\<^verbatim>\<open>request.args.getlist\<close>); the default
  \<^verbatim>\<open>None\<close> behaves as the empty list.\<close>

definition type_filter :: "int \<Rightarrow> (string \<times> int) list \<Rightarrow> string list \<Rightarrow> int" where
  "type_filter dflt table property_types =
     (if property_types \<noteq> [] then
        (if type_sum table property_types > 0 then type_sum table property_types else dflt)
      else dflt)"

definition landcom_type_filter :: "string list \<Rightarrow> int" where
  "landcom_type_filter property_types = type_filter 3692 LANDCOM_PROPERTY_TYPES property_types"

definition landwatch_type_filter :: "string list \<Rightarrow> int" where
  "landwatch_type_filter property_types = type_filter 7780 LANDWATCH_PROPERTY_TYPES property_types"

section \<open>Listings\<close>

text \<open>The dict each adapter builds for a property. \<^verbatim>\<open>listing_id\<close>, \<^verbatim>\<open>source\<close> and
  \<^verbatim>\<open>listing_url\<close> are strings the code formats; every other field is the value the
  vendor sent (or the default of \<^verbatim>\<open>prop.get\<close>). The key \<^verbatim>\<open>distance_to_center\<close> is
  absent (\<open>None\<close>) until \<^verbatim>\<open>get_listings\<close> sets it.\<close>

record listing =
  listing_id :: string
  source :: string
  title :: pyval
  city :: pyval
  state :: pyval
  zip_code :: pyval
  county :: pyval
  latitude :: pyval
  longitude :: pyval
  acres :: pyval
  price :: pyval
  description :: pyval
  listing_url :: string
  distance_to_center :: "pyval option"

fun landcom_listing :: "(pyval \<Rightarrow> string) \<Rightarrow> pyval \<Rightarrow> py_error + listing" where
  "landcom_listing repr (PyDict kvs) = Inr
     \<lparr> listing_id = ''landcom_'' @ py_format repr (dict_get kvs ''siteListingId'' (PyStr [])),
       source = ''Land.com'',
       title = dict_get kvs ''title'' (PyStr []),
       city = dict_get kvs ''city'' (PyStr []),
       state = dict_get kvs ''stateAbbreviation'' (PyStr []),
       zip_code = dict_get kvs ''zip'' (PyStr []),
       county = dict_get kvs ''county'' (PyStr []),
       latitude = dict_get kvs ''latitude'' PyNone,
       longitude = dict_get kvs ''longitude'' PyNone,
       acres = dict_get kvs ''acres'' PyNone,
       price = dict_get kvs ''price'' PyNone,
       description = dict_get kvs ''description'' (PyStr []),
       listing_url = ''https://www.land.com'' @ py_format repr (dict_get kvs ''canonicalUrl'' (PyStr [])),
       distance_to_center = None \<rparr>"
| "landcom_listing repr _ = Inl AttributeError"

fun landwatch_listing :: "(pyval \<Rightarrow> string) \<Rightarrow> pyval \<Rightarrow> py_error + listing" where
  "landwatch_listing repr (PyDict kvs) = Inr
     \<lparr> listing_id = ''landwatch_'' @ py_format repr (dict_get kvs ''lwPropertyId'' (PyStr [])),
       source = ''LandWatch'',
       title = dict_get kvs ''title'' (PyStr []),
       city = dict_get kvs ''city'' (PyStr []),
       state = dict_get kvs ''stateAbbreviation'' (PyStr []),
       zip_code = dict_get kvs ''zip'' (PyStr []),
       county = dict_get kvs ''county'' (PyStr []),
       latitude = dict_get kvs ''latitude'' PyNone,
       longitude = dict_get kvs ''longitude'' PyNone,
       acres = dict_get kvs ''acres'' PyNone,
       price = dict_get kvs ''price'' PyNone,
       description = dict_get kvs ''description'' (PyStr []),
       listing_url = ''https://www.landwatch.com'' @ py_format repr (dict_get kvs ''canonicalUrl'' (PyStr [])),
       distance_to_center = None \<rparr>"
| "landwatch_listing repr _ = Inl AttributeError"

text \<open>The filter of \<^verbatim>\<open>scrape_land_com\<close> (the same text for the first page and for
  the later ones): whether the listing is appended. \<^verbatim>\<open>and\<close> short-circuits, so the
  acres are compared only when the price is in range.\<close>

definition landcom_keep :: "int \<Rightarrow> int \<Rightarrow> int \<Rightarrow> int \<Rightarrow> listing \<Rightarrow> py_error + bool" where
  "landcom_keep min_price max_price min_acres max_acres l =
     (if truthy (latitude l) \<and> truthy (longitude l) then
        (if truthy (price l) \<and> truthy (acres l) then
           (case between min_price (price l) max_price of
              Inl e \<Rightarrow> Inl e
            | Inr price_ok \<Rightarrow>
                if price_ok then between min_acres (acres l) max_acres else Inr False)
         else if truthy (acres l) then between min_acres (acres l) max_acres
         else Inr False)
      else Inr False)"

text \<open>The filter of \<^verbatim>\<open>scrape_landwatch\<close>.\<close>

definition landwatch_keep :: "listing \<Rightarrow> bool" where
  "landwatch_keep l = (truthy (latitude l) \<and> truthy (longitude l))"

text \<open>One turn of \<^verbatim>\<open>for prop in properties\<close>: build the listing, then append it
  (\<open>Some\<close>) or not (\<open>None\<close>), or raise.\<close>

definition landcom_step ::
  "(pyval \<Rightarrow> string) \<Rightarrow> int \<Rightarrow> int \<Rightarrow> int \<Rightarrow> int \<Rightarrow> pyval \<Rightarrow> py_error + listing option" where
  "landcom_step repr min_price max_price min_acres max_acres p =
     (case landcom_listing repr p of
        Inl e \<Rightarrow> Inl e
      | Inr l \<Rightarrow>
          (case landcom_keep min_price max_price min_acres max_acres l of
             Inl e \<Rightarrow> Inl e
           | Inr keep \<Rightarrow> Inr (if keep then Some l else None)))"

definition landwatch_step :: "(pyval \<Rightarrow> string) \<Rightarrow> pyval \<Rightarrow> py_error + listing option" where
  "landwatch_step repr p =
     (case landwatch_listing repr p of
        Inl e \<Rightarrow> Inl e
      | Inr l \<Rightarrow> Inr (if landwatch_keep l then Some l else None))"

text \<open>The loop over one page's properties, appending to \<^verbatim>\<open>all_listings\<close>. When a turn
  raises, what was appended before stays in the list.\<close>

fun process_props ::
  "(pyval \<Rightarrow> py_error + listing option) \<Rightarrow> pyval list \<Rightarrow> listing list \<Rightarrow> listing list \<times> py_error option" where
  "process_props step [] all_listings = (all_listings, None)"
| "process_props step (p # ps) all_listings =
     (case step p of
        Inl e \<Rightarrow> (all_listings, Some e)
      | Inr None \<Rightarrow> process_props step ps all_listings
      | Inr (Some l) \<Rightarrow> process_props step ps (all_listings @ [l]))"

section \<open>The network\<close>

text \<open>A request either raises (connection error, timeout) or returns a response: its
  status code, whether \<^verbatim>\<open>raise_for_status()\<close> passes, and what \<^verbatim>\<open>json()\<close> gives. Within
  one search every URL is requested at most once, so a function from URLs describes
  every behaviour of the network.\<close>

datatype payload = Malformed | Parsed pyval

record response =
  status_code :: int
  status_ok :: bool
  json_body :: payload

datatype fetch = Raises | Response response

type_synonym network = "string \<Rightarrow> fetch"

text \<open>The first page: \<^verbatim>\<open>get\<close>, \<^verbatim>\<open>raise_for_status()\<close>, \<^verbatim>\<open>json()\<close>.\<close>

definition fetch_first :: "network \<Rightarrow> string \<Rightarrow> py_error + pyval" where
  "fetch_first net url =
     (case net url of
        Raises \<Rightarrow> Inl RequestError
      | Response r \<Rightarrow>
          if \<not> status_ok r then Inl HTTPError
          else (case json_body r of Malformed \<Rightarrow> Inl JSONDecodeError | Parsed d \<Rightarrow> Inr d))"

text \<open>A later page: \<^verbatim>\<open>get\<close>, \<^verbatim>\<open>continue\<close> (\<open>Inr None\<close>) unless the status is 200,
  \<^verbatim>\<open>json()\<close>.\<close>

definition fetch_next :: "network \<Rightarrow> string \<Rightarrow> py_error + pyval option" where
  "fetch_next net url =
     (case net url of
        Raises \<Rightarrow> Inl RequestError
      | Response r \<Rightarrow>
          if status_code r \<noteq> 200 then Inr None
          else (case json_body r of Malformed \<Rightarrow> Inl JSONDecodeError | Parsed d \<Rightarrow> Inr (Some d)))"

text \<open>\<^verbatim>\<open>searchResults\<close>, \<^verbatim>\<open>totalCount\<close>, \<^verbatim>\<open>propertyResults\<close> and its \<^verbatim>\<open>len\<close> on the
  first page.\<close>

definition first_page_fields :: "pyval \<Rightarrow> py_error + (pyval \<times> pyval \<times> nat)" where
  "first_page_fields first_page_data =
     (case py_get first_page_data ''searchResults'' (PyDict []) of
        Inl e \<Rightarrow> Inl e
      | Inr search_results \<Rightarrow>
          (case py_get search_results ''totalCount'' (PyInt 0) of
             Inl e \<Rightarrow> Inl e
           | Inr total_count \<Rightarrow>
               (case py_get search_results ''propertyResults'' (PyList []) of
                  Inl e \<Rightarrow> Inl e
                | Inr properties \<Rightarrow>
                    (case py_len properties of
                       Inl e \<Rightarrow> Inl e
                     | Inr listings_per_page \<Rightarrow> Inr (total_count, properties, listings_per_page)))))"

text \<open>\<^verbatim>\<open>page_data.get('searchResults', {}).get('propertyResults', [])\<close> and the
  elements the loop visits.\<close>

definition page_properties :: "pyval \<Rightarrow> py_error + pyval list" where
  "page_properties page_data =
     (case py_get page_data ''searchResults'' (PyDict []) of
        Inl e \<Rightarrow> Inl e
      | Inr search_results \<Rightarrow>
          (case py_get search_results ''propertyResults'' (PyList []) of
             Inl e \<Rightarrow> Inl e
           | Inr properties \<Rightarrow> py_iter properties))"

subsection \<open>The number of pages\<close>

text \<open>When \<^verbatim>\<open>totalCount\<close> is a float the page count is computed in floating point. An
  operation on finite floats gives the binary64 number nearest to the exact result, a tie
  going to the one with the even significand: the spacing of the numbers around \<open>x\<close> is
  \<open>2\<close> to the power \<open>e - 52\<close>, where \<open>e\<close> is the exponent of \<open>x\<close>, not below \<open>-1022\<close>.\<close>

definition round_half_even :: "real \<Rightarrow> int" where
  "round_half_even y =
     (let f = \<lfloor>y\<rfloor>
      in if y - real_of_int f < 1 / 2 then f
         else if 1 / 2 < y - real_of_int f then f + 1
         else if even f then f else f + 1)"

definition float_round :: "real \<Rightarrow> real" where
  "float_round x =
     (if x = 0 then 0
      else let e = max \<lfloor>log 2 \<bar>x\<bar>\<rfloor> (- 1022);
               ulp = 2 powr (real_of_int e - 52)
           in ulp * real_of_int (round_half_even (x / ulp)))"

text \<open>\<^verbatim>\<open>vx // wx\<close> on finite floats, \<^verbatim>\<open>wx\<close> not zero, as the interpreter computes it:
  \<^verbatim>\<open>mod = fmod(vx, wx)\<close>, which is exact and has the sign of \<^verbatim>\<open>vx\<close>;
  \<^verbatim>\<open>div = (vx - mod) / wx\<close>, less 1 when \<^verbatim>\<open>mod\<close> is not zero and its sign is not that of
  \<^verbatim>\<open>wx\<close>; then \<^verbatim>\<open>floor(div)\<close>, plus 1 when \<^verbatim>\<open>div\<close> is more than a half above it.\<close>

definition float_fmod :: "real \<Rightarrow> real \<Rightarrow> real" where
  "float_fmod vx wx =
     vx - wx * real_of_int (if vx / wx < 0 then \<lceil>vx / wx\<rceil> else \<lfloor>vx / wx\<rfloor>)"

definition float_floordiv :: "real \<Rightarrow> real \<Rightarrow> real" where
  "float_floordiv vx wx =
     (let md = float_fmod vx wx;
          dv = float_round (float_round (vx - md) / wx);
          dv = (if md \<noteq> 0 \<and> (wx < 0) \<noteq> (md < 0) then float_round (dv - 1) else dv);
          floordiv = real_of_int \<lfloor>dv\<rfloor>
      in if 1 / 2 < dv - floordiv then float_round (floordiv + 1) else floordiv)"

text \<open>\<^verbatim>\<open>min((total_count + listings_per_page - 1) // listings_per_page, 20)\<close>, for
  \<^verbatim>\<open>listings_per_page > 0\<close>. \<^verbatim>\<open>min(x, 20)\<close> is 20 when \<^verbatim>\<open>20 < x\<close> and \<open>x\<close> itself
  otherwise, so a float count gives a float unless it is capped. With an infinity or
  \<^verbatim>\<open>nan\<close> for \<^verbatim>\<open>total_count\<close> the quotient is \<^verbatim>\<open>nan\<close>, and \<^verbatim>\<open>20 < nan\<close> is false.\<close>

fun total_pages_of :: "pyval \<Rightarrow> int \<Rightarrow> py_error + pyval" where
  "total_pages_of (PyInt total_count) n = Inr (PyInt (min ((total_count + n - 1) div n) 20))"
| "total_pages_of (PyBool b) n = Inr (PyInt (min (((if b then 1 else 0) + n - 1) div n) 20))"
| "total_pages_of (PyFloat r) n =
     (let f = float_floordiv (float_round (float_round (r + real_of_int n) - 1)) (real_of_int n)
      in if 20 < f then Inr (PyInt 20) else Inr (PyFloat f))"
| "total_pages_of (PyInf s) n = Inr PyNaN"
| "total_pages_of PyNaN n = Inr PyNaN"
| "total_pages_of _ n = Inl TypeError"

text \<open>\<^verbatim>\<open>range(2, total_pages + 1)\<close>: a \<^verbatim>\<open>TypeError\<close> unless \<^verbatim>\<open>total_pages\<close> is an
  integer.\<close>

fun page_numbers :: "pyval \<Rightarrow> py_error + int list" where
  "page_numbers (PyInt total_pages) = Inr [2..total_pages]"
| "page_numbers (PyBool b) = Inr [2..(if b then 1 else 0)]"
| "page_numbers _ = Inl TypeError"

section \<open>The search of one vendor\<close>

text \<open>The state of a search: \<^verbatim>\<open>all_listings\<close>, the URLs requested so far, and the
  exception that ended the \<^verbatim>\<open>try\<close> block, if one did. The prints and the pauses
  between requests (\<^verbatim>\<open>time.sleep\<close>) are left out.\<close>

record run =
  listings :: "listing list"
  requested :: "string list"
  raised :: "py_error option"

text \<open>\<^verbatim>\<open>for page_num in range(2, total_pages + 1)\<close>.\<close>

fun fetch_remaining ::
  "network \<Rightarrow> (int \<Rightarrow> string) \<Rightarrow> (pyval \<Rightarrow> py_error + listing option) \<Rightarrow> int list \<Rightarrow> run \<Rightarrow> run" where
  "fetch_remaining net page_url step [] st = st"
| "fetch_remaining net page_url step (page_num # later) st =
     (let st1 = st\<lparr>requested := requested st @ [page_url page_num]\<rparr> in
      case fetch_next net (page_url page_num) of
        Inl e \<Rightarrow> st1\<lparr>raised := Some e\<rparr>
      | Inr None \<Rightarrow> fetch_remaining net page_url step later st1
      | Inr (Some page_data) \<Rightarrow>
          (case page_properties page_data of
             Inl e \<Rightarrow> st1\<lparr>raised := Some e\<rparr>
           | Inr props \<Rightarrow>
               (case process_props step props (listings st1) of
                  (all_listings, Some e) \<Rightarrow> st1\<lparr>listings := all_listings, raised := Some e\<rparr>
                | (all_listings, None) \<Rightarrow>
                    fetch_remaining net page_url step later (st1\<lparr>listings := all_listings\<rparr>))))"

text \<open>From "Fetch first page" to the end of the \<^verbatim>\<open>try\<close> block. The two adapters have
  the same text here, up to the URL of a page, the fields of a listing and the filter,
  which are the parameters \<open>page_url\<close> and \<open>step\<close>. With no property on the first page
  the adapter returns \<^verbatim>\<open>[]\<close>.\<close>

definition search_pages ::
  "network \<Rightarrow> string \<Rightarrow> (int \<Rightarrow> string) \<Rightarrow> (pyval \<Rightarrow> py_error + listing option) \<Rightarrow> run \<Rightarrow> run" where
  "search_pages net base_url page_url step st =
     (let st1 = st\<lparr>requested := requested st @ [base_url]\<rparr> in
      case fetch_first net base_url of
        Inl e \<Rightarrow> st1\<lparr>raised := Some e\<rparr>
      | Inr first_page_data \<Rightarrow>
          (case first_page_fields first_page_data of
             Inl e \<Rightarrow> st1\<lparr>raised := Some e\<rparr>
           | Inr (total_count, properties, listings_per_page) \<Rightarrow>
               if listings_per_page > 0 then
                 (case total_pages_of total_count (int listings_per_page) of
                    Inl e \<Rightarrow> st1\<lparr>raised := Some e\<rparr>
                  | Inr total_pages \<Rightarrow>
                      (case py_iter properties of
                         Inl e \<Rightarrow> st1\<lparr>raised := Some e\<rparr>
                       | Inr props \<Rightarrow>
                           (case process_props step props (listings st1) of
                              (all_listings, Some e) \<Rightarrow>
                                st1\<lparr>listings := all_listings, raised := Some e\<rparr>
                            | (all_listings, None) \<Rightarrow>
                                (case page_numbers total_pages of
                                   Inl e \<Rightarrow> st1\<lparr>listings := all_listings, raised := Some e\<rparr>
                                 | Inr nums \<Rightarrow>
                                     fetch_remaining net page_url step nums
                                       (st1\<lparr>listings := all_listings\<rparr>)))))
               else st1\<lparr>listings := []\<rparr>))"

subsection \<open>Land.com\<close>

definition landcom_base_url :: "string \<Rightarrow> string \<Rightarrow> int \<Rightarrow> int \<Rightarrow> string list \<Rightarrow> string" where
  "landcom_base_url city_name state_code max_price max_acres property_types =
     (let city_slug = slug city_name;
          price_filter = ''under-'' @ str_int max_price;
          acres_filter = (if max_acres < 1000 then ''under-'' @ str_int max_acres @ ''-acres''
                          else ''any-size'')
      in ''https://www.land.com/api/property/search/0/'' @ city_slug @ ''-'' @ state_code
           @ ''/all-land/no-house/for-sale/'' @ price_filter @ ''/'' @ acres_filter
           @ ''/is-active/type-'' @ str_int (landcom_type_filter property_types) @ ''/'')"

definition landcom_page_url :: "string \<Rightarrow> int \<Rightarrow> string" where
  "landcom_page_url base_url page_num = base_url @ ''page-'' @ str_int page_num @ ''/''"

text \<open>The \<^verbatim>\<open>try\<close> block of \<^verbatim>\<open>scrape_land_com\<close> with its trace, for a city that is a str
  and the text \<open>state_code\<close> that the f-string writes for the state code. The session is
  primed with a request to the site root, whose response is not looked at.\<close>

definition landcom_run ::
  "(pyval \<Rightarrow> string) \<Rightarrow> network \<Rightarrow> string \<Rightarrow> string \<Rightarrow> int \<Rightarrow> int \<Rightarrow> int \<Rightarrow> int \<Rightarrow> string list \<Rightarrow> run" where
  "landcom_run repr net city_name state_code min_price max_price min_acres max_acres property_types =
     (let base_url = landcom_base_url city_name state_code max_price max_acres property_types;
          st = \<lparr>listings = [], requested = [''https://www.land.com''], raised = None\<rparr>
      in case net ''https://www.land.com'' of
           Raises \<Rightarrow> st\<lparr>raised := Some RequestError\<rparr>
         | Response r \<Rightarrow>
             search_pages net base_url (landcom_page_url base_url)
               (landcom_step repr min_price max_price min_acres max_acres) st)"

text \<open>\<^verbatim>\<open>scrape_land_com\<close>. The slug \<^verbatim>\<open>city.lower().replace(' ', '-')\<close> is computed before
  the \<^verbatim>\<open>try\<close> block: a city that is not a str has no method \<^verbatim>\<open>lower\<close>, and the
  \<^verbatim>\<open>AttributeError\<close> leaves the function (\<open>Inl\<close>). The state code is only written into the
  URL. Inside the block \<^verbatim>\<open>except Exception\<close> swallows the exception, and the function
  returns \<^verbatim>\<open>all_listings\<close>.\<close>

definition scrape_land_com ::
  "(pyval \<Rightarrow> string) \<Rightarrow> network \<Rightarrow> pyval \<Rightarrow> pyval \<Rightarrow> int \<Rightarrow> int \<Rightarrow> int \<Rightarrow> int \<Rightarrow> string list \<Rightarrow>
     py_error + listing list" where
  "scrape_land_com repr net city_v state_code min_price max_price min_acres max_acres property_types =
     (case city_v of
        PyStr city_name \<Rightarrow>
          Inr (listings (landcom_run repr net city_name (py_format repr state_code)
                 min_price max_price min_acres max_acres property_types))
      | _ \<Rightarrow> Inl AttributeError)"

subsection \<open>LandWatch\<close>

definition landwatch_base_url ::
  "string \<Rightarrow> string \<Rightarrow> int \<Rightarrow> int \<Rightarrow> int \<Rightarrow> int \<Rightarrow> string list \<Rightarrow> string" where
  "landwatch_base_url city_name state_code min_price max_price min_acres max_acres property_types =
     (let state_name = (case map_of STATE_CODE_TO_NAME state_code of
                          None \<Rightarrow> py_lower state_code
                        | Some name \<Rightarrow> name);
          city_slug = slug city_name
      in ''https://www.landwatch.com/api/property/search/1113/'' @ state_name
           @ ''-land-for-sale/'' @ city_slug
           @ ''/prop-types-'' @ str_int (landwatch_type_filter property_types)
           @ ''/price-'' @ str_int min_price @ ''-'' @ str_int max_price
           @ ''/acres-'' @ str_int min_acres @ ''-'' @ str_int max_acres @ ''/available'')"

definition landwatch_page_url :: "string \<Rightarrow> int \<Rightarrow> string" where
  "landwatch_page_url base_url page_num = base_url @ ''/page-'' @ str_int page_num"

text \<open>The \<^verbatim>\<open>try\<close> block of \<^verbatim>\<open>scrape_landwatch\<close> with its trace, for a city and a state
  code that are strs.\<close>

definition landwatch_run ::
  "(pyval \<Rightarrow> string) \<Rightarrow> network \<Rightarrow> string \<Rightarrow> string \<Rightarrow> int \<Rightarrow> int \<Rightarrow> int \<Rightarrow> int \<Rightarrow> string list \<Rightarrow> run" where
  "landwatch_run repr net city_name state_code min_price max_price min_acres max_acres property_types =
     (let base_url = landwatch_base_url city_name state_code min_price max_price min_acres max_acres
                       property_types
      in search_pages net base_url (landwatch_page_url base_url) (landwatch_step repr)
           \<lparr>listings = [], requested = [], raised = None\<rparr>)"

text \<open>\<^verbatim>\<open>scrape_landwatch\<close>. Before the \<^verbatim>\<open>try\<close> block it evaluates \<^verbatim>\<open>state_code.lower()\<close>,
  the second argument of \<^verbatim>\<open>STATE_CODE_TO_NAME.get\<close>, and then \<^verbatim>\<open>city.lower()\<close>: each
  raises \<^verbatim>\<open>AttributeError\<close> on a value that is not a str.\<close>

definition scrape_landwatch ::
  "(pyval \<Rightarrow> string) \<Rightarrow> network \<Rightarrow> pyval \<Rightarrow> pyval \<Rightarrow> int \<Rightarrow> int \<Rightarrow> int \<Rightarrow> int \<Rightarrow> string list \<Rightarrow>
     py_error + listing list" where
  "scrape_landwatch repr net city_v state_v min_price max_price min_acres max_acres property_types =
     (case state_v of
        PyStr state_code \<Rightarrow>
          (case city_v of
             PyStr city_name \<Rightarrow>
               Inr (listings (landwatch_run repr net city_name state_code
                      min_price max_price min_acres max_acres property_types))
           | _ \<Rightarrow> Inl AttributeError)
      | _ \<Rightarrow> Inl AttributeError)"

section \<open>Distance\<close>

definition radians :: "real \<Rightarrow> real" where
  "radians x = x * pi / 180"

text \<open>\<^verbatim>\<open>round(x, 2)\<close>: to the nearest hundredth, a tie to the even one.\<close>

definition py_round2 :: "real \<Rightarrow> real" where
  "py_round2 x = real_of_int (round_half_even (x * 100)) / 100"

definition haversine_miles :: "real \<Rightarrow> real \<Rightarrow> real \<Rightarrow> real \<Rightarrow> real" where
  "haversine_miles lon1_deg lat1_deg lon2_deg lat2_deg =
     (let lon1 = radians lon1_deg; lat1 = radians lat1_deg;
          lon2 = radians lon2_deg; lat2 = radians lat2_deg;
          dlon = lon2 - lon1;
          dlat = lat2 - lat1;
          a = (sin (dlat / 2))\<^sup>2 + cos lat1 * cos lat2 * (sin (dlon / 2))\<^sup>2;
          c = 2 * arcsin (sqrt a);
          miles = 3956 * c
      in py_round2 miles)"

text \<open>The float \<^verbatim>\<open>math.radians\<close> works on: its argument when that is a float,
  \<^verbatim>\<open>float(x)\<close> for an int, which raises \<^verbatim>\<open>OverflowError\<close> when the int rounds to 2 to
  the power 1024 or beyond, and \<^verbatim>\<open>TypeError\<close> for a value that is not a number.\<close>

fun math_arg :: "pyval \<Rightarrow> py_error + pyval" where
  "math_arg (PyFloat r) = Inr (PyFloat r)"
| "math_arg (PyInf s) = Inr (PyInf s)"
| "math_arg PyNaN = Inr PyNaN"
| "math_arg (PyInt i) =
     (if \<bar>i\<bar> < 2 ^ 1024 - 2 ^ 970 then Inr (PyFloat (real_of_int i)) else Inl OverflowError)"
| "math_arg (PyBool b) = Inr (PyFloat (if b then 1 else 0))"
| "math_arg _ = Inl TypeError"

text \<open>\<^verbatim>\<open>x - y\<close> on floats.\<close>

fun float_sub :: "pyval \<Rightarrow> pyval \<Rightarrow> pyval" where
  "float_sub (PyFloat a) (PyFloat b) = PyFloat (a - b)"
| "float_sub (PyInf s) (PyFloat b) = PyInf s"
| "float_sub (PyFloat a) (PyInf t) = PyInf (\<not> t)"
| "float_sub (PyInf s) (PyInf t) = (if s = t then PyNaN else PyInf s)"
| "float_sub x y = PyNaN"

fun is_inf :: "pyval \<Rightarrow> bool" where
  "is_inf (PyInf s) = True"
| "is_inf v = False"

text \<open>\<^verbatim>\<open>haversine\<close>. \<^verbatim>\<open>map(radians, ...)\<close> converts the four arguments in the order
  \<^verbatim>\<open>lon1, lat1, lon2, lat2\<close>, and the first that cannot be converted raises. Finite
  arguments give the distance. Otherwise some argument is an infinity or \<^verbatim>\<open>nan\<close>, and
  so is its value in radians: \<^verbatim>\<open>math.sin\<close> and \<^verbatim>\<open>math.cos\<close> raise \<^verbatim>\<open>ValueError\<close> on an
  infinity and give \<^verbatim>\<open>nan\<close> on \<^verbatim>\<open>nan\<close>. They are applied to \<^verbatim>\<open>dlat/2\<close>, \<^verbatim>\<open>lat1\<close>,
  \<^verbatim>\<open>lat2\<close> and \<^verbatim>\<open>dlon/2\<close>; when none of them raises, \<^verbatim>\<open>a\<close> is \<^verbatim>\<open>nan\<close>, and \<^verbatim>\<open>sqrt\<close>,
  \<^verbatim>\<open>asin\<close> and \<^verbatim>\<open>round\<close> pass it on.\<close>

definition haversine :: "pyval \<Rightarrow> pyval \<Rightarrow> pyval \<Rightarrow> pyval \<Rightarrow> py_error + pyval" where
  "haversine lon1 lat1 lon2 lat2 =
     (case math_arg lon1 of
        Inl e \<Rightarrow> Inl e
      | Inr x1 \<Rightarrow>
     (case math_arg lat1 of
        Inl e \<Rightarrow> Inl e
      | Inr y1 \<Rightarrow>
     (case math_arg lon2 of
        Inl e \<Rightarrow> Inl e
      | Inr x2 \<Rightarrow>
     (case math_arg lat2 of
        Inl e \<Rightarrow> Inl e
      | Inr y2 \<Rightarrow>
          (case (num_of x1, num_of y1, num_of x2, num_of y2) of
             (Some lon1_deg, Some lat1_deg, Some lon2_deg, Some lat2_deg) \<Rightarrow>
               Inr (PyFloat (haversine_miles lon1_deg lat1_deg lon2_deg lat2_deg))
           | _ \<Rightarrow>
               if is_inf (float_sub y2 y1) \<or> is_inf y1 \<or> is_inf y2 \<or> is_inf (float_sub x2 x1)
               then Inl ValueError
               else Inr PyNaN)))))"

section \<open>The route \<^verbatim>\<open>/api/listings\<close>\<close>

text \<open>The row \<^verbatim>\<open>SELECT city, state, latitude, longitude FROM city_ratings\<close> returns; a
  column that is NULL holds \<^verbatim>\<open>None\<close>.\<close>

record city_row =
  row_city :: pyval
  row_state :: pyval
  row_latitude :: pyval
  row_longitude :: pyval

text \<open>"Scrape selected sources (default to both)": Land.com first, then LandWatch. An
  exception that leaves an adapter is not caught here.\<close>

definition collect_listings ::
  "(pyval \<Rightarrow> string) \<Rightarrow> network \<Rightarrow> pyval \<Rightarrow> pyval \<Rightarrow> int \<Rightarrow> int \<Rightarrow> int \<Rightarrow> int \<Rightarrow>
     string list \<Rightarrow> string list \<Rightarrow> py_error + listing list" where
  "collect_listings repr net city_v state_v min_price max_price min_acres max_acres
     sources property_types =
     (let all_listings = [] in
      case (if sources = [] \<or> ''landcom'' \<in> set sources then
              (case scrape_land_com repr net city_v state_v min_price max_price
                      min_acres max_acres property_types of
                 Inl e \<Rightarrow> Inl e
               | Inr landcom_listings \<Rightarrow> Inr (all_listings @ landcom_listings))
            else Inr all_listings) of
        Inl e \<Rightarrow> Inl e
      | Inr all_listings \<Rightarrow>
          if sources = [] \<or> ''landwatch'' \<in> set sources then
            (case scrape_landwatch repr net city_v state_v min_price max_price
                    min_acres max_acres property_types of
               Inl e \<Rightarrow> Inl e
             | Inr landwatch_listings \<Rightarrow> Inr (all_listings @ landwatch_listings))
          else Inr all_listings)"

text \<open>"Calculate distance to city center for each listing". An exception of
  \<^verbatim>\<open>haversine\<close> is not caught here.\<close>

fun set_distances :: "pyval \<Rightarrow> pyval \<Rightarrow> listing list \<Rightarrow> py_error + listing list" where
  "set_distances city_lat city_lon [] = Inr []"
| "set_distances city_lat city_lon (l # ls) =
     (if truthy (latitude l) \<and> truthy (longitude l) then
        (case haversine city_lon city_lat (longitude l) (latitude l) of
           Inl e \<Rightarrow> Inl e
         | Inr distance \<Rightarrow>
             (case set_distances city_lat city_lon ls of
                Inl e \<Rightarrow> Inl e
              | Inr ls' \<Rightarrow> Inr (l\<lparr>distance_to_center := Some distance\<rparr> # ls')))
      else
        (case set_distances city_lat city_lon ls of
           Inl e \<Rightarrow> Inl e
         | Inr ls' \<Rightarrow> Inr (l\<lparr>distance_to_center := Some PyNone\<rparr> # ls')))"

definition annotate :: "pyval \<Rightarrow> pyval \<Rightarrow> listing list \<Rightarrow> py_error + listing list" where
  "annotate city_lat city_lon all_listings =
     (if truthy city_lat \<and> truthy city_lon then set_distances city_lat city_lon all_listings
      else Inr (map (\<lambda>l. l\<lparr>distance_to_center := Some PyNone\<rparr>) all_listings))"

text \<open>What the route answers: 400, 404, or the JSON list. \<open>Inl\<close> is an exception that
  leaves the view function. The query parameters arrive parsed (\<^verbatim>\<open>city_id\<close> is \<open>None\<close>
  when it is missing or not an integer), and the table \<^verbatim>\<open>city_ratings\<close> is the function
  \<open>db\<close> from ids to rows.\<close>

datatype reply = BadRequest | NotFound | Listings "listing list"

definition get_listings ::
  "(int \<Rightarrow> city_row option) \<Rightarrow> (pyval \<Rightarrow> string) \<Rightarrow> network \<Rightarrow> int option \<Rightarrow> int \<Rightarrow> int \<Rightarrow> int \<Rightarrow> int \<Rightarrow>
     string list \<Rightarrow> string list \<Rightarrow> py_error + reply" where
  "get_listings db repr net city_id min_price max_price min_acres max_acres sources property_types =
     (case city_id of
        None \<Rightarrow> Inr BadRequest
      | Some cid \<Rightarrow>
          if cid = 0 then Inr BadRequest
          else
            (case db cid of
               None \<Rightarrow> Inr NotFound
             | Some city_row \<Rightarrow>
                 (case collect_listings repr net (row_city city_row) (row_state city_row)
                         min_price max_price min_acres max_acres sources property_types of
                    Inl e \<Rightarrow> Inl e
                  | Inr all_listings \<Rightarrow>
                      (case annotate (row_latitude city_row) (row_longitude city_row)
                              all_listings of
                         Inl e \<Rightarrow> Inl e
                       | Inr all_listings \<Rightarrow> Inr (Listings all_listings)))))"

section \<open>Notions used in the statements\<close>

text \<open>The definitions of this section are not code of the program: they name what the
  theorems speak about.\<close>

subsection \<open>What a search reads\<close>

text \<open>The listings one page's loop appends when no turn raises: those of the records
  for which the turn says "append", in the order of the page.\<close>

definition kept :: "(pyval \<Rightarrow> py_error + listing option) \<Rightarrow> pyval list \<Rightarrow> listing list" where
  "kept step ps = List.map_filter (\<lambda>p. case step p of Inr (Some l) \<Rightarrow> Some l | _ \<Rightarrow> None) ps"

text \<open>The records of a later page: those the loop visits when the page answers 200 with
  a body that can be read, none when the page is skipped.\<close>

definition page_records :: "network \<Rightarrow> string \<Rightarrow> pyval list" where
  "page_records net url =
     (case fetch_next net url of
        Inr (Some page_data) \<Rightarrow> (case page_properties page_data of Inr ps \<Rightarrow> ps | Inl e \<Rightarrow> [])
      | _ \<Rightarrow> [])"

text \<open>The records of the first page.\<close>

definition first_page_records :: "network \<Rightarrow> string \<Rightarrow> pyval list" where
  "first_page_records net url =
     (case fetch_first net url of
        Inr first_page_data \<Rightarrow>
          (case first_page_fields first_page_data of
             Inr (total_count, properties, n) \<Rightarrow>
               (case py_iter properties of Inr ps \<Rightarrow> ps | Inl e \<Rightarrow> [])
           | Inl e \<Rightarrow> [])
      | Inl e \<Rightarrow> [])"

text \<open>The page numbers \<^verbatim>\<open>range(2, total_pages + 1)\<close> that the first page announces.\<close>

definition later_page_numbers :: "network \<Rightarrow> string \<Rightarrow> int list" where
  "later_page_numbers net url =
     (case fetch_first net url of
        Inr first_page_data \<Rightarrow>
          (case first_page_fields first_page_data of
             Inr (total_count, properties, n) \<Rightarrow>
               if n > 0 then
                 (case total_pages_of total_count (int n) of
                    Inr total_pages \<Rightarrow>
                      (case page_numbers total_pages of Inr nums \<Rightarrow> nums | Inl e \<Rightarrow> [])
                  | Inl e \<Rightarrow> [])
               else []
           | Inl e \<Rightarrow> [])
      | Inl e \<Rightarrow> [])"

text \<open>The records of every page of a search, page by page, in the order of the requests.\<close>

definition pages_read :: "network \<Rightarrow> string \<Rightarrow> (int \<Rightarrow> string) \<Rightarrow> pyval list list" where
  "pages_read net base_url page_url =
     first_page_records net base_url
       # map (\<lambda>n. page_records net (page_url n)) (later_page_numbers net base_url)"


text \<open>The state in which the loop over the later pages starts, with the page numbers it
  will visit, when the first page had properties and was read and processed without
  exception.\<close>

definition first_page_state ::
  "network \<Rightarrow> string \<Rightarrow> (pyval \<Rightarrow> py_error + listing option) \<Rightarrow> run \<Rightarrow> (run \<times> int list) option" where
  "first_page_state net base_url step st =
     (case fetch_first net base_url of
        Inl e \<Rightarrow> None
      | Inr first_page_data \<Rightarrow>
          (case first_page_fields first_page_data of
             Inl e \<Rightarrow> None
           | Inr (total_count, properties, n) \<Rightarrow>
               if n > 0 then
                 (case total_pages_of total_count (int n) of
                    Inl e \<Rightarrow> None
                  | Inr total_pages \<Rightarrow>
                      (case py_iter properties of
                         Inl e \<Rightarrow> None
                       | Inr props \<Rightarrow>
                           (case process_props step props (listings st) of
                              (all_listings, Some e) \<Rightarrow> None
                            | (all_listings, None) \<Rightarrow>
                                (case page_numbers total_pages of
                                   Inl e \<Rightarrow> None
                                 | Inr nums \<Rightarrow>
                                     Some (st\<lparr>requested := requested st @ [base_url],
                                              listings := all_listings\<rparr>, nums)))))
               else None))"

subsection \<open>The inclusion policies\<close>

text \<open>"lo <= v <= hi" for a value that may not be a number.\<close>

definition in_range :: "int \<Rightarrow> pyval \<Rightarrow> int \<Rightarrow> bool" where
  "in_range lo v hi =
     (case num_of v of None \<Rightarrow> False | Some r \<Rightarrow> real_of_int lo \<le> r \<and> r \<le> real_of_int hi)"

text \<open>The inclusion policy of Land.com as the specification words it: both coordinates
  present, and either price and acres both present and both in range, or acres present
  and in range with price absent. A field is present when its truth value is true.\<close>

definition landcom_policy :: "int \<Rightarrow> int \<Rightarrow> int \<Rightarrow> int \<Rightarrow> listing \<Rightarrow> bool" where
  "landcom_policy min_price max_price min_acres max_acres l =
     (truthy (latitude l) \<and> truthy (longitude l) \<and>
      ((truthy (price l) \<and> truthy (acres l) \<and>
          in_range min_price (price l) max_price \<and> in_range min_acres (acres l) max_acres)
       \<or> (truthy (acres l) \<and> in_range min_acres (acres l) max_acres \<and> \<not> truthy (price l))))"

text \<open>The listings of the records of a page that are dicts, in the order of the page.\<close>

definition landcom_listings_of :: "(pyval \<Rightarrow> string) \<Rightarrow> pyval list \<Rightarrow> listing list" where
  "landcom_listings_of repr ps =
     List.map_filter (\<lambda>p. case landcom_listing repr p of Inr l \<Rightarrow> Some l | Inl e \<Rightarrow> None) ps"

definition landwatch_listings_of :: "(pyval \<Rightarrow> string) \<Rightarrow> pyval list \<Rightarrow> listing list" where
  "landwatch_listings_of repr ps =
     List.map_filter (\<lambda>p. case landwatch_listing repr p of Inr l \<Rightarrow> Some l | Inl e \<Rightarrow> None) ps"

text \<open>The values 0 and 0.0.\<close>

definition is_zero :: "pyval \<Rightarrow> bool" where
  "is_zero v = (v = PyInt 0 \<or> v = PyFloat 0)"

subsection \<open>Listing ids\<close>

text \<open>The records of a page for which the turn of the loop says "append".\<close>

definition kept_records :: "(pyval \<Rightarrow> py_error + listing option) \<Rightarrow> pyval list \<Rightarrow> pyval list" where
  "kept_records step ps =
     filter (\<lambda>p. case step p of Inr (Some l) \<Rightarrow> True | _ \<Rightarrow> False) ps"

text \<open>The text of a record's native id under the key \<open>k\<close>, as the f-string of
  \<^verbatim>\<open>listing_id\<close> writes it: empty when the key is missing.\<close>

definition native_id_text :: "(pyval \<Rightarrow> string) \<Rightarrow> string \<Rightarrow> pyval \<Rightarrow> string" where
  "native_id_text repr k p =
     (case p of PyDict kvs \<Rightarrow> py_format repr (dict_get kvs k (PyStr [])) | _ \<Rightarrow> [])"

subsection \<open>The distance\<close>

text \<open>The great-circle distance as the specification words it: two points given by
  longitude and latitude in decimal degrees, on a sphere of radius 3956 miles. The point
  is the unit vector from the centre of the sphere; the angle between two unit vectors is
  the arc cosine of their inner product, and the distance along the great circle is the
  radius times the angle.\<close>

definition sphere_point :: "real \<Rightarrow> real \<Rightarrow> real \<times> real \<times> real" where
  "sphere_point lon_deg lat_deg =
     (cos (lat_deg * pi / 180) * cos (lon_deg * pi / 180),
      cos (lat_deg * pi / 180) * sin (lon_deg * pi / 180),
      sin (lat_deg * pi / 180))"

definition inner_product :: "real \<times> real \<times> real \<Rightarrow> real \<times> real \<times> real \<Rightarrow> real" where
  "inner_product u v =
     fst u * fst v + fst (snd u) * fst (snd v) + snd (snd u) * snd (snd v)"

definition great_circle_miles :: "real \<Rightarrow> real \<Rightarrow> real \<Rightarrow> real \<Rightarrow> real" where
  "great_circle_miles lon1 lat1 lon2 lat2 =
     3956 * arccos (inner_product (sphere_point lon1 lat1) (sphere_point lon2 lat2))"

text \<open>The value \<^verbatim>\<open>distance_to_center\<close> is to have: what \<^verbatim>\<open>haversine\<close> returns for the
  reference location and the listing when both have coordinates, null otherwise.\<close>

definition distance_of :: "pyval \<Rightarrow> pyval \<Rightarrow> listing \<Rightarrow> pyval" where
  "distance_of city_lat city_lon l =
     (if truthy city_lat \<and> truthy city_lon \<and> truthy (latitude l) \<and> truthy (longitude l) then
        (case haversine city_lon city_lat (longitude l) (latitude l) of
           Inr d \<Rightarrow> d
         | Inl e \<Rightarrow> PyNone)
      else PyNone)"

subsection \<open>Example inputs\<close>

text \<open>A search for Austin, TX with the default filters. Land.com answers with two pages
  (three records, one of them without price and acres), LandWatch with one page (one
  record, whose price is above the maximum and whose acres are 0).\<close>

definition no_network :: network where
  "no_network url = Raises"

definition demo_repr :: "pyval \<Rightarrow> string" where
  "demo_repr v = ''<repr>''"

definition landcom_record :: "pyval \<Rightarrow> pyval \<Rightarrow> pyval \<Rightarrow> pyval \<Rightarrow> pyval \<Rightarrow> pyval" where
  "landcom_record native_id lat lon acres_v price_v =
     PyDict [(''siteListingId'', native_id), (''latitude'', lat), (''longitude'', lon),
             (''acres'', acres_v), (''price'', price_v)]"

definition landwatch_record :: "pyval \<Rightarrow> pyval \<Rightarrow> pyval \<Rightarrow> pyval \<Rightarrow> pyval \<Rightarrow> pyval" where
  "landwatch_record native_id lat lon acres_v price_v =
     PyDict [(''lwPropertyId'', native_id), (''latitude'', lat), (''longitude'', lon),
             (''acres'', acres_v), (''price'', price_v)]"

definition page_of :: "pyval \<Rightarrow> pyval list \<Rightarrow> pyval" where
  "page_of total_count props =
     PyDict [(''searchResults'',
              PyDict [(''totalCount'', total_count), (''propertyResults'', PyList props)])]"

definition answer :: "pyval \<Rightarrow> fetch" where
  "answer d = Response \<lparr>status_code = 200, status_ok = True, json_body = Parsed d\<rparr>"

text \<open>The site root answers with a page that is not JSON.\<close>

definition site_root :: fetch where
  "site_root = Response \<lparr>status_code = 200, status_ok = True, json_body = Malformed\<rparr>"

definition demo_landcom_url :: string where
  "demo_landcom_url = ''https://www.land.com/api/property/search/0/austin-TX/all-land/no-house/for-sale/under-1000000/under-100-acres/is-active/type-3692/''"

definition demo_landwatch_url :: string where
  "demo_landwatch_url = ''https://www.landwatch.com/api/property/search/1113/texas-land-for-sale/austin/prop-types-7780/price-0-1000000/acres-0-100/available''"

definition demo_net :: network where
  "demo_net url =
     (if url = ''https://www.land.com'' then site_root
      else if url = demo_landcom_url then
        answer (page_of (PyInt 3)
          [landcom_record (PyInt 1) (PyFloat 30.25) (PyFloat (- 97.75)) (PyInt 5) PyNone,
           landcom_record (PyInt 2) (PyFloat 30.5) (PyFloat (- 97.5)) PyNone PyNone])
      else if url = demo_landcom_url @ ''page-2/'' then
        answer (page_of (PyInt 3)
          [landcom_record (PyInt 3) (PyFloat 30.75) (PyFloat (- 97.25)) (PyInt 10) (PyInt 50000)])
      else if url = demo_landwatch_url then
        answer (page_of (PyInt 1)
          [landwatch_record (PyInt 7) (PyFloat 30.25) (PyFloat (- 97.75)) (PyInt 0) (PyInt 5000000)])
      else Raises)"

definition demo_listing :: "string \<Rightarrow> string \<Rightarrow> string \<Rightarrow> pyval \<Rightarrow> pyval \<Rightarrow> pyval \<Rightarrow> pyval \<Rightarrow> listing" where
  "demo_listing lid src url lat lon acres_v price_v =
     \<lparr> listing_id = lid, source = src, title = PyStr [], city = PyStr [], state = PyStr [],
       zip_code = PyStr [], county = PyStr [], latitude = lat, longitude = lon,
       acres = acres_v, price = price_v, description = PyStr [], listing_url = url,
       distance_to_center = None \<rparr>"

definition demo_db :: "int \<Rightarrow> city_row option" where
  "demo_db cid =
     (if cid = 1 then
        Some \<lparr>row_city = PyStr ''Austin'', row_state = PyStr ''TX'',
              row_latitude = PyFloat 30.25, row_longitude = PyFloat (- 97.75)\<rparr>
      else None)"







text \<open>LandWatch announces three listings in pages of one; the second page is the
  parameter.\<close>

definition paged_landwatch :: "fetch \<Rightarrow> network" where
  "paged_landwatch page2 url =
     (if url = demo_landwatch_url then
        answer (page_of (PyInt 3)
          [landwatch_record (PyInt 7) (PyFloat 30.25) (PyFloat (- 97.75)) (PyInt 0) (PyInt 5000000)])
      else if url = demo_landwatch_url @ ''/page-2'' then page2
      else if url = demo_landwatch_url @ ''/page-3'' then
        answer (page_of (PyInt 3)
          [landwatch_record (PyInt 9) (PyFloat 30.5) (PyFloat (- 97.5)) (PyInt 2) (PyInt 9000)])
      else Raises)"

definition malformed_page :: fetch where
  "malformed_page = Response \<lparr>status_code = 200, status_ok = True, json_body = Malformed\<rparr>"

definition error_page :: fetch where
  "error_page = Response \<lparr>status_code = 500, status_ok = False, json_body = Malformed\<rparr>"

text \<open>LandWatch sends one record and no \<^verbatim>\<open>totalCount\<close>.\<close>

definition count_missing :: network where
  "count_missing url =
     (if url = demo_landwatch_url then
        answer (PyDict [(''searchResults'', PyDict [(''propertyResults'', PyList
          [landwatch_record (PyInt 7) (PyFloat 30.25) (PyFloat (- 97.75)) (PyInt 0) (PyInt 5000000)])])])
      else Raises)"

text \<open>LandWatch has no listing.\<close>

definition no_results :: network where
  "no_results url = (if url = demo_landwatch_url then answer (page_of (PyInt 0) []) else Raises)"

text \<open>LandWatch announces two listings in pages of one and sends the same record on both
  pages; and LandWatch sends the id 7 twice on one page, once as a number on a record
  without latitude and once as a text.\<close>

definition repeated_listing :: network where
  "repeated_listing url =
     (if url = demo_landwatch_url \<or> url = demo_landwatch_url @ ''/page-2'' then
        answer (page_of (PyInt 2)
          [landwatch_record (PyInt 7) (PyFloat 30.25) (PyFloat (- 97.75)) (PyInt 0) (PyInt 5000000)])
      else Raises)"

definition same_id_filtered :: network where
  "same_id_filtered url =
     (if url = demo_landwatch_url then
        answer (page_of (PyInt 2)
          [landwatch_record (PyInt 7) PyNone (PyFloat (- 97.75)) (PyInt 0) (PyInt 5000000),
           landwatch_record (PyStr ''7'') (PyFloat 30.25) (PyFloat (- 97.75)) (PyInt 0) (PyInt 5000000)])
      else Raises)"

section \<open>Lemmas about the loops\<close>

lemma process_props_acc:
  "process_props step ps acc = (acc @ fst (process_props step ps []), snd (process_props step ps []))"
proof (induction ps arbitrary: acc)
  case Nil
  show ?case by simp
next
  case (Cons p ps)
  show ?case
  proof (cases "step p")
    case (Inl e)
    then show ?thesis by simp
  next
    case (Inr r)
    show ?thesis
    proof (cases r)
      case None
      with Inr Cons[of acc] show ?thesis by simp
    next
      case (Some l)
      with Inr Cons[of "acc @ [l]"] Cons[of "[l]"] show ?thesis by simp
    qed
  qed
qed

lemma kept_Cons:
  "kept step (p # ps) = (case step p of Inr (Some l) \<Rightarrow> l # kept step ps | _ \<Rightarrow> kept step ps)"
  by (simp add: kept_def List.map_filter_simps split: sum.splits option.splits)

lemma process_props_ok:
  "snd (process_props step ps []) = None \<Longrightarrow> fst (process_props step ps []) = kept step ps"
proof (induction ps)
  case Nil
  show ?case by (simp add: kept_def List.map_filter_simps)
next
  case (Cons p ps)
  show ?case
  proof (cases "step p")
    case (Inl e)
    with Cons.prems show ?thesis by simp
  next
    case (Inr r)
    show ?thesis
    proof (cases r)
      case None
      with Inr Cons show ?thesis by (simp add: kept_Cons)
    next
      case (Some l)
      with Inr Cons process_props_acc[of step ps "[l]"] show ?thesis by (simp add: kept_Cons)
    qed
  qed
qed

lemma process_props_member:
  "l \<in> set (fst (process_props step ps acc)) \<Longrightarrow> l \<in> set acc \<or> (\<exists>p\<in>set ps. step p = Inr (Some l))"
proof (induction ps arbitrary: acc)
  case Nil
  then show ?case by simp
next
  case (Cons p ps)
  show ?case
  proof (cases "step p")
    case (Inl e)
    with Cons.prems show ?thesis by simp
  next
    case (Inr r)
    show ?thesis
    proof (cases r)
      case None
      with Inr Cons show ?thesis by auto
    next
      case (Some l')
      with Inr Cons.prems have "l \<in> set (fst (process_props step ps (acc @ [l'])))" by simp
      from Cons.IH[OF this] Inr Some show ?thesis by auto
    qed
  qed
qed


lemma fetch_remaining_skip:
  "fetch_next net (page_url n) = Inr None \<Longrightarrow>
   fetch_remaining net page_url step (n # later) st =
     fetch_remaining net page_url step later (st\<lparr>requested := requested st @ [page_url n]\<rparr>)"
  by simp

lemma fetch_remaining_ok:
  "raised (fetch_remaining net page_url step ns st) = None \<Longrightarrow>
   requested (fetch_remaining net page_url step ns st) = requested st @ map page_url ns \<and>
   listings (fetch_remaining net page_url step ns st) =
     listings st @ concat (map (\<lambda>n. kept step (page_records net (page_url n))) ns)"
proof (induction ns arbitrary: st)
  case Nil
  show ?case by simp
next
  case (Cons n ns)
  let ?st1 = "st\<lparr>requested := requested st @ [page_url n]\<rparr>"
  show ?case
  proof (cases "fetch_next net (page_url n)")
    case (Inl e)
    with Cons.prems show ?thesis by simp
  next
    case (Inr r)
    show ?thesis
    proof (cases r)
      case None
      with Inr Cons.prems have "raised (fetch_remaining net page_url step ns ?st1) = None" by simp
      from Cons.IH[OF this] Inr None show ?thesis
        by (simp add: page_records_def kept_def List.map_filter_simps)
    next
      case (Some d)
      show ?thesis
      proof (cases "page_properties d")
        case (Inl e)
        with Inr Some Cons.prems show ?thesis by simp
      next
        case props: (Inr ps)
        obtain acc err where pp: "process_props step ps (listings st) = (acc, err)"
          by (cases "process_props step ps (listings st)")
        show ?thesis
        proof (cases err)
          case (Some e)
          with Inr \<open>r = Some d\<close> props pp Cons.prems show ?thesis by simp
        next
          case None
          from pp None process_props_acc[of step ps "listings st"]
          have a: "acc = listings st @ fst (process_props step ps [])"
            and b: "snd (process_props step ps []) = None" by simp_all
          from process_props_ok[OF b] a have acc: "acc = listings st @ kept step ps" by simp
          let ?st2 = "?st1\<lparr>listings := acc\<rparr>"
          from Inr \<open>r = Some d\<close> props pp None
          have unf: "fetch_remaining net page_url step (n # ns) st =
                     fetch_remaining net page_url step ns ?st2" by simp
          with Cons.prems have "raised (fetch_remaining net page_url step ns ?st2) = None" by simp
          from Cons.IH[OF this] unf acc Inr \<open>r = Some d\<close> props show ?thesis
            by (simp add: page_records_def)
        qed
      qed
    qed
  qed
qed

lemma fetch_remaining_member:
  "l \<in> set (listings (fetch_remaining net page_url step ns st)) \<Longrightarrow>
   l \<in> set (listings st) \<or> (\<exists>p. step p = Inr (Some l))"
proof (induction ns arbitrary: st)
  case Nil
  then show ?case by simp
next
  case (Cons n ns)
  let ?st1 = "st\<lparr>requested := requested st @ [page_url n]\<rparr>"
  show ?case
  proof (cases "fetch_next net (page_url n)")
    case (Inl e)
    with Cons.prems show ?thesis by simp
  next
    case (Inr r)
    show ?thesis
    proof (cases r)
      case None
      with Inr Cons.prems have "l \<in> set (listings (fetch_remaining net page_url step ns ?st1))" by simp
      from Cons.IH[OF this] show ?thesis by simp
    next
      case (Some d)
      show ?thesis
      proof (cases "page_properties d")
        case (Inl e)
        with Inr Some Cons.prems show ?thesis by simp
      next
        case props: (Inr ps)
        obtain acc err where pp: "process_props step ps (listings st) = (acc, err)"
          by (cases "process_props step ps (listings st)")
        have acc: "\<And>x. x \<in> set acc \<Longrightarrow> x \<in> set (listings st) \<or> (\<exists>p. step p = Inr (Some x))"
          using process_props_member[of _ step ps "listings st"] pp by auto
        show ?thesis
        proof (cases err)
          case (Some e)
          with Inr \<open>r = Some d\<close> props pp Cons.prems acc show ?thesis by simp
        next
          case None
          let ?st2 = "?st1\<lparr>listings := acc\<rparr>"
          from Inr \<open>r = Some d\<close> props pp None Cons.prems
          have "l \<in> set (listings (fetch_remaining net page_url step ns ?st2))" by simp
          from Cons.IH[OF this] acc show ?thesis by auto
        qed
      qed
    qed
  qed
qed

lemma fetch_remaining_requested:
  "\<exists>k. requested (fetch_remaining net page_url step ns st) = requested st @ map page_url (take k ns)"
proof (induction ns arbitrary: st)
  case Nil
  show ?case by simp
next
  case (Cons n ns)
  let ?st1 = "st\<lparr>requested := requested st @ [page_url n]\<rparr>"
  have one: "requested st @ [page_url n] = requested st @ map page_url (take (Suc 0) (n # ns))" by simp
  have more: "\<exists>k. requested (fetch_remaining net page_url step ns (?st1\<lparr>listings := acc\<rparr>))
                  = requested st @ map page_url (take k (n # ns))" for acc
  proof -
    from Cons[of "?st1\<lparr>listings := acc\<rparr>"] obtain k where
      "requested (fetch_remaining net page_url step ns (?st1\<lparr>listings := acc\<rparr>))
         = requested st @ page_url n # map page_url (take k ns)" by auto
    then have "requested (fetch_remaining net page_url step ns (?st1\<lparr>listings := acc\<rparr>))
         = requested st @ map page_url (take (Suc k) (n # ns))" by simp
    then show ?thesis by blast
  qed
  from more[of "listings st"] have more': "\<exists>k. requested (fetch_remaining net page_url step ns ?st1)
                  = requested st @ map page_url (take k (n # ns))" by simp
  show ?case
  proof (cases "fetch_next net (page_url n)")
    case (Inl e)
    with one show ?thesis by (auto intro: exI[of _ "Suc 0"])
  next
    case (Inr r)
    show ?thesis
    proof (cases r)
      case None
      with Inr more' show ?thesis by simp
    next
      case (Some d)
      show ?thesis
      proof (cases "page_properties d")
        case (Inl e)
        with Inr Some one show ?thesis by (auto intro: exI[of _ "Suc 0"])
      next
        case props: (Inr ps)
        obtain acc err where pp: "process_props step ps (listings st) = (acc, err)"
          by (cases "process_props step ps (listings st)")
        show ?thesis
        proof (cases err)
          case (Some e)
          with Inr \<open>r = Some d\<close> props pp one show ?thesis by (auto intro: exI[of _ "Suc 0"])
        next
          case None
          with Inr \<open>r = Some d\<close> props pp more[of acc] show ?thesis by simp
        qed
      qed
    qed
  qed
qed

lemma fetch_remaining_append:
  "raised (fetch_remaining net page_url step ms st) = None \<Longrightarrow>
   fetch_remaining net page_url step (ms @ ns) st =
     fetch_remaining net page_url step ns (fetch_remaining net page_url step ms st)"
proof (induction ms arbitrary: st)
  case Nil
  show ?case by simp
next
  case (Cons n ms)
  let ?st1 = "st\<lparr>requested := requested st @ [page_url n]\<rparr>"
  show ?case
  proof (cases "fetch_next net (page_url n)")
    case (Inl e)
    with Cons.prems show ?thesis by simp
  next
    case (Inr r)
    show ?thesis
    proof (cases r)
      case None
      with Inr Cons.prems have "raised (fetch_remaining net page_url step ms ?st1) = None" by simp
      from Cons.IH[OF this] Inr None show ?thesis by simp
    next
      case (Some d)
      show ?thesis
      proof (cases "page_properties d")
        case (Inl e)
        with Inr Some Cons.prems show ?thesis by simp
      next
        case props: (Inr ps)
        obtain acc err where pp: "process_props step ps (listings st) = (acc, err)"
          by (cases "process_props step ps (listings st)")
        show ?thesis
        proof (cases err)
          case (Some e)
          with Inr \<open>r = Some d\<close> props pp Cons.prems show ?thesis by simp
        next
          case None
          let ?st2 = "?st1\<lparr>listings := acc\<rparr>"
          from Inr \<open>r = Some d\<close> props pp None Cons.prems
          have "raised (fetch_remaining net page_url step ms ?st2) = None" by simp
          from Cons.IH[OF this] Inr \<open>r = Some d\<close> props pp None show ?thesis by simp
        qed
      qed
    qed
  qed
qed


lemma search_pages_requested:
  "\<exists>ns. requested (search_pages net base_url page_url step st)
         = requested st @ base_url # map page_url ns"
proof -
  let ?st1 = "st\<lparr>requested := requested st @ [base_url]\<rparr>"
  have loop: "\<exists>ns. requested (fetch_remaining net page_url step nums (?st1\<lparr>listings := acc\<rparr>))
                 = requested st @ base_url # map page_url ns" for nums acc
  proof -
    obtain k where "requested (fetch_remaining net page_url step nums (?st1\<lparr>listings := acc\<rparr>))
        = requested (?st1\<lparr>listings := acc\<rparr>) @ map page_url (take k nums)"
      using fetch_remaining_requested by blast
    then show ?thesis by auto
  qed
  have stop: "\<exists>ns. requested st @ [base_url] = requested st @ base_url # map page_url ns"
    by (rule exI[of _ "[]"]) simp
  show ?thesis
    unfolding search_pages_def Let_def
    using loop stop
    by (simp split: sum.splits prod.splits option.splits)
qed

lemma type_sum_landcom:
  "type_sum LANDCOM_PROPERTY_TYPES pts =
     8 * int (count_list pts ''homesite'') + 4 * int (count_list pts ''recreational'')
     + 3584 * int (count_list pts ''waterfront'') + 32 * int (count_list pts ''undeveloped'')
     + 64 * int (count_list pts ''commercial'')"
  by (induction pts) (auto simp: type_sum_def LANDCOM_PROPERTY_TYPES_def)

lemma type_sum_landwatch:
  "type_sum LANDWATCH_PROPERTY_TYPES pts =
     4 * int (count_list pts ''recreational'') + 32 * int (count_list pts ''undeveloped'')
     + 64 * int (count_list pts ''commercial'') + 4096 * int (count_list pts ''homesite'')
     + 3584 * int (count_list pts ''waterfront'')"
  by (induction pts) (auto simp: type_sum_def LANDWATCH_PROPERTY_TYPES_def)

lemma type_filter_eq:
  assumes "0 \<le> type_sum table pts"
  shows "type_filter dflt table pts = (if type_sum table pts = 0 then dflt else type_sum table pts)"
  using assms by (cases pts) (auto simp: type_filter_def type_sum_def)

lemma landcom_requested:
  "\<exists>ns. requested (landcom_run repr net c s minp maxp mina maxa pts) =
     ''https://www.land.com'' #
       (case net ''https://www.land.com'' of
          Raises \<Rightarrow> []
        | Response r \<Rightarrow>
            landcom_base_url c s maxp maxa pts
              # map (landcom_page_url (landcom_base_url c s maxp maxa pts)) ns)"
proof (cases "net ''https://www.land.com''")
  case Raises
  then show ?thesis by (simp add: landcom_run_def Let_def)
next
  case (Response r)
  let ?b = "landcom_base_url c s maxp maxa pts"
  from search_pages_requested[of net ?b "landcom_page_url ?b"
         "landcom_step repr minp maxp mina maxa"
         "\<lparr>listings = [], requested = [''https://www.land.com''], raised = None\<rparr>"]
  show ?thesis using Response by (simp add: landcom_run_def Let_def)
qed

lemma landwatch_requested:
  "\<exists>ns. requested (landwatch_run repr net c s minp maxp mina maxa pts) =
     landwatch_base_url c s minp maxp mina maxa pts
       # map (landwatch_page_url (landwatch_base_url c s minp maxp mina maxa pts)) ns"
proof -
  let ?b = "landwatch_base_url c s minp maxp mina maxa pts"
  from search_pages_requested[of net ?b "landwatch_page_url ?b" "landwatch_step repr"
         "\<lparr>listings = [], requested = [], raised = None\<rparr>"]
  show ?thesis by (simp add: landwatch_run_def Let_def)
qed

lemma py_len_iter: "py_len v = Inr n \<Longrightarrow> \<exists>ps. py_iter v = Inr ps \<and> length ps = n"
  by (cases v) auto

lemma first_page_fields_len:
  "first_page_fields d = Inr (tc, props, n) \<Longrightarrow> py_len props = Inr n"
  by (auto simp: first_page_fields_def split: sum.splits)

lemma search_pages_ok:
  assumes ok: "raised (search_pages net base_url page_url step st) = None"
    and empty: "listings st = []"
  shows "requested (search_pages net base_url page_url step st) =
           requested st @ base_url # map page_url (later_page_numbers net base_url)
         \<and> listings (search_pages net base_url page_url step st) =
           concat (map (kept step) (pages_read net base_url page_url))"
proof -
  let ?st1 = "st\<lparr>requested := requested st @ [base_url]\<rparr>"
  obtain d where d: "fetch_first net base_url = Inr d"
    using ok by (cases "fetch_first net base_url") (simp_all add: search_pages_def)
  obtain tc props n where f: "first_page_fields d = Inr (tc, props, n)"
    using ok d by (cases "first_page_fields d") (auto simp: search_pages_def)
  from first_page_fields_len[OF f] py_len_iter obtain ps
    where ps: "py_iter props = Inr ps" and len: "length ps = n" by blast
  show ?thesis
  proof (cases "n > 0")
    case False
    with len have "ps = []" by simp
    with d f ps False show ?thesis
      by (simp add: search_pages_def pages_read_def first_page_records_def
            later_page_numbers_def kept_def List.map_filter_simps)
  next
    case True
    obtain tp where tp: "total_pages_of tc (int n) = Inr tp"
      using ok d f True by (cases "total_pages_of tc (int n)") (auto simp: search_pages_def)
    obtain acc err where pp: "process_props step ps [] = (acc, err)"
      by (cases "process_props step ps []")
    have err: "err = None"
      using ok d f True tp ps pp empty by (cases err) (auto simp: search_pages_def)
    with pp process_props_ok[of step ps] have acc: "acc = kept step ps" by simp
    obtain nums where nums: "page_numbers tp = Inr nums"
      using ok d f True tp ps pp err empty
      by (cases "page_numbers tp") (auto simp: search_pages_def)
    let ?st2 = "?st1\<lparr>listings := acc\<rparr>"
    have unf: "search_pages net base_url page_url step st =
               fetch_remaining net page_url step nums ?st2"
      using d f True tp ps pp err nums empty by (simp add: search_pages_def)
    with ok have "raised (fetch_remaining net page_url step nums ?st2) = None" by simp
    from fetch_remaining_ok[OF this] unf acc d f True tp ps nums show ?thesis
      by (simp add: pages_read_def first_page_records_def later_page_numbers_def comp_def)
  qed
qed

lemma search_pages_member:
  assumes "l \<in> set (listings (search_pages net base_url page_url step st))"
  shows "l \<in> set (listings st) \<or> (\<exists>p. step p = Inr (Some l))"
proof -
  let ?st1 = "st\<lparr>requested := requested st @ [base_url]\<rparr>"
  have pp: "x \<in> set acc \<Longrightarrow> process_props step ps (listings st) = (acc, err) \<Longrightarrow>
            x \<in> set (listings st) \<or> (\<exists>p. step p = Inr (Some x))" for x acc ps err
    using process_props_member[of x step ps "listings st"] by auto
  have loop: "l \<in> set (listings (fetch_remaining net page_url step nums (?st1\<lparr>listings := acc\<rparr>)))
      \<Longrightarrow> process_props step ps (listings st) = (acc, err) \<Longrightarrow> ?thesis" for nums acc ps err
    using fetch_remaining_member[of l net page_url step nums "?st1\<lparr>listings := acc\<rparr>"] pp[of l acc ps err]
    by auto
  from assms show ?thesis
    unfolding search_pages_def Let_def
    by (auto split: sum.splits prod.splits option.splits if_splits dest: pp loop)
qed

subsection \<open>The two adapters\<close>

lemma between_iff: "(between lo v hi = Inr True) = in_range lo v hi"
  by (cases v) (auto simp: between_def in_range_def)

lemma landcom_keep_iff:
  "(landcom_keep minp maxp mina maxa l = Inr True) = landcom_policy minp maxp mina maxa l"
  using between_iff[of minp "price l" maxp] between_iff[of mina "acres l" maxa]
  by (auto simp: landcom_keep_def landcom_policy_def split: sum.splits)

lemma landcom_step_iff:
  "(landcom_step repr minp maxp mina maxa p = Inr (Some l)) =
     (landcom_listing repr p = Inr l \<and> landcom_policy minp maxp mina maxa l)"
proof (cases "landcom_listing repr p")
  case (Inl e)
  then show ?thesis by (simp add: landcom_step_def)
next
  case (Inr l')
  show ?thesis
  proof (cases "landcom_keep minp maxp mina maxa l'")
    case (Inl e)
    with Inr landcom_keep_iff[of minp maxp mina maxa l'] show ?thesis
      by (auto simp: landcom_step_def)
  next
    case keep: (Inr b)
    with Inr landcom_keep_iff[of minp maxp mina maxa l'] show ?thesis
      by (auto simp: landcom_step_def)
  qed
qed

lemma kept_landcom:
  "kept (landcom_step repr minp maxp mina maxa) ps =
     filter (landcom_policy minp maxp mina maxa) (landcom_listings_of repr ps)"
proof (induction ps)
  case Nil
  show ?case by (simp add: kept_def landcom_listings_of_def List.map_filter_simps)
next
  case (Cons p ps)
  have tail: "landcom_listings_of repr (p # ps) =
      (case landcom_listing repr p of Inr l \<Rightarrow> l # landcom_listings_of repr ps
       | Inl e \<Rightarrow> landcom_listings_of repr ps)"
    by (simp add: landcom_listings_of_def List.map_filter_simps split: sum.splits)
  show ?case
  proof (cases "landcom_step repr minp maxp mina maxa p")
    case (Inl e)
    then have "\<And>l. landcom_listing repr p = Inr l \<Longrightarrow> \<not> landcom_policy minp maxp mina maxa l"
      using landcom_step_iff[of repr minp maxp mina maxa p] by auto
    with Inl Cons tail show ?thesis by (auto simp: kept_Cons split: sum.splits)
  next
    case (Inr r)
    show ?thesis
    proof (cases r)
      case None
      with Inr have "\<And>l. landcom_listing repr p = Inr l \<Longrightarrow> \<not> landcom_policy minp maxp mina maxa l"
        using landcom_step_iff[of repr minp maxp mina maxa p] by auto
      with Inr None Cons tail show ?thesis by (auto simp: kept_Cons split: sum.splits)
    next
      case (Some l)
      with Inr landcom_step_iff[of repr minp maxp mina maxa p l]
      have "landcom_listing repr p = Inr l" "landcom_policy minp maxp mina maxa l" by simp_all
      with Inr Some Cons tail show ?thesis by (simp add: kept_Cons)
    qed
  qed
qed

lemma landcom_run_search:
  "net ''https://www.land.com'' = Response r \<Longrightarrow>
   landcom_run repr net c s minp maxp mina maxa pts =
     search_pages net (landcom_base_url c s maxp maxa pts)
       (landcom_page_url (landcom_base_url c s maxp maxa pts))
       (landcom_step repr minp maxp mina maxa)
       \<lparr>listings = [], requested = [''https://www.land.com''], raised = None\<rparr>"
  by (simp add: landcom_run_def Let_def)

lemma landcom_run_warmup_fails:
  "net ''https://www.land.com'' = Raises \<Longrightarrow>
   landcom_run repr net c s minp maxp mina maxa pts =
     \<lparr>listings = [], requested = [''https://www.land.com''], raised = Some RequestError\<rparr>"
  by (simp add: landcom_run_def Let_def)

lemma scrape_land_com_str:
  "scrape_land_com repr net (PyStr c) sv minp maxp mina maxa pts =
     Inr (listings (landcom_run repr net c (py_format repr sv) minp maxp mina maxa pts))"
  by (simp add: scrape_land_com_def)

lemma scrape_land_com_Inr:
  "scrape_land_com repr net cv sv minp maxp mina maxa pts = Inr ls \<Longrightarrow>
   \<exists>c. cv = PyStr c \<and>
     ls = listings (landcom_run repr net c (py_format repr sv) minp maxp mina maxa pts)"
  by (cases cv) (auto simp: scrape_land_com_def)


lemma scrape_landwatch_str:
  "scrape_landwatch repr net (PyStr c) (PyStr s) minp maxp mina maxa pts =
     Inr (listings (landwatch_run repr net c s minp maxp mina maxa pts))"
  by (simp add: scrape_landwatch_def)

lemma scrape_landwatch_Inr:
  "scrape_landwatch repr net cv sv minp maxp mina maxa pts = Inr ls \<Longrightarrow>
   \<exists>c s. cv = PyStr c \<and> sv = PyStr s \<and>
     ls = listings (landwatch_run repr net c s minp maxp mina maxa pts)"
  by (cases sv; cases cv) (auto simp: scrape_landwatch_def)


lemma landcom_run_member:
  assumes "l \<in> set (listings (landcom_run repr net c s minp maxp mina maxa pts))"
  shows "\<exists>p. landcom_step repr minp maxp mina maxa p = Inr (Some l)"
proof (cases "net ''https://www.land.com''")
  case Raises
  with assms show ?thesis by (simp add: landcom_run_warmup_fails)
next
  case (Response r)
  from assms landcom_run_search[where net=net, OF Response]
    search_pages_member[of l net "landcom_base_url c s maxp maxa pts"
      "landcom_page_url (landcom_base_url c s maxp maxa pts)"
      "landcom_step repr minp maxp mina maxa"
      "\<lparr>listings = [], requested = [''https://www.land.com''], raised = None\<rparr>"]
  show ?thesis by simp
qed

lemma landwatch_run_member:
  assumes "l \<in> set (listings (landwatch_run repr net c s minp maxp mina maxa pts))"
  shows "\<exists>p. landwatch_step repr p = Inr (Some l)"
  using assms
    search_pages_member[of l net "landwatch_base_url c s minp maxp mina maxa pts"
      "landwatch_page_url (landwatch_base_url c s minp maxp mina maxa pts)"
      "landwatch_step repr" "\<lparr>listings = [], requested = [], raised = None\<rparr>"]
  by (simp add: landwatch_run_def Let_def)

lemma scrape_land_com_member:
  assumes "scrape_land_com repr net cv sv minp maxp mina maxa pts = Inr ls" and "l \<in> set ls"
  shows "\<exists>p. landcom_step repr minp maxp mina maxa p = Inr (Some l)"
  using scrape_land_com_Inr[OF assms(1)] assms(2) landcom_run_member by blast

lemma scrape_landwatch_member:
  assumes "scrape_landwatch repr net cv sv minp maxp mina maxa pts = Inr ls" and "l \<in> set ls"
  shows "\<exists>p. landwatch_step repr p = Inr (Some l)"
  using scrape_landwatch_Inr[OF assms(1)] assms(2) landwatch_run_member by blast

lemma landcom_run_ok:
  assumes "raised (landcom_run repr net c s minp maxp mina maxa pts) = None"
  shows "requested (landcom_run repr net c s minp maxp mina maxa pts) =
           ''https://www.land.com'' # landcom_base_url c s maxp maxa pts
             # map (landcom_page_url (landcom_base_url c s maxp maxa pts))
                 (later_page_numbers net (landcom_base_url c s maxp maxa pts))
         \<and> listings (landcom_run repr net c s minp maxp mina maxa pts) =
           concat (map (kept (landcom_step repr minp maxp mina maxa))
             (pages_read net (landcom_base_url c s maxp maxa pts)
                (landcom_page_url (landcom_base_url c s maxp maxa pts))))"
proof (cases "net ''https://www.land.com''")
  case Raises
  with assms show ?thesis by (simp add: landcom_run_warmup_fails)
next
  case (Response r)
  from assms search_pages_ok[of net "landcom_base_url c s maxp maxa pts"
      "landcom_page_url (landcom_base_url c s maxp maxa pts)"
      "landcom_step repr minp maxp mina maxa"
      "\<lparr>listings = [], requested = [''https://www.land.com''], raised = None\<rparr>"]
  show ?thesis by (simp add: landcom_run_search[where net=net, OF Response])
qed

lemma landwatch_run_ok:
  assumes "raised (landwatch_run repr net c s minp maxp mina maxa pts) = None"
  shows "requested (landwatch_run repr net c s minp maxp mina maxa pts) =
           landwatch_base_url c s minp maxp mina maxa pts
             # map (landwatch_page_url (landwatch_base_url c s minp maxp mina maxa pts))
                 (later_page_numbers net (landwatch_base_url c s minp maxp mina maxa pts))
         \<and> listings (landwatch_run repr net c s minp maxp mina maxa pts) =
           concat (map (kept (landwatch_step repr))
             (pages_read net (landwatch_base_url c s minp maxp mina maxa pts)
                (landwatch_page_url (landwatch_base_url c s minp maxp mina maxa pts))))"
  using assms search_pages_ok[of net "landwatch_base_url c s minp maxp mina maxa pts"
      "landwatch_page_url (landwatch_base_url c s minp maxp mina maxa pts)"
      "landwatch_step repr" "\<lparr>listings = [], requested = [], raised = None\<rparr>"]
  by (simp add: landwatch_run_def Let_def)

lemma landwatch_step_iff:
  "(landwatch_step repr p = Inr (Some l)) =
     (landwatch_listing repr p = Inr l \<and> truthy (latitude l) \<and> truthy (longitude l))"
  by (cases "landwatch_listing repr p") (auto simp: landwatch_step_def landwatch_keep_def)

lemma kept_landwatch:
  "kept (landwatch_step repr) ps = filter landwatch_keep (landwatch_listings_of repr ps)"
proof (induction ps)
  case Nil
  show ?case by (simp add: kept_def landwatch_listings_of_def List.map_filter_simps)
next
  case (Cons p ps)
  have tail: "landwatch_listings_of repr (p # ps) =
      (case landwatch_listing repr p of Inr l \<Rightarrow> l # landwatch_listings_of repr ps
       | Inl e \<Rightarrow> landwatch_listings_of repr ps)"
    by (simp add: landwatch_listings_of_def List.map_filter_simps split: sum.splits)
  show ?case
    using Cons tail
    by (cases "landwatch_listing repr p") (auto simp: kept_Cons landwatch_step_def)
qed

lemma truthy_zero: "is_zero v \<Longrightarrow> \<not> truthy v"
  by (auto simp: is_zero_def)

lemma annotate_no_reference:
  "\<not> (truthy city_lat \<and> truthy city_lon) \<Longrightarrow>
   annotate city_lat city_lon ls = Inr (map (\<lambda>l. l\<lparr>distance_to_center := Some PyNone\<rparr>) ls)"
  by (auto simp: annotate_def)

subsection \<open>Distance\<close>

lemma haversine_arg_bounds:
  fixes x y e :: real
  defines "a \<equiv> (sin ((y - x) / 2))\<^sup>2 + cos x * cos y * (sin (e / 2))\<^sup>2"
  shows "0 \<le> a \<and> a \<le> 1"
proof -
  define s where "s = (sin (e / 2))\<^sup>2"
  have s0: "0 \<le> s" by (simp add: s_def)
  have s1: "s \<le> 1"
    unfolding s_def using sin_cos_squared_add[of "e / 2"] zero_le_power2[of "cos (e / 2)"]
    by linarith
  have h: "(sin ((y - x) / 2))\<^sup>2 = (1 - cos (y - x)) / 2"
  proof -
    define t where "t = (y - x) / 2"
    have yx: "y - x = 2 * t" by (simp add: t_def)
    have "cos (2 * t) = 1 - 2 * (sin t)\<^sup>2" by (rule cos_double_sin)
    then have "(sin t)\<^sup>2 = (1 - cos (2 * t)) / 2" by simp
    then have "(sin t)\<^sup>2 = (1 - cos (y - x)) / 2" by (simp only: yx)
    then show ?thesis by (simp only: t_def)
  qed
  have p: "cos x * cos y = (cos (y - x) + cos (x + y)) / 2"
    by (simp add: cos_add cos_diff)
  have a: "a = 1 / 2 - (1 - s) * cos (y - x) / 2 + s * cos (x + y) / 2"
    unfolding a_def s_def[symmetric] h p by (simp add: field_simps)
  have c1: "(1 - s) * cos (y - x) \<le> (1 - s) * 1"
    using s1 by (intro mult_left_mono) simp_all
  have c2: "(1 - s) * (- 1) \<le> (1 - s) * cos (y - x)"
    using s1 by (intro mult_left_mono) simp_all
  have c3: "s * cos (x + y) \<le> s * 1"
    using s0 by (intro mult_left_mono) simp_all
  have c4: "s * (- 1) \<le> s * cos (x + y)"
    using s0 by (intro mult_left_mono) simp_all
  from a c1 c2 c3 c4 show ?thesis by simp
qed




lemma haversine_arg_double:
  fixes y x e :: real
  shows "(sin ((y - x) / 2))\<^sup>2 + cos x * cos y * (sin (e / 2))\<^sup>2 =
         (1 - (sin x * sin y + cos x * cos y * cos e)) / 2"
proof -
  have h: "(sin (u / 2))\<^sup>2 = (1 - cos u) / 2" for u :: real
  proof -
    define t where "t = u / 2"
    have u: "u = 2 * t" by (simp add: t_def)
    have "cos (2 * t) = 1 - 2 * (sin t)\<^sup>2" by (rule cos_double_sin)
    then have "(sin t)\<^sup>2 = (1 - cos (2 * t)) / 2" by simp
    then have "(sin t)\<^sup>2 = (1 - cos u) / 2" by (simp only: u)
    then show ?thesis by (simp only: t_def)
  qed
  show ?thesis
    unfolding h[of "y - x"] h[of e] cos_diff by (simp add: field_simps)
qed

lemma inner_product_points:
  "inner_product (sphere_point lon1 lat1) (sphere_point lon2 lat2) =
     sin (lat1 * pi / 180) * sin (lat2 * pi / 180)
     + cos (lat1 * pi / 180) * cos (lat2 * pi / 180) * cos (lon2 * pi / 180 - lon1 * pi / 180)"
  by (simp add: inner_product_def sphere_point_def cos_diff algebra_simps)

lemma half_angle_arcsin:
  fixes d a :: real
  assumes a: "a = (1 - d) / 2" and lo: "0 \<le> a" and hi: "a \<le> 1"
  shows "2 * arcsin (sqrt a) = arccos d"
proof -
  from a lo hi have d: "- 1 \<le> d" "d \<le> 1" by simp_all
  define c where "c = arccos d"
  from arccos_bounded[OF d] have c: "0 \<le> c" "c \<le> pi" by (simp_all add: c_def)
  have cosc: "cos c = d" unfolding c_def by (rule cos_arccos[OF d])
  have s0: "0 \<le> sin (c / 2)" using c by (intro sin_ge_zero) simp_all
  have "cos (2 * (c / 2)) = 1 - 2 * (sin (c / 2))\<^sup>2" by (rule cos_double_sin)
  with cosc a have "(sin (c / 2))\<^sup>2 = a" by simp
  then have "sqrt a = \<bar>sin (c / 2)\<bar>" by (simp add: real_sqrt_abs[symmetric] del: real_sqrt_abs)
  with s0 have "sqrt a = sin (c / 2)" by simp
  moreover have "arcsin (sin (c / 2)) = c / 2" using c by (intro arcsin_sin) simp_all
  ultimately show ?thesis by (simp add: c_def)
qed

lemma haversine_great_circle:
  "haversine_miles lon1 lat1 lon2 lat2 = py_round2 (great_circle_miles lon1 lat1 lon2 lat2)"
proof -
  let ?a = "(sin ((radians lat2 - radians lat1) / 2))\<^sup>2
            + cos (radians lat1) * cos (radians lat2) * (sin ((radians lon2 - radians lon1) / 2))\<^sup>2"
  let ?d = "inner_product (sphere_point lon1 lat1) (sphere_point lon2 lat2)"
  from haversine_arg_bounds[of "radians lat2" "radians lat1" "radians lon2 - radians lon1"]
  have b: "0 \<le> ?a" "?a \<le> 1" by simp_all
  have "?a = (1 - ?d) / 2"
    unfolding inner_product_points haversine_arg_double by (simp add: radians_def)
  from half_angle_arcsin[OF this b] have h: "2 * arcsin (sqrt ?a) = arccos ?d" .
  show ?thesis
    unfolding haversine_miles_def Let_def great_circle_miles_def h by (rule refl)
qed




lemma great_circle_meridian:
  assumes "\<bar>lat2 - lat1\<bar> \<le> 180"
  shows "great_circle_miles lon lat1 lon lat2 = 3956 * (\<bar>lat2 - lat1\<bar> * pi / 180)"
proof -
  define t where "t = (lat2 - lat1) * pi / 180"
  have d: "inner_product (sphere_point lon lat1) (sphere_point lon lat2) = cos t"
    unfolding inner_product_points t_def
    by (simp add: cos_diff algebra_simps diff_divide_distrib)
  have a: "\<bar>t\<bar> = \<bar>lat2 - lat1\<bar> * pi / 180" by (simp add: t_def abs_mult)
  from assms have "\<bar>lat2 - lat1\<bar> * pi / 180 \<le> pi" by simp
  with a have "\<bar>t\<bar> \<le> pi" by (simp only:)
  from arccos_cos_eq_abs[OF this] a have "arccos (cos t) = \<bar>lat2 - lat1\<bar> * pi / 180"
    by (simp only:)
  then show ?thesis unfolding great_circle_miles_def d by (simp only:)
qed

lemma great_circle_same: "great_circle_miles lon lat lon lat = 0"
  using great_circle_meridian[of lat lat lon] by simp


subsection \<open>A bound on pi\<close>



subsection \<open>The route\<close>









lemma set_distances_map:
  "set_distances city_lat city_lon ls = Inr out \<Longrightarrow>
   out = map (\<lambda>l. l\<lparr>distance_to_center := Some
            (if truthy (latitude l) \<and> truthy (longitude l) then
               (case haversine city_lon city_lat (longitude l) (latitude l) of
                  Inr d \<Rightarrow> d | Inl e \<Rightarrow> PyNone)
             else PyNone)\<rparr>) ls
   \<and> (\<forall>l\<in>set ls. truthy (latitude l) \<and> truthy (longitude l) \<longrightarrow>
         (\<exists>d. haversine city_lon city_lat (longitude l) (latitude l) = Inr d))"
proof (induction ls arbitrary: out)
  case Nil
  then show ?case by simp
next
  case (Cons l ls)
  from Cons.prems obtain out' where tl: "set_distances city_lat city_lon ls = Inr out'"
    by (cases "set_distances city_lat city_lon ls") (auto split: if_splits sum.splits)
  from Cons.IH[OF tl] Cons.prems tl show ?case
    by (auto split: if_splits sum.splits)
qed

lemma annotate_map:
  assumes "annotate city_lat city_lon ls = Inr out"
  shows "out = map (\<lambda>l. l\<lparr>distance_to_center := Some (distance_of city_lat city_lon l)\<rparr>) ls
   \<and> (\<forall>l\<in>set ls. truthy city_lat \<and> truthy city_lon \<and> truthy (latitude l) \<and> truthy (longitude l)
         \<longrightarrow> (\<exists>d. haversine city_lon city_lat (longitude l) (latitude l) = Inr d))"
proof (cases "truthy city_lat \<and> truthy city_lon")
  case True
  with assms have "set_distances city_lat city_lon ls = Inr out" by (simp add: annotate_def)
  from set_distances_map[OF this] True show ?thesis by (simp add: distance_of_def)
next
  case False
  with assms show ?thesis by (auto simp: annotate_def distance_of_def)
qed

lemma get_listings_Listings:
  assumes "get_listings db repr net city_id minp maxp mina maxa sources pts = Inr (Listings out)"
  shows "\<exists>cid row ls. city_id = Some cid \<and> cid \<noteq> 0 \<and> db cid = Some row \<and>
           collect_listings repr net (row_city row) (row_state row) minp maxp mina maxa
             sources pts = Inr ls \<and>
           annotate (row_latitude row) (row_longitude row) ls = Inr out"
  using assms unfolding get_listings_def
  by (auto split: option.splits if_splits sum.splits)

lemma collect_both:
  "sources = [] \<or> (''landcom'' \<in> set sources \<and> ''landwatch'' \<in> set sources) \<Longrightarrow>
   collect_listings repr net cv sv minp maxp mina maxa sources pts =
     (case scrape_land_com repr net cv sv minp maxp mina maxa pts of
        Inl e \<Rightarrow> Inl e
      | Inr a \<Rightarrow>
          (case scrape_landwatch repr net cv sv minp maxp mina maxa pts of
             Inl e \<Rightarrow> Inl e
           | Inr b \<Rightarrow> Inr (a @ b)))"
  by (auto simp: collect_listings_def Let_def split: sum.splits)

lemma scraped_no_distance:
  "(scrape_land_com repr net cv sv minp maxp mina maxa pts = Inr ls
     \<or> scrape_landwatch repr net cv sv minp maxp mina maxa pts = Inr ls) \<Longrightarrow> l \<in> set ls \<Longrightarrow>
   distance_to_center l = None"
proof -
  have a: "landcom_listing repr p = Inr l \<Longrightarrow> distance_to_center l = None" for p
    by (cases p) auto
  have b: "landwatch_listing repr p = Inr l \<Longrightarrow> distance_to_center l = None" for p
    by (cases p) auto
  assume "scrape_land_com repr net cv sv minp maxp mina maxa pts = Inr ls
     \<or> scrape_landwatch repr net cv sv minp maxp mina maxa pts = Inr ls" and "l \<in> set ls"
  then show ?thesis
    using scrape_land_com_member[of repr net cv sv minp maxp mina maxa pts ls l]
      scrape_landwatch_member[of repr net cv sv minp maxp mina maxa pts ls l]
      landcom_step_iff[of repr minp maxp mina maxa _ l] landwatch_step_iff[of repr _ l] a b
    by blast
qed







lemma search_pages_loop:
  "first_page_state net base_url step st = Some (st2, nums) \<Longrightarrow>
   search_pages net base_url page_url step st = fetch_remaining net page_url step nums st2"
  unfolding first_page_state_def search_pages_def Let_def
  by (auto split: sum.splits prod.splits option.splits if_splits)

lemma fetch_remaining_malformed:
  assumes before: "raised (fetch_remaining net page_url step before st) = None"
    and page: "fetch_next net (page_url n) = Inl e"
  shows "fetch_remaining net page_url step (before @ n # later) st =
     (fetch_remaining net page_url step before st)
       \<lparr>requested := requested (fetch_remaining net page_url step before st) @ [page_url n],
         raised := Some e\<rparr>"
  using fetch_remaining_append[OF before, of "n # later"] page by simp

lemma fetch_next_malformed:
  "net url = Response r \<Longrightarrow> status_code r = 200 \<Longrightarrow> json_body r = Malformed \<Longrightarrow>
   fetch_next net url = Inl JSONDecodeError"
  by (simp add: fetch_next_def)

lemma fetch_next_status:
  "net url = Response r \<Longrightarrow> status_code r \<noteq> 200 \<Longrightarrow> fetch_next net url = Inr None"
  by (simp add: fetch_next_def)

lemma landwatch_run_search:
  "landwatch_run repr net c s minp maxp mina maxa pts =
     search_pages net (landwatch_base_url c s minp maxp mina maxa pts)
       (landwatch_page_url (landwatch_base_url c s minp maxp mina maxa pts))
       (landwatch_step repr) \<lparr>listings = [], requested = [], raised = None\<rparr>"
  by (simp add: landwatch_run_def Let_def)

lemma floor_log2:
  fixes x :: real
  assumes "2 ^ n \<le> x" "x < 2 * 2 ^ n"
  shows "\<lfloor>log 2 \<bar>x\<bar>\<rfloor> = int n"
proof -
  have p: "0 < (2::real) ^ n" by simp
  with assms have x: "0 < x" by linarith
  have a: "2 powr (real_of_int (int n)) = (2::real) ^ n"
    by (simp add: powr_realpow)
  have b: "2 powr (real_of_int (int n + 1)) = (2::real) * 2 ^ n"
    by (simp add: powr_add powr_realpow)
  from x have "\<lfloor>log 2 x\<rfloor> = int n \<longleftrightarrow>
      2 powr (real_of_int (int n)) \<le> x \<and> x < 2 powr (real_of_int (int n + 1))"
    by (intro floor_log_eq_powr_iff) simp_all
  with assms a b x show ?thesis by (simp del: of_int_add of_int_of_nat_eq)
qed

lemma float_round_eq:
  fixes x :: real
  assumes lo: "2 ^ n \<le> x" and hi: "x < 2 * 2 ^ n" and n: "n \<le> 52"
    and r: "round_half_even (x * 2 ^ (52 - n)) = k"
  shows "float_round x = real_of_int k / 2 ^ (52 - n)"
proof -
  have p: "0 < (2::real) ^ n" by simp
  with lo have x: "x \<noteq> 0" by linarith
  have u: "2 powr (real_of_int (int n) - 52) = 1 / (2::real) ^ (52 - n)"
  proof -
    from n have "real_of_int (int n) - 52 = - real (52 - n)" by simp
    then show ?thesis
      by (simp only: powr_minus powr_realpow[OF zero_less_numeral] inverse_eq_divide)
  qed
  have m: "max (int n) (- 1022) = int n" by simp
  show ?thesis
    unfolding float_round_def Let_def floor_log2[OF lo hi] m u using x r by simp
qed

lemma float_round_int:
  assumes lo: "2 ^ n \<le> real_of_int i" and hi: "real_of_int i < 2 * 2 ^ n" and n: "n \<le> 52"
  shows "float_round (real_of_int i) = real_of_int i"
proof -
  have "real_of_int i * 2 ^ (52 - n) = real_of_int (i * 2 ^ (52 - n))" by simp
  then have "round_half_even (real_of_int i * 2 ^ (52 - n)) = i * 2 ^ (52 - n)"
    by (simp only: round_half_even_def Let_def floor_of_int) simp
  from float_round_eq[OF lo hi n this] show ?thesis by simp
qed

text \<open>A page count that the rounding of the float addition decides: the float next below
  501, with 25 records on the first page. \<^verbatim>\<open>total_count + 25\<close> rounds up to 526, the
  quotient is 21.0, and \<^verbatim>\<open>min\<close> gives the int 20.\<close>

lemma total_pages_float_rounds:
  "total_pages_of (PyFloat (501 - 1 / 2 ^ 44)) 25 = Inr (PyInt 20)"
proof -
  have f: "\<lfloor>526 * 2 ^ 43 - 1 / 2 :: real\<rfloor> = 526 * 2 ^ 43 - 1"
    by (intro floor_unique) simp_all
  have r: "round_half_even ((526 - 1 / 2 ^ 44) * 2 ^ (52 - 9)) = 526 * 2 ^ 43"
  proof -
    have "((526 - 1 / 2 ^ 44) * 2 ^ (52 - 9) :: real) = 526 * 2 ^ 43 - 1 / 2" by simp
    then show ?thesis unfolding round_half_even_def Let_def by (simp only: f) simp
  qed
  from float_round_eq[of 9, OF _ _ _ r] have fl526: "float_round (526 - 1 / 2 ^ 44) = 526"
    by simp
  have a: "(501 - 1 / 2 ^ 44 + real_of_int 25 :: real) = 526 - 1 / 2 ^ 44" by simp
  have fl525: "float_round 525 = 525" using float_round_int[of 9 525] by simp
  have fl21: "float_round 21 = 21" using float_round_int[of 4 21] by simp
  have m: "float_fmod 525 25 = 0" by (simp add: float_fmod_def)
  have d: "float_floordiv 525 25 = 21"
    by (simp add: float_floordiv_def Let_def m fl525 fl21)
  have "float_round (float_round (501 - 1 / 2 ^ 44 + real_of_int 25) - 1) = 525"
    unfolding a fl526 using fl525 by simp
  then show ?thesis using d by (simp only: total_pages_of.simps Let_def) simp
qed

lemma ceil_div:
  fixes a n :: int
  assumes "0 < n"
  shows "(a + n - 1) div n = \<lceil>real_of_int a / real_of_int n\<rceil>"
proof -
  define q where "q = (a + n - 1) div n"
  have m: "a + n - 1 = n * q + (a + n - 1) mod n" by (simp add: q_def)
  have r0: "0 \<le> (a + n - 1) mod n" "(a + n - 1) mod n < n" using assms by simp_all
  have lo: "(q - 1) * n < a" using m r0 by (simp add: algebra_simps)
  have hi: "a \<le> q * n" using m r0 by (simp add: algebra_simps)
  from lo have "real_of_int ((q - 1) * n) < real_of_int a" by (simp only: of_int_less_iff)
  then have lo': "real_of_int q - 1 < real_of_int a / real_of_int n"
    using assms by (simp add: pos_less_divide_eq)
  from hi have "real_of_int a \<le> real_of_int (q * n)" by (simp only: of_int_le_iff)
  then have hi': "real_of_int a / real_of_int n \<le> real_of_int q"
    using assms by (simp add: pos_divide_le_eq)
  from ceiling_unique[OF lo' hi'] show ?thesis by (simp add: q_def)
qed

lemma total_pages_int:
  "0 < n \<Longrightarrow>
   total_pages_of (PyInt tc) (int n) = Inr (PyInt (min \<lceil>real_of_int tc / real n\<rceil> 20))"
  using ceil_div[of "int n" tc] by simp

lemma later_page_numbers_int:
  "fetch_first net base_url = Inr d \<Longrightarrow> first_page_fields d = Inr (PyInt tc, props, n) \<Longrightarrow>
   0 < n \<Longrightarrow>
   later_page_numbers net base_url = [2..min \<lceil>real_of_int tc / real n\<rceil> 20]"
  using ceil_div[of "int n" tc] by (simp add: later_page_numbers_def)

lemma search_pages_empty_first_page:
  "fetch_first net base_url = Inr d \<Longrightarrow> first_page_fields d = Inr (tc, props, 0) \<Longrightarrow>
   search_pages net base_url page_url step st =
     st\<lparr>requested := requested st @ [base_url], listings := []\<rparr>"
  by (simp add: search_pages_def)

lemma length_pages: "Suc (length [2..k]) = nat (max 1 k)"
  by (auto simp: max_def)


lemma landcom_listing_id:
  "landcom_listing repr p = Inr l \<Longrightarrow>
   \<exists>kvs. p = PyDict kvs \<and>
     listing_id l = ''landcom_'' @ py_format repr (dict_get kvs ''siteListingId'' (PyStr []))"
  by (cases p) auto

lemma landwatch_listing_id:
  "landwatch_listing repr p = Inr l \<Longrightarrow>
   \<exists>kvs. p = PyDict kvs \<and>
     listing_id l = ''landwatch_'' @ py_format repr (dict_get kvs ''lwPropertyId'' (PyStr []))"
  by (cases p) auto

lemma scrape_land_com_id:
  assumes "scrape_land_com repr net cv sv minp maxp mina maxa pts = Inr ls" and "l \<in> set ls"
  shows "\<exists>kvs. landcom_listing repr (PyDict kvs) = Inr l \<and>
     listing_id l = ''landcom_'' @ py_format repr (dict_get kvs ''siteListingId'' (PyStr []))"
proof -
  from scrape_land_com_member[OF assms] obtain p
    where "landcom_step repr minp maxp mina maxa p = Inr (Some l)" by blast
  then have p: "landcom_listing repr p = Inr l" by (simp add: landcom_step_iff)
  from landcom_listing_id[OF p] p show ?thesis by blast
qed

lemma scrape_landwatch_id:
  assumes "scrape_landwatch repr net cv sv minp maxp mina maxa pts = Inr ls" and "l \<in> set ls"
  shows "\<exists>kvs. landwatch_listing repr (PyDict kvs) = Inr l \<and>
     listing_id l = ''landwatch_'' @ py_format repr (dict_get kvs ''lwPropertyId'' (PyStr []))"
proof -
  from scrape_landwatch_member[OF assms] obtain p
    where "landwatch_step repr p = Inr (Some l)" by blast
  then have p: "landwatch_listing repr p = Inr l" by (simp add: landwatch_step_iff)
  from landwatch_listing_id[OF p] p show ?thesis by blast
qed

lemma kept_ids:
  assumes id: "\<And>p l. step p = Inr (Some l) \<Longrightarrow> listing_id l = pre @ native_id_text repr k p"
  shows "map listing_id (kept step ps) = map (\<lambda>p. pre @ native_id_text repr k p) (kept_records step ps)"
proof (induction ps)
  case Nil
  show ?case by (simp add: kept_def kept_records_def List.map_filter_simps)
next
  case (Cons p ps)
  have r: "kept_records step (p # ps) =
      (case step p of Inr (Some l) \<Rightarrow> p # kept_records step ps | _ \<Rightarrow> kept_records step ps)"
    by (simp add: kept_records_def split: sum.splits option.splits)
  show ?case
  proof (cases "step p")
    case (Inl e)
    with Cons r show ?thesis by (simp add: kept_Cons)
  next
    case (Inr o1)
    show ?thesis
    proof (cases o1)
      case None
      with Inr Cons r show ?thesis by (simp add: kept_Cons)
    next
      case (Some l)
      with Inr id[of p l] Cons r show ?thesis by (simp add: kept_Cons)
    qed
  qed
qed

lemma pages_ids:
  assumes id: "\<And>p l. step p = Inr (Some l) \<Longrightarrow> listing_id l = pre @ native_id_text repr k p"
  shows "map listing_id (concat (map (kept step) pages)) =
         map (\<lambda>p. pre @ native_id_text repr k p) (concat (map (kept_records step) pages))"
  by (induction pages) (simp_all add: kept_ids[of step pre repr k, OF id])

lemma distinct_prefixed:
  "distinct (map (\<lambda>p. pre @ f p) ps) = distinct (map f ps)"
  by (simp add: distinct_map inj_on_def)

lemma landwatch_step_id:
  "landwatch_step repr p = Inr (Some l) \<Longrightarrow>
   listing_id l = ''landwatch_'' @ native_id_text repr ''lwPropertyId'' p"
  by (cases p) (auto simp: landwatch_step_iff native_id_text_def)

lemma landcom_step_id:
  "landcom_step repr minp maxp mina maxa p = Inr (Some l) \<Longrightarrow>
   listing_id l = ''landcom_'' @ native_id_text repr ''siteListingId'' p"
  by (cases p) (auto simp: landcom_step_iff native_id_text_def)

lemma prefixes_differ: "''landcom_'' @ x \<noteq> ''landwatch_'' @ y"
  by simp

lemma annotate_listing_id:
  "annotate city_lat city_lon ls = Inr out \<Longrightarrow> map listing_id out = map listing_id ls"
  using annotate_map[of city_lat city_lon ls out] by (simp add: comp_def)

subsection \<open>The example runs\<close>

lemma demo_urls:
  "landcom_base_url ''Austin'' ''TX'' 1000000 100 [] = demo_landcom_url"
  "landwatch_base_url ''Austin'' ''TX'' 0 1000000 0 100 [] = demo_landwatch_url"
  by (simp_all add: landcom_base_url_def landwatch_base_url_def demo_landcom_url_def
        demo_landwatch_url_def landcom_type_filter_def landwatch_type_filter_def type_filter_def
        STATE_CODE_TO_NAME_def slug_def py_lower_def lower_char_def str_int_def str_nat.simps)

lemma demo_landwatch_run:
  "landwatch_run demo_repr demo_net ''Austin'' ''TX'' 0 1000000 0 100 [] =
     \<lparr>listings = [demo_listing ''landwatch_7'' ''LandWatch'' ''https://www.landwatch.com''
                     (PyFloat 30.25) (PyFloat (- 97.75)) (PyInt 0) (PyInt 5000000)],
       requested = [demo_landwatch_url], raised = None\<rparr>"
  by (simp add: landwatch_run_def demo_urls search_pages_def fetch_first_def demo_net_def
        demo_landwatch_url_def demo_landcom_url_def answer_def page_of_def landwatch_record_def
        first_page_fields_def dict_get_def landwatch_step_def landwatch_keep_def demo_listing_def
        str_int_def str_nat.simps)

lemma demo_landcom_run:
  "landcom_run demo_repr demo_net ''Austin'' ''TX'' 0 1000000 0 100 [] =
     \<lparr>listings = [demo_listing ''landcom_1'' ''Land.com'' ''https://www.land.com''
                     (PyFloat 30.25) (PyFloat (- 97.75)) (PyInt 5) PyNone,
                   demo_listing ''landcom_3'' ''Land.com'' ''https://www.land.com''
                     (PyFloat 30.75) (PyFloat (- 97.25)) (PyInt 10) (PyInt 50000)],
       requested = [''https://www.land.com'', demo_landcom_url, demo_landcom_url @ ''page-2/''],
       raised = None\<rparr>"
  by (simp add: landcom_run_def demo_urls search_pages_def fetch_first_def fetch_next_def demo_net_def
        demo_landcom_url_def site_root_def answer_def page_of_def landcom_record_def
        first_page_fields_def page_properties_def dict_get_def landcom_step_def landcom_keep_def
        between_def demo_listing_def landcom_page_url_def
        str_int_def str_nat.simps upto.simps)

lemma haversine_miles_same: "haversine_miles x y x y = 0"
  by (simp add: haversine_great_circle great_circle_same py_round2_def round_half_even_def)

lemma demo_scrapes:
  "scrape_land_com demo_repr demo_net (PyStr ''Austin'') (PyStr ''TX'') 0 1000000 0 100 [] =
     Inr [demo_listing ''landcom_1'' ''Land.com'' ''https://www.land.com''
            (PyFloat 30.25) (PyFloat (- 97.75)) (PyInt 5) PyNone,
          demo_listing ''landcom_3'' ''Land.com'' ''https://www.land.com''
            (PyFloat 30.75) (PyFloat (- 97.25)) (PyInt 10) (PyInt 50000)]"
  "scrape_landwatch demo_repr demo_net (PyStr ''Austin'') (PyStr ''TX'') 0 1000000 0 100 [] =
     Inr [demo_listing ''landwatch_7'' ''LandWatch'' ''https://www.landwatch.com''
            (PyFloat 30.25) (PyFloat (- 97.75)) (PyInt 0) (PyInt 5000000)]"
  by (simp_all add: scrape_land_com_def scrape_landwatch_def demo_landcom_run demo_landwatch_run)

lemma demo_get_listings:
  "get_listings demo_db demo_repr demo_net (Some 1) 0 1000000 0 100 [] [] =
     Inr (Listings
       [(demo_listing ''landcom_1'' ''Land.com'' ''https://www.land.com''
           (PyFloat 30.25) (PyFloat (- 97.75)) (PyInt 5) PyNone)
          \<lparr>distance_to_center := Some (PyFloat 0)\<rparr>,
        (demo_listing ''landcom_3'' ''Land.com'' ''https://www.land.com''
           (PyFloat 30.75) (PyFloat (- 97.25)) (PyInt 10) (PyInt 50000))
          \<lparr>distance_to_center := Some (PyFloat (haversine_miles (- 97.75) 30.25 (- 97.25) 30.75))\<rparr>,
        (demo_listing ''landwatch_7'' ''LandWatch'' ''https://www.landwatch.com''
           (PyFloat 30.25) (PyFloat (- 97.75)) (PyInt 0) (PyInt 5000000))
          \<lparr>distance_to_center := Some (PyFloat 0)\<rparr>])"
  by (simp add: get_listings_def demo_db_def collect_listings_def demo_scrapes annotate_def
        haversine_def demo_listing_def haversine_miles_same)





lemma paged_landwatch_first:
  "first_page_state (paged_landwatch page2) demo_landwatch_url (landwatch_step demo_repr)
     \<lparr>listings = [], requested = [], raised = None\<rparr> =
   Some (\<lparr>listings = [demo_listing ''landwatch_7'' ''LandWatch'' ''https://www.landwatch.com''
                        (PyFloat 30.25) (PyFloat (- 97.75)) (PyInt 0) (PyInt 5000000)],
          requested = [demo_landwatch_url], raised = None\<rparr>, [2, 3])"
  by (simp add: first_page_state_def paged_landwatch_def fetch_first_def answer_def page_of_def
        landwatch_record_def first_page_fields_def dict_get_def landwatch_step_def
        landwatch_keep_def demo_listing_def str_int_def str_nat.simps upto.simps)

lemma paged_landwatch_loop:
  "landwatch_run demo_repr (paged_landwatch page2) ''Austin'' ''TX'' 0 1000000 0 100 [] =
     fetch_remaining (paged_landwatch page2) (landwatch_page_url demo_landwatch_url)
       (landwatch_step demo_repr) [2, 3]
       \<lparr>listings = [demo_listing ''landwatch_7'' ''LandWatch'' ''https://www.landwatch.com''
                        (PyFloat 30.25) (PyFloat (- 97.75)) (PyInt 0) (PyInt 5000000)],
          requested = [demo_landwatch_url], raised = None\<rparr>"
  by (simp add: landwatch_run_def demo_urls search_pages_loop[OF paged_landwatch_first])

lemma paged_landwatch_malformed_run:
  "landwatch_run demo_repr (paged_landwatch malformed_page) ''Austin'' ''TX'' 0 1000000 0 100 [] =
     \<lparr>listings = [demo_listing ''landwatch_7'' ''LandWatch'' ''https://www.landwatch.com''
                     (PyFloat 30.25) (PyFloat (- 97.75)) (PyInt 0) (PyInt 5000000)],
       requested = [demo_landwatch_url, demo_landwatch_url @ ''/page-2''],
       raised = Some JSONDecodeError\<rparr>"
  unfolding paged_landwatch_loop
  by (simp add: landwatch_page_url_def fetch_next_def paged_landwatch_def malformed_page_def
        demo_landwatch_url_def str_int_def str_nat.simps)

lemma paged_landwatch_error_run:
  "landwatch_run demo_repr (paged_landwatch error_page) ''Austin'' ''TX'' 0 1000000 0 100 [] =
     \<lparr>listings = [demo_listing ''landwatch_7'' ''LandWatch'' ''https://www.landwatch.com''
                     (PyFloat 30.25) (PyFloat (- 97.75)) (PyInt 0) (PyInt 5000000),
                   demo_listing ''landwatch_9'' ''LandWatch'' ''https://www.landwatch.com''
                     (PyFloat 30.5) (PyFloat (- 97.5)) (PyInt 2) (PyInt 9000)],
       requested = [demo_landwatch_url, demo_landwatch_url @ ''/page-2'',
                    demo_landwatch_url @ ''/page-3''],
       raised = None\<rparr>"
  unfolding paged_landwatch_loop
  by (simp add: landwatch_page_url_def fetch_next_def paged_landwatch_def error_page_def
        demo_landwatch_url_def str_int_def str_nat.simps answer_def page_of_def
        landwatch_record_def page_properties_def dict_get_def landwatch_step_def
        landwatch_keep_def demo_listing_def)


lemma count_missing_run:
  "landwatch_run demo_repr count_missing ''Austin'' ''TX'' 0 1000000 0 100 [] =
     \<lparr>listings = [demo_listing ''landwatch_7'' ''LandWatch'' ''https://www.landwatch.com''
                     (PyFloat 30.25) (PyFloat (- 97.75)) (PyInt 0) (PyInt 5000000)],
       requested = [demo_landwatch_url], raised = None\<rparr>"
  by (simp add: landwatch_run_def demo_urls search_pages_def fetch_first_def count_missing_def
        answer_def landwatch_record_def
        first_page_fields_def dict_get_def landwatch_step_def landwatch_keep_def demo_listing_def
        str_int_def str_nat.simps)

lemma count_missing_first_page:
  "fetch_first count_missing demo_landwatch_url =
     Inr (PyDict [(''searchResults'', PyDict [(''propertyResults'', PyList
          [landwatch_record (PyInt 7) (PyFloat 30.25) (PyFloat (- 97.75)) (PyInt 0) (PyInt 5000000)])])])"
  "first_page_fields (PyDict [(''searchResults'', PyDict [(''propertyResults'', PyList
          [landwatch_record (PyInt 7) (PyFloat 30.25) (PyFloat (- 97.75)) (PyInt 0) (PyInt 5000000)])])]) =
     Inr (PyInt 0, PyList
          [landwatch_record (PyInt 7) (PyFloat 30.25) (PyFloat (- 97.75)) (PyInt 0) (PyInt 5000000)], 1)"
  by (simp_all add: fetch_first_def count_missing_def answer_def first_page_fields_def dict_get_def)

lemma demo_landcom_first_page:
  "fetch_first demo_net demo_landcom_url =
     Inr (page_of (PyInt 3)
          [landcom_record (PyInt 1) (PyFloat 30.25) (PyFloat (- 97.75)) (PyInt 5) PyNone,
           landcom_record (PyInt 2) (PyFloat 30.5) (PyFloat (- 97.5)) PyNone PyNone])"
  "first_page_fields (page_of (PyInt 3)
          [landcom_record (PyInt 1) (PyFloat 30.25) (PyFloat (- 97.75)) (PyInt 5) PyNone,
           landcom_record (PyInt 2) (PyFloat 30.5) (PyFloat (- 97.5)) PyNone PyNone]) =
     Inr (PyInt 3, PyList
          [landcom_record (PyInt 1) (PyFloat 30.25) (PyFloat (- 97.75)) (PyInt 5) PyNone,
           landcom_record (PyInt 2) (PyFloat 30.5) (PyFloat (- 97.5)) PyNone PyNone], 2)"
  by (simp_all add: fetch_first_def demo_net_def demo_landcom_url_def answer_def page_of_def
        first_page_fields_def dict_get_def)

lemma no_results_first_page:
  "fetch_first no_results demo_landwatch_url = Inr (page_of (PyInt 0) [])"
  "first_page_fields (page_of (PyInt 0) []) = Inr (PyInt 0, PyList [], 0)"
  by (simp_all add: fetch_first_def no_results_def answer_def page_of_def first_page_fields_def
        dict_get_def)

lemma repeated_listing_run:
  "landwatch_run demo_repr repeated_listing ''Austin'' ''TX'' 0 1000000 0 100 [] =
     \<lparr>listings = [demo_listing ''landwatch_7'' ''LandWatch'' ''https://www.landwatch.com''
                     (PyFloat 30.25) (PyFloat (- 97.75)) (PyInt 0) (PyInt 5000000),
                   demo_listing ''landwatch_7'' ''LandWatch'' ''https://www.landwatch.com''
                     (PyFloat 30.25) (PyFloat (- 97.75)) (PyInt 0) (PyInt 5000000)],
       requested = [demo_landwatch_url, demo_landwatch_url @ ''/page-2''], raised = None\<rparr>"
  by (simp add: landwatch_run_def demo_urls search_pages_def fetch_first_def fetch_next_def
        repeated_listing_def answer_def page_of_def landwatch_record_def landwatch_page_url_def
        first_page_fields_def page_properties_def dict_get_def landwatch_step_def
        landwatch_keep_def demo_listing_def str_int_def str_nat.simps upto.simps)






lemma same_id_filtered_run:
  "landwatch_run demo_repr same_id_filtered ''Austin'' ''TX'' 0 1000000 0 100 [] =
     \<lparr>listings = [demo_listing ''landwatch_7'' ''LandWatch'' ''https://www.landwatch.com''
                     (PyFloat 30.25) (PyFloat (- 97.75)) (PyInt 0) (PyInt 5000000)],
       requested = [demo_landwatch_url], raised = None\<rparr>"
  by (simp add: landwatch_run_def demo_urls search_pages_def fetch_first_def same_id_filtered_def
        answer_def page_of_def landwatch_record_def
        first_page_fields_def dict_get_def landwatch_step_def landwatch_keep_def demo_listing_def
        str_int_def str_nat.simps upto.simps)
section \<open>The claims\<close>

text \<open>
  Claim C1 (Land.com inclusion policy). A record's listing is appended to the result if
  and only if its latitude and longitude are present and either price and acres are both
  present with min_price <= price <= max_price and min_acres <= acres <= max_acres, or
  acres is present with min_acres <= acres <= max_acres and price is absent. "Present"
  is the test the code makes, Python's truth value of the field. So a record with
  coordinates and price null is included exactly when its acres are present and in
  range, and one with neither price nor acres is excluded. This holds for every record
  of every page: every listing the adapter returns satisfies the policy, and when no
  exception ends the search the result is, page after page in the order read, exactly
  the listings of the records that satisfy it.
\<close>

theorem landcom_inclusion_policy:
  "(landcom_keep minp maxp mina maxa l = Inr True) = landcom_policy minp maxp mina maxa l
   \<and> (landcom_step repr minp maxp mina maxa p = Inr (Some l)) =
       (landcom_listing repr p = Inr l \<and> landcom_policy minp maxp mina maxa l)
   \<and> (landcom_keep minp maxp mina maxa (l\<lparr>price := PyNone\<rparr>) = Inr True) =
       (truthy (latitude l) \<and> truthy (longitude l) \<and> truthy (acres l) \<and> in_range mina (acres l) maxa)
   \<and> landcom_keep minp maxp mina maxa (l\<lparr>price := PyNone, acres := PyNone\<rparr>) = Inr False
   \<and> (\<forall>ls. scrape_land_com repr net cv sv minp maxp mina maxa pts = Inr ls \<longrightarrow>
         (\<forall>x \<in> set ls. landcom_policy minp maxp mina maxa x))
   \<and> (\<exists>ls. scrape_land_com repr net (PyStr c) (PyStr s) minp maxp mina maxa pts = Inr ls
         \<and> (\<forall>x \<in> set ls. landcom_policy minp maxp mina maxa x))
   \<and> (raised (landcom_run repr net c s minp maxp mina maxa pts) = None \<longrightarrow>
         scrape_land_com repr net (PyStr c) (PyStr s) minp maxp mina maxa pts =
           Inr (concat (map (\<lambda>ps. filter (landcom_policy minp maxp mina maxa) (landcom_listings_of repr ps))
             (pages_read net (landcom_base_url c s maxp maxa pts)
                (landcom_page_url (landcom_base_url c s maxp maxa pts))))))"
proof -
  have a: "(landcom_keep minp maxp mina maxa l = Inr True) = landcom_policy minp maxp mina maxa l"
    by (rule landcom_keep_iff)
  have b: "(landcom_keep minp maxp mina maxa (l\<lparr>price := PyNone\<rparr>) = Inr True) =
       (truthy (latitude l) \<and> truthy (longitude l) \<and> truthy (acres l) \<and> in_range mina (acres l) maxa)"
    by (simp add: landcom_keep_iff landcom_policy_def)
  have c: "landcom_keep minp maxp mina maxa (l\<lparr>price := PyNone, acres := PyNone\<rparr>) = Inr False"
    by (simp add: landcom_keep_def)
  have d: "\<forall>ls. scrape_land_com repr net cv sv minp maxp mina maxa pts = Inr ls \<longrightarrow>
         (\<forall>x \<in> set ls. landcom_policy minp maxp mina maxa x)" for cv sv
    using scrape_land_com_member[of repr net cv sv minp maxp mina maxa pts]
      landcom_step_iff[of repr minp maxp mina maxa] by blast
  have d': "\<exists>ls. scrape_land_com repr net (PyStr c) (PyStr s) minp maxp mina maxa pts = Inr ls
         \<and> (\<forall>x \<in> set ls. landcom_policy minp maxp mina maxa x)"
    using d[of "PyStr c" "PyStr s"] scrape_land_com_str[of repr net c "PyStr s" minp maxp mina maxa pts]
    by blast
  have e: "raised (landcom_run repr net c s minp maxp mina maxa pts) = None \<longrightarrow>
         scrape_land_com repr net (PyStr c) (PyStr s) minp maxp mina maxa pts =
           Inr (concat (map (\<lambda>ps. filter (landcom_policy minp maxp mina maxa) (landcom_listings_of repr ps))
             (pages_read net (landcom_base_url c s maxp maxa pts)
                (landcom_page_url (landcom_base_url c s maxp maxa pts)))))"
  proof -
    have k: "kept (landcom_step repr minp maxp mina maxa) =
        (\<lambda>ps. filter (landcom_policy minp maxp mina maxa) (landcom_listings_of repr ps))"
      by (rule ext) (rule kept_landcom)
    show ?thesis
      using landcom_run_ok[of repr net c s minp maxp mina maxa pts]
      by (simp add: scrape_land_com_def k)
  qed
  from a b c d[of cv sv] d' e landcom_step_iff[of repr minp maxp mina maxa p l] show ?thesis
    by blast
qed

theorem landcom_inclusion_policy_witness:
  "raised (landcom_run demo_repr demo_net ''Austin'' ''TX'' 0 1000000 0 100 []) = None
   \<and> scrape_land_com demo_repr demo_net (PyStr ''Austin'') (PyStr ''TX'') 0 1000000 0 100 [] =
       Inr [demo_listing ''landcom_1'' ''Land.com'' ''https://www.land.com''
              (PyFloat 30.25) (PyFloat (- 97.75)) (PyInt 5) PyNone,
            demo_listing ''landcom_3'' ''Land.com'' ''https://www.land.com''
              (PyFloat 30.75) (PyFloat (- 97.25)) (PyInt 10) (PyInt 50000)]
   \<and> concat (map (\<lambda>ps. filter (landcom_policy 0 1000000 0 100) (landcom_listings_of demo_repr ps))
         (pages_read demo_net demo_landcom_url (landcom_page_url demo_landcom_url))) =
       [demo_listing ''landcom_1'' ''Land.com'' ''https://www.land.com''
          (PyFloat 30.25) (PyFloat (- 97.75)) (PyInt 5) PyNone,
        demo_listing ''landcom_3'' ''Land.com'' ''https://www.land.com''
          (PyFloat 30.75) (PyFloat (- 97.25)) (PyInt 10) (PyInt 50000)]
   \<and> landcom_policy 0 1000000 0 100
       (demo_listing ''landcom_1'' ''Land.com'' ''https://www.land.com''
          (PyFloat 30.25) (PyFloat (- 97.75)) (PyInt 5) PyNone)
   \<and> landcom_keep 0 1000000 0 100
       (demo_listing ''landcom_2'' ''Land.com'' ''https://www.land.com''
          (PyFloat 30.5) (PyFloat (- 97.5)) PyNone PyNone) = Inr False"
proof -
  let ?l1 = "demo_listing ''landcom_1'' ''Land.com'' ''https://www.land.com''
          (PyFloat 30.25) (PyFloat (- 97.75)) (PyInt 5) PyNone"
  let ?l2 = "demo_listing ''landcom_2'' ''Land.com'' ''https://www.land.com''
          (PyFloat 30.5) (PyFloat (- 97.5)) PyNone PyNone"
  let ?l3 = "demo_listing ''landcom_3'' ''Land.com'' ''https://www.land.com''
          (PyFloat 30.75) (PyFloat (- 97.25)) (PyInt 10) (PyInt 50000)"
  note t = landcom_inclusion_policy[where minp=0 and maxp=1000000 and mina=0 and maxa=100
      and repr=demo_repr and p=PyNone and net=demo_net and cv="PyStr ''Austin''"
      and sv="PyStr ''TX''" and c="''Austin''" and s="''TX''" and pts="[]"]
  have r: "raised (landcom_run demo_repr demo_net ''Austin'' ''TX'' 0 1000000 0 100 []) = None"
    by (simp add: demo_landcom_run)
  have s: "scrape_land_com demo_repr demo_net (PyStr ''Austin'') (PyStr ''TX'') 0 1000000 0 100 [] =
       Inr [?l1, ?l3]"
    by (rule demo_scrapes(1))
  from t[where l="?l1"] r s
  have c: "concat (map (\<lambda>ps. filter (landcom_policy 0 1000000 0 100) (landcom_listings_of demo_repr ps))
         (pages_read demo_net demo_landcom_url (landcom_page_url demo_landcom_url))) = [?l1, ?l3]"
    by (simp add: demo_urls)
  from t[where l="?l1"] s have p: "landcom_policy 0 1000000 0 100 ?l1" by simp
  have "?l2 = ?l2\<lparr>price := PyNone, acres := PyNone\<rparr>" by (simp add: demo_listing_def)
  with t[where l="?l2"] have k: "landcom_keep 0 1000000 0 100 ?l2 = Inr False" by simp
  from r s c p k show ?thesis by simp
qed

text \<open>
  Claim C2 (LandWatch inclusion policy). A record's listing is included in the result if
  and only if its latitude and its longitude are both present (Python's truth value of
  the field); the values of price and acres never change whether it is included. This
  holds for every record of every page: every listing the adapter returns has both
  coordinates, and when no exception ends the search the result is, page after page in
  the order read, exactly the listings of the records that have both.
\<close>

theorem landwatch_inclusion_policy:
  "(landwatch_step repr p = Inr (Some l)) =
     (landwatch_listing repr p = Inr l \<and> truthy (latitude l) \<and> truthy (longitude l))
   \<and> landwatch_keep (l\<lparr>price := price_v, acres := acres_v\<rparr>) = landwatch_keep l
   \<and> (\<exists>r. landwatch_step repr (PyDict kvs) = Inr r)
   \<and> (\<forall>ls. scrape_landwatch repr net cv sv minp maxp mina maxa pts = Inr ls \<longrightarrow>
         (\<forall>x \<in> set ls. truthy (latitude x) \<and> truthy (longitude x)))
   \<and> (\<exists>ls. scrape_landwatch repr net (PyStr c) (PyStr s) minp maxp mina maxa pts = Inr ls
         \<and> (\<forall>x \<in> set ls. truthy (latitude x) \<and> truthy (longitude x)))
   \<and> (raised (landwatch_run repr net c s minp maxp mina maxa pts) = None \<longrightarrow>
         scrape_landwatch repr net (PyStr c) (PyStr s) minp maxp mina maxa pts =
           Inr (concat (map (\<lambda>ps. filter landwatch_keep (landwatch_listings_of repr ps))
             (pages_read net (landwatch_base_url c s minp maxp mina maxa pts)
                (landwatch_page_url (landwatch_base_url c s minp maxp mina maxa pts))))))"
proof -
  have b: "landwatch_keep (l\<lparr>price := price_v, acres := acres_v\<rparr>) = landwatch_keep l"
    by (simp add: landwatch_keep_def)
  have c: "\<exists>r. landwatch_step repr (PyDict kvs) = Inr r"
    by (simp add: landwatch_step_def)
  have d: "\<forall>ls. scrape_landwatch repr net cv sv minp maxp mina maxa pts = Inr ls \<longrightarrow>
         (\<forall>x \<in> set ls. truthy (latitude x) \<and> truthy (longitude x))" for cv sv
    using scrape_landwatch_member[of repr net cv sv minp maxp mina maxa pts]
      landwatch_step_iff[of repr] by blast
  have d': "\<exists>ls. scrape_landwatch repr net (PyStr c) (PyStr s) minp maxp mina maxa pts = Inr ls
         \<and> (\<forall>x \<in> set ls. truthy (latitude x) \<and> truthy (longitude x))"
    using d[of "PyStr c" "PyStr s"] scrape_landwatch_str[of repr net c s minp maxp mina maxa pts]
    by blast
  have e: "raised (landwatch_run repr net c s minp maxp mina maxa pts) = None \<longrightarrow>
         scrape_landwatch repr net (PyStr c) (PyStr s) minp maxp mina maxa pts =
           Inr (concat (map (\<lambda>ps. filter landwatch_keep (landwatch_listings_of repr ps))
             (pages_read net (landwatch_base_url c s minp maxp mina maxa pts)
                (landwatch_page_url (landwatch_base_url c s minp maxp mina maxa pts)))))"
  proof -
    have k: "kept (landwatch_step repr) =
        (\<lambda>ps. filter landwatch_keep (landwatch_listings_of repr ps))"
      by (rule ext) (rule kept_landwatch)
    show ?thesis
      using landwatch_run_ok[of repr net c s minp maxp mina maxa pts]
      by (simp add: scrape_landwatch_def k)
  qed
  from b c d[of cv sv] d' e landwatch_step_iff[of repr p l] show ?thesis by blast
qed

theorem landwatch_inclusion_policy_witness:
  "raised (landwatch_run demo_repr demo_net ''Austin'' ''TX'' 0 1000000 0 100 []) = None
   \<and> scrape_landwatch demo_repr demo_net (PyStr ''Austin'') (PyStr ''TX'') 0 1000000 0 100 [] =
       Inr [demo_listing ''landwatch_7'' ''LandWatch'' ''https://www.landwatch.com''
              (PyFloat 30.25) (PyFloat (- 97.75)) (PyInt 0) (PyInt 5000000)]
   \<and> concat (map (\<lambda>ps. filter landwatch_keep (landwatch_listings_of demo_repr ps))
         (pages_read demo_net demo_landwatch_url (landwatch_page_url demo_landwatch_url))) =
       [demo_listing ''landwatch_7'' ''LandWatch'' ''https://www.landwatch.com''
          (PyFloat 30.25) (PyFloat (- 97.75)) (PyInt 0) (PyInt 5000000)]
   \<and> truthy (latitude (demo_listing ''landwatch_7'' ''LandWatch'' ''https://www.landwatch.com''
          (PyFloat 30.25) (PyFloat (- 97.75)) (PyInt 0) (PyInt 5000000)))"
proof -
  let ?l = "demo_listing ''landwatch_7'' ''LandWatch'' ''https://www.landwatch.com''
          (PyFloat 30.25) (PyFloat (- 97.75)) (PyInt 0) (PyInt 5000000)"
  note t = landwatch_inclusion_policy[where repr=demo_repr and p=PyNone and l="?l"
      and price_v=PyNone and acres_v=PyNone and kvs="[]" and net=demo_net
      and cv="PyStr ''Austin''" and sv="PyStr ''TX''" and c="''Austin''" and s="''TX''"
      and minp=0 and maxp=1000000 and mina=0 and maxa=100 and pts="[]"]
  have r: "raised (landwatch_run demo_repr demo_net ''Austin'' ''TX'' 0 1000000 0 100 []) = None"
    by (simp add: demo_landwatch_run)
  have s: "scrape_landwatch demo_repr demo_net (PyStr ''Austin'') (PyStr ''TX'') 0 1000000 0 100 [] =
       Inr [?l]"
    by (rule demo_scrapes(2))
  from t r s have c: "concat (map (\<lambda>ps. filter landwatch_keep (landwatch_listings_of demo_repr ps))
         (pages_read demo_net demo_landwatch_url (landwatch_page_url demo_landwatch_url))) = [?l]"
    by (simp add: demo_urls)
  from t s have p: "truthy (latitude ?l)" by simp
  from r s c p show ?thesis by simp
qed




text \<open>
  Claim C4 (a malformed body on a later page), as amended. A JSON parse failure on a page
  with number 2 or more is not treated like a status other than 200. The exception
  leaves the loop and is caught by the adapter's except clause: the search ends, the
  adapter returns the listings accumulated from the pages before, and no later page is
  requested. Only a status other than 200 skips the one page and goes on with the next
  page number.
\<close>

theorem malformed_later_page_ends_search:
  "(first_page_state net base_url step st = Some (st2, before @ n # later)
      \<and> raised (fetch_remaining net page_url step before st2) = None
      \<and> net (page_url n) = Response r \<and> status_code r = 200 \<and> json_body r = Malformed \<longrightarrow>
    search_pages net base_url page_url step st =
      (fetch_remaining net page_url step before st2)
        \<lparr>requested := requested (fetch_remaining net page_url step before st2) @ [page_url n],
          raised := Some JSONDecodeError\<rparr>)
   \<and> (net (page_url n) = Response r \<and> status_code r \<noteq> 200 \<longrightarrow>
        fetch_remaining net page_url step (n # later) st =
          fetch_remaining net page_url step later (st\<lparr>requested := requested st @ [page_url n]\<rparr>))
   \<and> landwatch_run repr net c s minp maxp mina maxa pts =
        search_pages net (landwatch_base_url c s minp maxp mina maxa pts)
          (landwatch_page_url (landwatch_base_url c s minp maxp mina maxa pts))
          (landwatch_step repr) \<lparr>listings = [], requested = [], raised = None\<rparr>
   \<and> (net ''https://www.land.com'' = Response warmup \<longrightarrow>
        landcom_run repr net c s minp maxp mina maxa pts =
          search_pages net (landcom_base_url c s maxp maxa pts)
            (landcom_page_url (landcom_base_url c s maxp maxa pts))
            (landcom_step repr minp maxp mina maxa)
            \<lparr>listings = [], requested = [''https://www.land.com''], raised = None\<rparr>)
   \<and> scrape_landwatch repr net (PyStr c) (PyStr s) minp maxp mina maxa pts =
        Inr (listings (landwatch_run repr net c s minp maxp mina maxa pts))
   \<and> scrape_land_com repr net (PyStr c) (PyStr s) minp maxp mina maxa pts =
        Inr (listings (landcom_run repr net c s minp maxp mina maxa pts))"
proof -
  have a: "search_pages net base_url page_url step st =
      (fetch_remaining net page_url step before st2)
        \<lparr>requested := requested (fetch_remaining net page_url step before st2) @ [page_url n],
          raised := Some JSONDecodeError\<rparr>"
    if f: "first_page_state net base_url step st = Some (st2, before @ n # later)"
      and b: "raised (fetch_remaining net page_url step before st2) = None"
      and r: "net (page_url n) = Response r" "status_code r = 200" "json_body r = Malformed"
    using search_pages_loop[OF f, of page_url]
      fetch_remaining_malformed[where net=net and page_url=page_url and n=n and later=later,
        OF b fetch_next_malformed[where net=net, OF r]]
    by simp
  have b: "fetch_remaining net page_url step (n # later) st =
          fetch_remaining net page_url step later (st\<lparr>requested := requested st @ [page_url n]\<rparr>)"
    if "net (page_url n) = Response r" "status_code r \<noteq> 200"
    using fetch_remaining_skip[where net=net and page_url=page_url and n=n,
        OF fetch_next_status[where net=net, OF that]] .
  from a b landwatch_run_search[of repr net c s minp maxp mina maxa pts]
    landcom_run_search[where net=net and r=warmup]
  show ?thesis by (simp add: scrape_landwatch_def scrape_land_com_def)
qed

theorem malformed_later_page_ends_search_witness:
  "landwatch_run demo_repr (paged_landwatch malformed_page) ''Austin'' ''TX'' 0 1000000 0 100 [] =
     \<lparr>listings = [demo_listing ''landwatch_7'' ''LandWatch'' ''https://www.landwatch.com''
                     (PyFloat 30.25) (PyFloat (- 97.75)) (PyInt 0) (PyInt 5000000)],
       requested = [demo_landwatch_url, landwatch_page_url demo_landwatch_url 2],
       raised = Some JSONDecodeError\<rparr>
   \<and> fetch_remaining (paged_landwatch error_page) (landwatch_page_url demo_landwatch_url)
        (landwatch_step demo_repr) [2, 3] \<lparr>listings = [], requested = [], raised = None\<rparr> =
      fetch_remaining (paged_landwatch error_page) (landwatch_page_url demo_landwatch_url)
        (landwatch_step demo_repr) [3]
        \<lparr>listings = [], requested = [landwatch_page_url demo_landwatch_url 2], raised = None\<rparr>
   \<and> landcom_run demo_repr demo_net ''Austin'' ''TX'' 0 1000000 0 100 [] =
        search_pages demo_net demo_landcom_url (landcom_page_url demo_landcom_url)
          (landcom_step demo_repr 0 1000000 0 100)
          \<lparr>listings = [], requested = [''https://www.land.com''], raised = None\<rparr>"
proof -
  let ?st2 = "\<lparr>listings = [demo_listing ''landwatch_7'' ''LandWatch'' ''https://www.landwatch.com''
                        (PyFloat 30.25) (PyFloat (- 97.75)) (PyInt 0) (PyInt 5000000)],
          requested = [demo_landwatch_url], raised = None\<rparr>"
  have p2: "paged_landwatch page2 (landwatch_page_url demo_landwatch_url 2) = page2" for page2
    by (simp add: paged_landwatch_def landwatch_page_url_def str_int_def str_nat.simps)
  have 1: "landwatch_run demo_repr (paged_landwatch malformed_page) ''Austin'' ''TX'' 0 1000000 0 100 [] =
     ?st2\<lparr>requested := requested ?st2 @ [landwatch_page_url demo_landwatch_url 2],
           raised := Some JSONDecodeError\<rparr>"
    using malformed_later_page_ends_search[where net="paged_landwatch malformed_page"
        and base_url=demo_landwatch_url and step="landwatch_step demo_repr"
        and st="\<lparr>listings = [], requested = [], raised = None\<rparr>" and ?st2.0="?st2"
        and before="[]" and n=2 and later="[3]"
        and page_url="landwatch_page_url demo_landwatch_url"
        and r="\<lparr>status_code = 200, status_ok = True, json_body = Malformed\<rparr>"
        and repr=demo_repr and c="''Austin''" and s="''TX''" and minp=0 and maxp=1000000
        and mina=0 and maxa=100 and pts="[]"]
      paged_landwatch_first[of malformed_page] p2[of malformed_page]
    by (simp add: demo_urls malformed_page_def)
  have 2: "fetch_remaining (paged_landwatch error_page) (landwatch_page_url demo_landwatch_url)
        (landwatch_step demo_repr) [2, 3] \<lparr>listings = [], requested = [], raised = None\<rparr> =
      fetch_remaining (paged_landwatch error_page) (landwatch_page_url demo_landwatch_url)
        (landwatch_step demo_repr) [3]
        \<lparr>listings = [], requested = [landwatch_page_url demo_landwatch_url 2], raised = None\<rparr>"
    using malformed_later_page_ends_search[where net="paged_landwatch error_page"
        and st="\<lparr>listings = [], requested = [], raised = None\<rparr>"
        and n=2 and later="[3]" and step="landwatch_step demo_repr"
        and page_url="landwatch_page_url demo_landwatch_url"
        and r="\<lparr>status_code = 500, status_ok = False, json_body = Malformed\<rparr>"]
      p2[of error_page]
    by (simp add: error_page_def)
  have 3: "landcom_run demo_repr demo_net ''Austin'' ''TX'' 0 1000000 0 100 [] =
        search_pages demo_net demo_landcom_url (landcom_page_url demo_landcom_url)
          (landcom_step demo_repr 0 1000000 0 100)
          \<lparr>listings = [], requested = [''https://www.land.com''], raised = None\<rparr>"
    using malformed_later_page_ends_search[where net=demo_net
        and warmup="\<lparr>status_code = 200, status_ok = True, json_body = Malformed\<rparr>"
        and repr=demo_repr and c="''Austin''" and s="''TX''" and minp=0 and maxp=1000000
        and mina=0 and maxa=100 and pts="[]"]
    by (simp add: demo_urls demo_net_def site_root_def)
  from 1 2 3 show ?thesis by simp
qed

theorem malformed_later_page_counterexample:
  "scrape_landwatch demo_repr (paged_landwatch error_page) (PyStr ''Austin'') (PyStr ''TX'')
       0 1000000 0 100 [] =
     Inr [demo_listing ''landwatch_7'' ''LandWatch'' ''https://www.landwatch.com''
            (PyFloat 30.25) (PyFloat (- 97.75)) (PyInt 0) (PyInt 5000000),
          demo_listing ''landwatch_9'' ''LandWatch'' ''https://www.landwatch.com''
            (PyFloat 30.5) (PyFloat (- 97.5)) (PyInt 2) (PyInt 9000)]
   \<and> scrape_landwatch demo_repr (paged_landwatch malformed_page) (PyStr ''Austin'') (PyStr ''TX'')
       0 1000000 0 100 [] =
     Inr [demo_listing ''landwatch_7'' ''LandWatch'' ''https://www.landwatch.com''
            (PyFloat 30.25) (PyFloat (- 97.75)) (PyInt 0) (PyInt 5000000)]
   \<and> requested (landwatch_run demo_repr (paged_landwatch malformed_page)
        ''Austin'' ''TX'' 0 1000000 0 100 []) =
     [demo_landwatch_url, demo_landwatch_url @ ''/page-2'']"
  by (simp add: scrape_landwatch_def paged_landwatch_malformed_run paged_landwatch_error_run)

text \<open>
  Claim C5 (number of pages), as amended. For both adapters, when the first page has
  pageSize > 0 properties and an integer totalCount, totalPages is
  min(ceil(totalCount / pageSize), 20); 10000 listings in pages of 20 give 20, not 500.
  The first page is fetched before totalPages is known; the adapter then requests the
  pages 2 to totalPages in increasing order. A search that no exception ends early so
  requests max(1, totalPages) pages: totalPages of them when totalCount is at least 1,
  and one when totalCount is 0 or less (as when the key is missing and defaults to 0).
  When the first page has no property the adapter returns the empty list at once,
  without error.
\<close>

theorem pages_requested:
  "(fetch_first net base_url = Inr d \<and> first_page_fields d = Inr (PyInt tc, props, n) \<and> 0 < n \<longrightarrow>
      total_pages_of (PyInt tc) (int n) = Inr (PyInt (min \<lceil>real_of_int tc / real n\<rceil> 20))
      \<and> later_page_numbers net base_url = [2..min \<lceil>real_of_int tc / real n\<rceil> 20]
      \<and> (raised (search_pages net base_url page_url step st) = None \<and> listings st = [] \<longrightarrow>
           requested (search_pages net base_url page_url step st) =
             requested st @ base_url # map page_url [2..min \<lceil>real_of_int tc / real n\<rceil> 20]
           \<and> length (requested (search_pages net base_url page_url step st)) =
               length (requested st) + nat (max 1 (min \<lceil>real_of_int tc / real n\<rceil> 20))))
   \<and> total_pages_of (PyInt 10000) 20 = Inr (PyInt 20)
   \<and> (fetch_first net base_url = Inr d \<and> first_page_fields d = Inr (total_count, props, 0) \<longrightarrow>
        search_pages net base_url page_url step st =
          st\<lparr>requested := requested st @ [base_url], listings := []\<rparr>)
   \<and> landwatch_run repr net c s minp maxp mina maxa pts =
        search_pages net (landwatch_base_url c s minp maxp mina maxa pts)
          (landwatch_page_url (landwatch_base_url c s minp maxp mina maxa pts))
          (landwatch_step repr) \<lparr>listings = [], requested = [], raised = None\<rparr>
   \<and> (net ''https://www.land.com'' = Response warmup \<longrightarrow>
        landcom_run repr net c s minp maxp mina maxa pts =
          search_pages net (landcom_base_url c s maxp maxa pts)
            (landcom_page_url (landcom_base_url c s maxp maxa pts))
            (landcom_step repr minp maxp mina maxa)
            \<lparr>listings = [], requested = [''https://www.land.com''], raised = None\<rparr>)
   \<and> scrape_landwatch repr net (PyStr c) (PyStr s) minp maxp mina maxa pts =
        Inr (listings (landwatch_run repr net c s minp maxp mina maxa pts))
   \<and> scrape_land_com repr net (PyStr c) (PyStr s) minp maxp mina maxa pts =
        Inr (listings (landcom_run repr net c s minp maxp mina maxa pts))"
proof -
  let ?tp = "min \<lceil>real_of_int tc / real n\<rceil> 20"
  have a: "total_pages_of (PyInt tc) (int n) = Inr (PyInt ?tp)
      \<and> later_page_numbers net base_url = [2..?tp]
      \<and> (raised (search_pages net base_url page_url step st) = None \<and> listings st = [] \<longrightarrow>
           requested (search_pages net base_url page_url step st) =
             requested st @ base_url # map page_url [2..?tp]
           \<and> length (requested (search_pages net base_url page_url step st)) =
               length (requested st) + nat (max 1 ?tp))"
    if f: "fetch_first net base_url = Inr d" "first_page_fields d = Inr (PyInt tc, props, n)"
      and n: "0 < n"
  proof -
    note l = later_page_numbers_int[OF f n]
    have "requested (search_pages net base_url page_url step st) =
             requested st @ base_url # map page_url [2..?tp]
           \<and> length (requested (search_pages net base_url page_url step st)) =
               length (requested st) + nat (max 1 ?tp)"
      if ok: "raised (search_pages net base_url page_url step st) = None" "listings st = []"
    proof -
      from search_pages_ok[OF ok] l
      have r: "requested (search_pages net base_url page_url step st) =
             requested st @ base_url # map page_url [2..?tp]" by simp
      have "length (requested st @ base_url # map page_url [2..?tp]) =
              length (requested st) + Suc (length [2..?tp])" by simp
      with r length_pages[of ?tp] show ?thesis by simp
    qed
    with total_pages_int[OF n, of tc] l show ?thesis by blast
  qed
  have b: "total_pages_of (PyInt 10000) 20 = Inr (PyInt 20)" by simp
  have c: "search_pages net base_url page_url step st =
          st\<lparr>requested := requested st @ [base_url], listings := []\<rparr>"
    if "fetch_first net base_url = Inr d" "first_page_fields d = Inr (total_count, props, 0)"
    using search_pages_empty_first_page[OF that] .
  have s1: "scrape_landwatch repr net (PyStr c) (PyStr s) minp maxp mina maxa pts =
        Inr (listings (landwatch_run repr net c s minp maxp mina maxa pts))"
    by (simp add: scrape_landwatch_def)
  have s2: "scrape_land_com repr net (PyStr c) (PyStr s) minp maxp mina maxa pts =
        Inr (listings (landcom_run repr net c s minp maxp mina maxa pts))"
    by (simp add: scrape_land_com_def)
  from a b c s1 s2 landwatch_run_search[of repr net c s minp maxp mina maxa pts]
    landcom_run_search[where net=net and r=warmup and repr=repr and c=c and s=s and minp=minp
      and maxp=maxp and mina=mina and maxa=maxa and pts=pts]
  show ?thesis by blast
qed


theorem pages_requested_witness:
  "total_pages_of (PyInt 3) (int 2) = Inr (PyInt 2)
   \<and> raised (landcom_run demo_repr demo_net ''Austin'' ''TX'' 0 1000000 0 100 []) = None
   \<and> requested (landcom_run demo_repr demo_net ''Austin'' ''TX'' 0 1000000 0 100 []) =
       [''https://www.land.com'', demo_landcom_url, landcom_page_url demo_landcom_url 2]
   \<and> length (requested (landcom_run demo_repr demo_net ''Austin'' ''TX'' 0 1000000 0 100 [])) = 3
   \<and> landwatch_run demo_repr no_results ''Austin'' ''TX'' 0 1000000 0 100 [] =
       \<lparr>listings = [], requested = [demo_landwatch_url], raised = None\<rparr>"
proof -
  let ?st = "\<lparr>listings = [], requested = [''https://www.land.com''], raised = None\<rparr>"
  let ?run = "landcom_run demo_repr demo_net ''Austin'' ''TX'' 0 1000000 0 100 []"
  note t = pages_requested[where net=demo_net and base_url=demo_landcom_url and tc=3 and n=2
      and page_url="landcom_page_url demo_landcom_url"
      and step="landcom_step demo_repr 0 1000000 0 100" and st="?st"
      and warmup="\<lparr>status_code = 200, status_ok = True, json_body = Malformed\<rparr>"
      and repr=demo_repr and c="''Austin''" and s="''TX''" and minp=0 and maxp=1000000
      and mina=0 and maxa=100 and pts="[]"]
  have warm: "demo_net ''https://www.land.com'' =
      Response \<lparr>status_code = 200, status_ok = True, json_body = Malformed\<rparr>"
    by (simp add: demo_net_def site_root_def)
  have run: "?run = search_pages demo_net demo_landcom_url (landcom_page_url demo_landcom_url)
      (landcom_step demo_repr 0 1000000 0 100) ?st"
    using t warm by (simp add: demo_urls)
  have ok: "raised ?run = None" by (simp add: demo_landcom_run)
  from t demo_landcom_first_page ok run
  have 1: "total_pages_of (PyInt 3) (int 2) = Inr (PyInt 2)"
    and 2: "requested ?run =
       [''https://www.land.com'', demo_landcom_url, landcom_page_url demo_landcom_url 2]"
    and 3: "length (requested ?run) = 3"
    by (simp_all add: upto.simps)
  from pages_requested[where net=no_results and base_url=demo_landwatch_url
      and d="page_of (PyInt 0) []" and total_count="PyInt 0" and props="PyList []"
      and page_url="landwatch_page_url demo_landwatch_url"
      and step="landwatch_step demo_repr"
      and st="\<lparr>listings = [], requested = [], raised = None\<rparr>"
      and repr=demo_repr and c="''Austin''" and s="''TX''" and minp=0 and maxp=1000000
      and mina=0 and maxa=100 and pts="[]"] no_results_first_page
  have 4: "landwatch_run demo_repr no_results ''Austin'' ''TX'' 0 1000000 0 100 [] =
       \<lparr>listings = [], requested = [demo_landwatch_url], raised = None\<rparr>"
    by (simp add: demo_urls)
  from 1 ok 2 3 4 show ?thesis by simp
qed

theorem pages_requested_counterexample:
  "fetch_first count_missing demo_landwatch_url =
     Inr (PyDict [(''searchResults'', PyDict [(''propertyResults'', PyList
          [landwatch_record (PyInt 7) (PyFloat 30.25) (PyFloat (- 97.75)) (PyInt 0) (PyInt 5000000)])])])
   \<and> first_page_fields (PyDict [(''searchResults'', PyDict [(''propertyResults'', PyList
          [landwatch_record (PyInt 7) (PyFloat 30.25) (PyFloat (- 97.75)) (PyInt 0) (PyInt 5000000)])])]) =
     Inr (PyInt 0, PyList
          [landwatch_record (PyInt 7) (PyFloat 30.25) (PyFloat (- 97.75)) (PyInt 0) (PyInt 5000000)], 1)
   \<and> total_pages_of (PyInt 0) (int 1) = Inr (PyInt 0)
   \<and> landwatch_run demo_repr count_missing ''Austin'' ''TX'' 0 1000000 0 100 [] =
     \<lparr>listings = [demo_listing ''landwatch_7'' ''LandWatch'' ''https://www.landwatch.com''
                     (PyFloat 30.25) (PyFloat (- 97.75)) (PyInt 0) (PyInt 5000000)],
       requested = [demo_landwatch_url], raised = None\<rparr>
   \<and> length (requested (landwatch_run demo_repr count_missing
        ''Austin'' ''TX'' 0 1000000 0 100 [])) = 1
   \<and> total_pages_of (PyInt 3) (int 1) = Inr (PyInt 3)
   \<and> requested (landwatch_run demo_repr (paged_landwatch malformed_page)
        ''Austin'' ''TX'' 0 1000000 0 100 []) =
     [demo_landwatch_url, demo_landwatch_url @ ''/page-2'']"
  using count_missing_first_page count_missing_run paged_landwatch_malformed_run by simp




text \<open>
  Claim C7 (order of the aggregate). With both vendors active (no source selected, or
  both selected) the aggregate is the result of scrape_land_com followed by the result
  of scrape_landwatch: every Land.com listing precedes every LandWatch listing and each
  vendor's listings keep the order in which they were fetched. The distance step only
  sets distance_to_center on each listing, in place.
\<close>

theorem aggregate_is_concatenation:
  "(sources = [] \<or> (''landcom'' \<in> set sources \<and> ''landwatch'' \<in> set sources) \<longrightarrow>
      (\<forall>a b. scrape_land_com repr net cv sv minp maxp mina maxa pts = Inr a
             \<and> scrape_landwatch repr net cv sv minp maxp mina maxa pts = Inr b \<longrightarrow>
         collect_listings repr net cv sv minp maxp mina maxa sources pts = Inr (a @ b))
      \<and> (\<exists>a b. scrape_land_com repr net (PyStr c) (PyStr s) minp maxp mina maxa pts = Inr a
             \<and> scrape_landwatch repr net (PyStr c) (PyStr s) minp maxp mina maxa pts = Inr b
             \<and> collect_listings repr net (PyStr c) (PyStr s) minp maxp mina maxa sources pts
                 = Inr (a @ b)))
   \<and> (get_listings db repr net city_id minp maxp mina maxa sources pts = Inr (Listings out)
        \<and> (sources = [] \<or> (''landcom'' \<in> set sources \<and> ''landwatch'' \<in> set sources)) \<longrightarrow>
      (\<exists>cid row a b. city_id = Some cid \<and> db cid = Some row \<and>
         scrape_land_com repr net (row_city row) (row_state row) minp maxp mina maxa pts = Inr a \<and>
         scrape_landwatch repr net (row_city row) (row_state row) minp maxp mina maxa pts = Inr b \<and>
         map (\<lambda>l. l\<lparr>distance_to_center := None\<rparr>) out = a @ b))"
proof -
  have p: "\<forall>a b. scrape_land_com repr net cv sv minp maxp mina maxa pts = Inr a
             \<and> scrape_landwatch repr net cv sv minp maxp mina maxa pts = Inr b \<longrightarrow>
         collect_listings repr net cv sv minp maxp mina maxa sources pts = Inr (a @ b)"
    if both: "sources = [] \<or> (''landcom'' \<in> set sources \<and> ''landwatch'' \<in> set sources)"
    for cv sv
    using collect_both[OF both, of repr net cv sv minp maxp mina maxa pts] by simp
  have q: "\<exists>a b. scrape_land_com repr net (PyStr c) (PyStr s) minp maxp mina maxa pts = Inr a
             \<and> scrape_landwatch repr net (PyStr c) (PyStr s) minp maxp mina maxa pts = Inr b
             \<and> collect_listings repr net (PyStr c) (PyStr s) minp maxp mina maxa sources pts
                 = Inr (a @ b)"
    if both: "sources = [] \<or> (''landcom'' \<in> set sources \<and> ''landwatch'' \<in> set sources)"
    using p[OF both, of "PyStr c" "PyStr s"]
      scrape_land_com_str[of repr net c "PyStr s" minp maxp mina maxa pts]
      scrape_landwatch_str[of repr net c s minp maxp mina maxa pts]
    by blast
  have b: "\<exists>cid row a b. city_id = Some cid \<and> db cid = Some row \<and>
         scrape_land_com repr net (row_city row) (row_state row) minp maxp mina maxa pts = Inr a \<and>
         scrape_landwatch repr net (row_city row) (row_state row) minp maxp mina maxa pts = Inr b \<and>
         map (\<lambda>l. l\<lparr>distance_to_center := None\<rparr>) out = a @ b"
    if g: "get_listings db repr net city_id minp maxp mina maxa sources pts = Inr (Listings out)"
      and both: "sources = [] \<or> (''landcom'' \<in> set sources \<and> ''landwatch'' \<in> set sources)"
  proof -
    from get_listings_Listings[OF g] obtain cid row ls where
      cid: "city_id = Some cid" and row: "db cid = Some row" and
      col: "collect_listings repr net (row_city row) (row_state row) minp maxp mina maxa
              sources pts = Inr ls" and
      ann: "annotate (row_latitude row) (row_longitude row) ls = Inr out" by blast
    from col collect_both[OF both, of repr net "row_city row" "row_state row" minp maxp mina maxa pts]
    obtain a b where
      a: "scrape_land_com repr net (row_city row) (row_state row) minp maxp mina maxa pts = Inr a"
      and b: "scrape_landwatch repr net (row_city row) (row_state row) minp maxp mina maxa pts = Inr b"
      and ls: "ls = a @ b"
      by (auto split: sum.splits)
    have none: "\<forall>l \<in> set ls. distance_to_center l = None"
      using scraped_no_distance[of repr net "row_city row" "row_state row" minp maxp mina maxa pts a]
        scraped_no_distance[of repr net "row_city row" "row_state row" minp maxp mina maxa pts b]
        a b ls
      by auto
    have "map (\<lambda>l. l\<lparr>distance_to_center := None\<rparr>) out = map (\<lambda>l. l) ls"
      unfolding annotate_map[OF ann, THEN conjunct1] map_map comp_def
      using none by (intro map_cong) auto
    with cid row a b ls show ?thesis by auto
  qed
  from p[of cv sv] q b show ?thesis by blast
qed

theorem aggregate_is_concatenation_witness:
  "get_listings demo_db demo_repr demo_net (Some 1) 0 1000000 0 100 [] [] =
     Inr (Listings
       [(demo_listing ''landcom_1'' ''Land.com'' ''https://www.land.com''
           (PyFloat 30.25) (PyFloat (- 97.75)) (PyInt 5) PyNone)
          \<lparr>distance_to_center := Some (PyFloat 0)\<rparr>,
        (demo_listing ''landcom_3'' ''Land.com'' ''https://www.land.com''
           (PyFloat 30.75) (PyFloat (- 97.25)) (PyInt 10) (PyInt 50000))
          \<lparr>distance_to_center := Some (PyFloat (haversine_miles (- 97.75) 30.25 (- 97.25) 30.75))\<rparr>,
        (demo_listing ''landwatch_7'' ''LandWatch'' ''https://www.landwatch.com''
           (PyFloat 30.25) (PyFloat (- 97.75)) (PyInt 0) (PyInt 5000000))
          \<lparr>distance_to_center := Some (PyFloat 0)\<rparr>])
   \<and> scrape_land_com demo_repr demo_net (PyStr ''Austin'') (PyStr ''TX'') 0 1000000 0 100 [] =
       Inr [demo_listing ''landcom_1'' ''Land.com'' ''https://www.land.com''
              (PyFloat 30.25) (PyFloat (- 97.75)) (PyInt 5) PyNone,
            demo_listing ''landcom_3'' ''Land.com'' ''https://www.land.com''
              (PyFloat 30.75) (PyFloat (- 97.25)) (PyInt 10) (PyInt 50000)]
   \<and> scrape_landwatch demo_repr demo_net (PyStr ''Austin'') (PyStr ''TX'') 0 1000000 0 100 [] =
       Inr [demo_listing ''landwatch_7'' ''LandWatch'' ''https://www.landwatch.com''
              (PyFloat 30.25) (PyFloat (- 97.75)) (PyInt 0) (PyInt 5000000)]
   \<and> collect_listings demo_repr demo_net (PyStr ''Austin'') (PyStr ''TX'') 0 1000000 0 100 [] [] =
       Inr [demo_listing ''landcom_1'' ''Land.com'' ''https://www.land.com''
              (PyFloat 30.25) (PyFloat (- 97.75)) (PyInt 5) PyNone,
            demo_listing ''landcom_3'' ''Land.com'' ''https://www.land.com''
              (PyFloat 30.75) (PyFloat (- 97.25)) (PyInt 10) (PyInt 50000),
            demo_listing ''landwatch_7'' ''LandWatch'' ''https://www.landwatch.com''
              (PyFloat 30.25) (PyFloat (- 97.75)) (PyInt 0) (PyInt 5000000)]
   \<and> map (\<lambda>l. l\<lparr>distance_to_center := None\<rparr>)
         [(demo_listing ''landcom_1'' ''Land.com'' ''https://www.land.com''
           (PyFloat 30.25) (PyFloat (- 97.75)) (PyInt 5) PyNone)
          \<lparr>distance_to_center := Some (PyFloat 0)\<rparr>,
        (demo_listing ''landcom_3'' ''Land.com'' ''https://www.land.com''
           (PyFloat 30.75) (PyFloat (- 97.25)) (PyInt 10) (PyInt 50000))
          \<lparr>distance_to_center := Some (PyFloat (haversine_miles (- 97.75) 30.25 (- 97.25) 30.75))\<rparr>,
        (demo_listing ''landwatch_7'' ''LandWatch'' ''https://www.landwatch.com''
           (PyFloat 30.25) (PyFloat (- 97.75)) (PyInt 0) (PyInt 5000000))
          \<lparr>distance_to_center := Some (PyFloat 0)\<rparr>] =
       [demo_listing ''landcom_1'' ''Land.com'' ''https://www.land.com''
              (PyFloat 30.25) (PyFloat (- 97.75)) (PyInt 5) PyNone,
            demo_listing ''landcom_3'' ''Land.com'' ''https://www.land.com''
              (PyFloat 30.75) (PyFloat (- 97.25)) (PyInt 10) (PyInt 50000),
            demo_listing ''landwatch_7'' ''LandWatch'' ''https://www.landwatch.com''
              (PyFloat 30.25) (PyFloat (- 97.75)) (PyInt 0) (PyInt 5000000)]"
proof -
  note g = demo_get_listings
  note t = aggregate_is_concatenation[where db=demo_db and repr=demo_repr and net=demo_net
      and city_id="Some 1" and minp=0 and maxp=1000000 and mina=0 and maxa=100
      and sources="[]" and pts="[]" and cv="PyStr ''Austin''" and sv="PyStr ''TX''"
      and c="''Austin''" and s="''TX''"]
  from t demo_scrapes
  have c: "collect_listings demo_repr demo_net (PyStr ''Austin'') (PyStr ''TX'') 0 1000000 0 100 [] [] =
       Inr [demo_listing ''landcom_1'' ''Land.com'' ''https://www.land.com''
              (PyFloat 30.25) (PyFloat (- 97.75)) (PyInt 5) PyNone,
            demo_listing ''landcom_3'' ''Land.com'' ''https://www.land.com''
              (PyFloat 30.75) (PyFloat (- 97.25)) (PyInt 10) (PyInt 50000),
            demo_listing ''landwatch_7'' ''LandWatch'' ''https://www.landwatch.com''
              (PyFloat 30.25) (PyFloat (- 97.75)) (PyInt 0) (PyInt 5000000)]"
    by simp
  from t[THEN conjunct2, rule_format, OF conjI[OF g]] obtain cid row a b where
    cid: "Some (1::int) = Some cid" and row: "demo_db cid = Some row" and
    a: "scrape_land_com demo_repr demo_net (row_city row) (row_state row) 0 1000000 0 100 [] = Inr a"
    and b: "scrape_landwatch demo_repr demo_net (row_city row) (row_state row) 0 1000000 0 100 [] = Inr b"
    and m: "map (\<lambda>l. l\<lparr>distance_to_center := None\<rparr>)
         [(demo_listing ''landcom_1'' ''Land.com'' ''https://www.land.com''
           (PyFloat 30.25) (PyFloat (- 97.75)) (PyInt 5) PyNone)
          \<lparr>distance_to_center := Some (PyFloat 0)\<rparr>,
        (demo_listing ''landcom_3'' ''Land.com'' ''https://www.land.com''
           (PyFloat 30.75) (PyFloat (- 97.25)) (PyInt 10) (PyInt 50000))
          \<lparr>distance_to_center := Some (PyFloat (haversine_miles (- 97.75) 30.25 (- 97.25) 30.75))\<rparr>,
        (demo_listing ''landwatch_7'' ''LandWatch'' ''https://www.landwatch.com''
           (PyFloat 30.25) (PyFloat (- 97.75)) (PyInt 0) (PyInt 5000000))
          \<lparr>distance_to_center := Some (PyFloat 0)\<rparr>] = a @ b"
    by auto
  from cid row have r: "row_city row = PyStr ''Austin''" "row_state row = PyStr ''TX''"
    by (auto simp: demo_db_def)
  from a b demo_scrapes have "a = [demo_listing ''landcom_1'' ''Land.com'' ''https://www.land.com''
              (PyFloat 30.25) (PyFloat (- 97.75)) (PyInt 5) PyNone,
            demo_listing ''landcom_3'' ''Land.com'' ''https://www.land.com''
              (PyFloat 30.75) (PyFloat (- 97.25)) (PyInt 10) (PyInt 50000)]"
    and "b = [demo_listing ''landwatch_7'' ''LandWatch'' ''https://www.landwatch.com''
              (PyFloat 30.25) (PyFloat (- 97.75)) (PyInt 0) (PyInt 5000000)]"
    by (simp_all add: r)
  with m have m': "map (\<lambda>l. l\<lparr>distance_to_center := None\<rparr>)
         [(demo_listing ''landcom_1'' ''Land.com'' ''https://www.land.com''
           (PyFloat 30.25) (PyFloat (- 97.75)) (PyInt 5) PyNone)
          \<lparr>distance_to_center := Some (PyFloat 0)\<rparr>,
        (demo_listing ''landcom_3'' ''Land.com'' ''https://www.land.com''
           (PyFloat 30.75) (PyFloat (- 97.25)) (PyInt 10) (PyInt 50000))
          \<lparr>distance_to_center := Some (PyFloat (haversine_miles (- 97.75) 30.25 (- 97.25) 30.75))\<rparr>,
        (demo_listing ''landwatch_7'' ''LandWatch'' ''https://www.landwatch.com''
           (PyFloat 30.25) (PyFloat (- 97.75)) (PyInt 0) (PyInt 5000000))
          \<lparr>distance_to_center := Some (PyFloat 0)\<rparr>] =
       [demo_listing ''landcom_1'' ''Land.com'' ''https://www.land.com''
              (PyFloat 30.25) (PyFloat (- 97.75)) (PyInt 5) PyNone,
            demo_listing ''landcom_3'' ''Land.com'' ''https://www.land.com''
              (PyFloat 30.75) (PyFloat (- 97.25)) (PyInt 10) (PyInt 50000),
            demo_listing ''landwatch_7'' ''LandWatch'' ''https://www.landwatch.com''
              (PyFloat 30.25) (PyFloat (- 97.75)) (PyInt 0) (PyInt 5000000)]"
    by (simp only: append.simps)
  from g demo_scrapes c m' show ?thesis by blast
qed

text \<open>
  Claim C8 (type filter bitmask). For each vendor the filter written into the URL is the
  sum of the vendor's codes over the requested property types, a tag the table does not
  know adding 0, and the vendor's all-types default (3692 for Land.com, 7780 for
  LandWatch) when the list is empty or the sum is zero. For Land.com, homesite and
  waterfront give 8 + 3584 = 3592 and the empty list gives 3692. The filter is part of
  the base URL, and every URL the adapter requests from the vendor's API is the base URL
  or the base URL followed by a page suffix.
\<close>

theorem type_filter_bitmask:
  "landcom_type_filter pts =
     (if type_sum LANDCOM_PROPERTY_TYPES pts = 0 then 3692 else type_sum LANDCOM_PROPERTY_TYPES pts)
   \<and> type_sum LANDCOM_PROPERTY_TYPES pts =
       8 * int (count_list pts ''homesite'') + 4 * int (count_list pts ''recreational'')
       + 3584 * int (count_list pts ''waterfront'') + 32 * int (count_list pts ''undeveloped'')
       + 64 * int (count_list pts ''commercial'')
   \<and> landwatch_type_filter pts =
     (if type_sum LANDWATCH_PROPERTY_TYPES pts = 0 then 7780 else type_sum LANDWATCH_PROPERTY_TYPES pts)
   \<and> type_sum LANDWATCH_PROPERTY_TYPES pts =
       4 * int (count_list pts ''recreational'') + 32 * int (count_list pts ''undeveloped'')
       + 64 * int (count_list pts ''commercial'') + 4096 * int (count_list pts ''homesite'')
       + 3584 * int (count_list pts ''waterfront'')
   \<and> landcom_type_filter [''homesite'', ''waterfront''] = 3592
   \<and> landcom_type_filter [] = 3692
   \<and> (\<exists>front. landcom_base_url c s maxp maxa pts =
          front @ ''/is-active/type-'' @ str_int (landcom_type_filter pts) @ ''/'')
   \<and> (\<exists>ns. requested (landcom_run repr net c s minp maxp mina maxa pts) =
          ''https://www.land.com'' #
            (case net ''https://www.land.com'' of
               Raises \<Rightarrow> []
             | Response r \<Rightarrow>
                 landcom_base_url c s maxp maxa pts
                   # map (landcom_page_url (landcom_base_url c s maxp maxa pts)) ns))
   \<and> (\<exists>front back. landwatch_base_url c s minp maxp mina maxa pts =
          front @ ''/prop-types-'' @ str_int (landwatch_type_filter pts) @ ''/price-'' @ back)
   \<and> (\<exists>ns. requested (landwatch_run repr net c s minp maxp mina maxa pts) =
          landwatch_base_url c s minp maxp mina maxa pts
            # map (landwatch_page_url (landwatch_base_url c s minp maxp mina maxa pts)) ns)"
proof -
  have c0: "0 \<le> type_sum LANDCOM_PROPERTY_TYPES pts" by (simp add: type_sum_landcom)
  have w0: "0 \<le> type_sum LANDWATCH_PROPERTY_TYPES pts" by (simp add: type_sum_landwatch)
  have a: "landcom_type_filter pts =
     (if type_sum LANDCOM_PROPERTY_TYPES pts = 0 then 3692 else type_sum LANDCOM_PROPERTY_TYPES pts)"
    unfolding landcom_type_filter_def by (rule type_filter_eq[OF c0])
  have b: "landwatch_type_filter pts =
     (if type_sum LANDWATCH_PROPERTY_TYPES pts = 0 then 7780 else type_sum LANDWATCH_PROPERTY_TYPES pts)"
    unfolding landwatch_type_filter_def by (rule type_filter_eq[OF w0])
  have e1: "landcom_type_filter [''homesite'', ''waterfront''] = 3592"
    by (simp add: landcom_type_filter_def type_filter_def type_sum_def LANDCOM_PROPERTY_TYPES_def)
  have e2: "landcom_type_filter [] = 3692"
    by (simp add: landcom_type_filter_def type_filter_def)
  have u1: "\<exists>front. landcom_base_url c s maxp maxa pts =
          front @ ''/is-active/type-'' @ str_int (landcom_type_filter pts) @ ''/''"
    unfolding landcom_base_url_def Let_def
    by (rule exI[of _ "''https://www.land.com/api/property/search/0/'' @ slug c @ ''-'' @ s
           @ ''/all-land/no-house/for-sale/'' @ (''under-'' @ str_int maxp) @ ''/''
           @ (if maxa < 1000 then ''under-'' @ str_int maxa @ ''-acres'' else ''any-size'')"]) simp
  have u2: "\<exists>front back. landwatch_base_url c s minp maxp mina maxa pts =
          front @ ''/prop-types-'' @ str_int (landwatch_type_filter pts) @ ''/price-'' @ back"
    unfolding landwatch_base_url_def Let_def
    by (rule exI[of _ "''https://www.landwatch.com/api/property/search/1113/''
           @ (case map_of STATE_CODE_TO_NAME s of None \<Rightarrow> py_lower s | Some name \<Rightarrow> name)
           @ ''-land-for-sale/'' @ slug c"],
        rule exI[of _ "str_int minp @ ''-'' @ str_int maxp
           @ ''/acres-'' @ str_int mina @ ''-'' @ str_int maxa @ ''/available''"]) simp
  show ?thesis
    using a b e1 e2 u1 u2 type_sum_landcom[of pts] type_sum_landwatch[of pts]
      landcom_requested[of repr net c s minp maxp mina maxa pts]
      landwatch_requested[of repr net c s minp maxp mina maxa pts]
    by blast
qed

theorem type_filter_bitmask_witness:
  "landwatch_type_filter [''homesite'', ''waterfront'', ''castle''] = 7680
   \<and> requested (landwatch_run (\<lambda>v. []) no_network ''Fort Worth'' ''TX'' 0 1000000 0 100
        [''homesite'', ''waterfront'', ''castle'']) =
       [''https://www.landwatch.com/api/property/search/1113/texas-land-for-sale/fort-worth/prop-types-7680/price-0-1000000/acres-0-100/available'']
   \<and> requested (landcom_run (\<lambda>v. []) no_network ''Fort Worth'' ''TX'' 0 1000000 0 100 []) =
       [''https://www.land.com'']"
proof -
  have s: "type_sum LANDWATCH_PROPERTY_TYPES [''homesite'', ''waterfront'', ''castle''] = 7680"
    by (simp add: type_sum_def LANDWATCH_PROPERTY_TYPES_def)
  have n: "str_int 7680 = ''7680'' \<and> str_int 0 = ''0'' \<and> str_int 1000000 = ''1000000'' \<and> str_int 100 = ''100''"
    by (simp add: str_int_def str_nat.simps)
  from type_filter_bitmask[of "[''homesite'', ''waterfront'', ''castle'']" "''Fort Worth''" "''TX''"
         1000000 100 "\<lambda>v. []" no_network 0 0] s
  have f: "landwatch_type_filter [''homesite'', ''waterfront'', ''castle''] = 7680" by simp
  have "landwatch_base_url ''Fort Worth'' ''TX'' 0 1000000 0 100 [''homesite'', ''waterfront'', ''castle'']
     = ''https://www.landwatch.com/api/property/search/1113/texas-land-for-sale/fort-worth/prop-types-7680/price-0-1000000/acres-0-100/available''"
    using f n by (simp add: landwatch_base_url_def STATE_CODE_TO_NAME_def slug_def py_lower_def lower_char_def)
  then have r: "requested (landwatch_run (\<lambda>v. []) no_network ''Fort Worth'' ''TX'' 0 1000000 0 100
        [''homesite'', ''waterfront'', ''castle'']) =
       [''https://www.landwatch.com/api/property/search/1113/texas-land-for-sale/fort-worth/prop-types-7680/price-0-1000000/acres-0-100/available'']"
    by (simp add: landwatch_run_def search_pages_def fetch_first_def no_network_def)
  have c: "requested (landcom_run (\<lambda>v. []) no_network ''Fort Worth'' ''TX'' 0 1000000 0 100 []) =
       [''https://www.land.com'']"
    by (simp add: landcom_run_def no_network_def)
  from f r c show ?thesis by simp
qed

text \<open>
  Claim C9 (listing ids), as amended. In one aggregation response no Land.com listing
  has the listing_id of a LandWatch listing: the one starts with "landcom_" and the
  other with "landwatch_". Within one vendor the adapter removes no duplicate: each
  listing_id is the prefix followed by the text of the record's native id (empty when
  the id is missing), so two returned listings of one vendor have the same listing_id
  exactly when the native ids of their records have the same text. In a search that no
  exception ends, the listing_id values of a vendor's returned listings are therefore
  pairwise distinct if and only if the texts of the native ids are pairwise distinct over
  the records that pass the vendor's inclusion filter on the pages read; and the ids of
  the whole response are pairwise distinct if and only if those of each vendor are. The
  distance step leaves the ids as they are.
\<close>

theorem listing_id_prefix:
  "(\<forall>a b. scrape_land_com repr net cv sv minp maxp mina maxa pts = Inr a
          \<and> scrape_landwatch repr net cv sv minp maxp mina maxa pts = Inr b \<longrightarrow>
      (\<forall>x \<in> set a. \<forall>y \<in> set b. listing_id x \<noteq> listing_id y)
      \<and> distinct (map listing_id (a @ b))
          = (distinct (map listing_id a) \<and> distinct (map listing_id b)))
   \<and> (\<forall>a. scrape_land_com repr net cv sv minp maxp mina maxa pts = Inr a \<longrightarrow>
        (\<forall>x \<in> set a.
          \<exists>kvs. landcom_listing repr (PyDict kvs) = Inr x \<and>
            listing_id x = ''landcom_'' @ py_format repr (dict_get kvs ''siteListingId'' (PyStr []))))
   \<and> (\<forall>b. scrape_landwatch repr net cv sv minp maxp mina maxa pts = Inr b \<longrightarrow>
        (\<forall>y \<in> set b.
          \<exists>kvs. landwatch_listing repr (PyDict kvs) = Inr y \<and>
            listing_id y = ''landwatch_'' @ py_format repr (dict_get kvs ''lwPropertyId'' (PyStr []))))
   \<and> (landcom_listing repr (PyDict kvs1) = Inr l1 \<and> landcom_listing repr (PyDict kvs2) = Inr l2 \<longrightarrow>
        (listing_id l1 = listing_id l2) =
          (py_format repr (dict_get kvs1 ''siteListingId'' (PyStr [])) =
           py_format repr (dict_get kvs2 ''siteListingId'' (PyStr []))))
   \<and> (landwatch_listing repr (PyDict kvs1) = Inr l1 \<and> landwatch_listing repr (PyDict kvs2) = Inr l2 \<longrightarrow>
        (listing_id l1 = listing_id l2) =
          (py_format repr (dict_get kvs1 ''lwPropertyId'' (PyStr [])) =
           py_format repr (dict_get kvs2 ''lwPropertyId'' (PyStr []))))
   \<and> (raised (landcom_run repr net c s minp maxp mina maxa pts) = None \<longrightarrow>
        (\<exists>a. scrape_land_com repr net (PyStr c) (PyStr s) minp maxp mina maxa pts = Inr a \<and>
           map listing_id a =
             map (\<lambda>p. ''landcom_'' @ native_id_text repr ''siteListingId'' p)
               (concat (map (kept_records (landcom_step repr minp maxp mina maxa))
                  (pages_read net (landcom_base_url c s maxp maxa pts)
                     (landcom_page_url (landcom_base_url c s maxp maxa pts))))) \<and>
           distinct (map listing_id a) =
             distinct (map (native_id_text repr ''siteListingId'')
               (concat (map (kept_records (landcom_step repr minp maxp mina maxa))
                  (pages_read net (landcom_base_url c s maxp maxa pts)
                     (landcom_page_url (landcom_base_url c s maxp maxa pts))))))))
   \<and> (raised (landwatch_run repr net c s minp maxp mina maxa pts) = None \<longrightarrow>
        (\<exists>b. scrape_landwatch repr net (PyStr c) (PyStr s) minp maxp mina maxa pts = Inr b \<and>
           map listing_id b =
             map (\<lambda>p. ''landwatch_'' @ native_id_text repr ''lwPropertyId'' p)
               (concat (map (kept_records (landwatch_step repr))
                  (pages_read net (landwatch_base_url c s minp maxp mina maxa pts)
                     (landwatch_page_url (landwatch_base_url c s minp maxp mina maxa pts))))) \<and>
           distinct (map listing_id b) =
             distinct (map (native_id_text repr ''lwPropertyId'')
               (concat (map (kept_records (landwatch_step repr))
                  (pages_read net (landwatch_base_url c s minp maxp mina maxa pts)
                     (landwatch_page_url (landwatch_base_url c s minp maxp mina maxa pts))))))))
   \<and> (annotate city_lat city_lon ls = Inr out \<longrightarrow> map listing_id out = map listing_id ls)"
proof -
  have a: "(\<forall>x \<in> set a. \<forall>y \<in> set b. listing_id x \<noteq> listing_id y)
      \<and> distinct (map listing_id (a @ b))
          = (distinct (map listing_id a) \<and> distinct (map listing_id b))"
    if sa: "scrape_land_com repr net cv sv minp maxp mina maxa pts = Inr a"
      and sb: "scrape_landwatch repr net cv sv minp maxp mina maxa pts = Inr b" for a b
  proof -
    have d: "listing_id x \<noteq> listing_id y" if "x \<in> set a" "y \<in> set b" for x y
      using scrape_land_com_id[OF sa that(1)] scrape_landwatch_id[OF sb that(2)] prefixes_differ
      by metis
    then have "set (map listing_id a) \<inter> set (map listing_id b) = {}" by auto
    with d show ?thesis by simp
  qed
  have b: "\<forall>a. scrape_land_com repr net cv sv minp maxp mina maxa pts = Inr a \<longrightarrow>
        (\<forall>x \<in> set a.
          \<exists>kvs. landcom_listing repr (PyDict kvs) = Inr x \<and>
            listing_id x = ''landcom_'' @ py_format repr (dict_get kvs ''siteListingId'' (PyStr [])))"
    using scrape_land_com_id[of repr net cv sv minp maxp mina maxa pts] by blast
  have c: "\<forall>b. scrape_landwatch repr net cv sv minp maxp mina maxa pts = Inr b \<longrightarrow>
        (\<forall>y \<in> set b.
          \<exists>kvs. landwatch_listing repr (PyDict kvs) = Inr y \<and>
            listing_id y = ''landwatch_'' @ py_format repr (dict_get kvs ''lwPropertyId'' (PyStr [])))"
    using scrape_landwatch_id[of repr net cv sv minp maxp mina maxa pts] by blast
  have d: "landcom_listing repr (PyDict kvs1) = Inr l1 \<and> landcom_listing repr (PyDict kvs2) = Inr l2 \<longrightarrow>
        (listing_id l1 = listing_id l2) =
          (py_format repr (dict_get kvs1 ''siteListingId'' (PyStr [])) =
           py_format repr (dict_get kvs2 ''siteListingId'' (PyStr [])))"
    by auto
  have e: "landwatch_listing repr (PyDict kvs1) = Inr l1 \<and> landwatch_listing repr (PyDict kvs2) = Inr l2 \<longrightarrow>
        (listing_id l1 = listing_id l2) =
          (py_format repr (dict_get kvs1 ''lwPropertyId'' (PyStr [])) =
           py_format repr (dict_get kvs2 ''lwPropertyId'' (PyStr [])))"
    by auto
  have f: "annotate city_lat city_lon ls = Inr out \<longrightarrow> map listing_id out = map listing_id ls"
    using annotate_listing_id[of city_lat city_lon ls out] by blast
  have g: "\<exists>a. scrape_land_com repr net (PyStr c) (PyStr s) minp maxp mina maxa pts = Inr a \<and>
           map listing_id a =
             map (\<lambda>p. ''landcom_'' @ native_id_text repr ''siteListingId'' p)
               (concat (map (kept_records (landcom_step repr minp maxp mina maxa))
                  (pages_read net (landcom_base_url c s maxp maxa pts)
                     (landcom_page_url (landcom_base_url c s maxp maxa pts))))) \<and>
           distinct (map listing_id a) =
             distinct (map (native_id_text repr ''siteListingId'')
               (concat (map (kept_records (landcom_step repr minp maxp mina maxa))
                  (pages_read net (landcom_base_url c s maxp maxa pts)
                     (landcom_page_url (landcom_base_url c s maxp maxa pts))))))"
    if ok: "raised (landcom_run repr net c s minp maxp mina maxa pts) = None"
  proof -
    let ?pages = "pages_read net (landcom_base_url c s maxp maxa pts)
                     (landcom_page_url (landcom_base_url c s maxp maxa pts))"
    let ?step = "landcom_step repr minp maxp mina maxa"
    from landcom_run_ok[OF ok]
    have l: "listings (landcom_run repr net c s minp maxp mina maxa pts) =
        concat (map (kept ?step) ?pages)" by simp
    have m: "map listing_id (concat (map (kept ?step) ?pages)) =
        map (\<lambda>p. ''landcom_'' @ native_id_text repr ''siteListingId'' p)
          (concat (map (kept_records ?step) ?pages))"
      by (rule pages_ids) (rule landcom_step_id)
    from m distinct_prefixed[of "''landcom_''" "native_id_text repr ''siteListingId''"
        "concat (map (kept_records ?step) ?pages)"]
    have "distinct (map listing_id (concat (map (kept ?step) ?pages))) =
        distinct (map (native_id_text repr ''siteListingId'')
          (concat (map (kept_records ?step) ?pages)))"
      by (simp only:)
    with m l show ?thesis by (simp add: scrape_land_com_def)
  qed
  have h: "\<exists>b. scrape_landwatch repr net (PyStr c) (PyStr s) minp maxp mina maxa pts = Inr b \<and>
           map listing_id b =
             map (\<lambda>p. ''landwatch_'' @ native_id_text repr ''lwPropertyId'' p)
               (concat (map (kept_records (landwatch_step repr))
                  (pages_read net (landwatch_base_url c s minp maxp mina maxa pts)
                     (landwatch_page_url (landwatch_base_url c s minp maxp mina maxa pts))))) \<and>
           distinct (map listing_id b) =
             distinct (map (native_id_text repr ''lwPropertyId'')
               (concat (map (kept_records (landwatch_step repr))
                  (pages_read net (landwatch_base_url c s minp maxp mina maxa pts)
                     (landwatch_page_url (landwatch_base_url c s minp maxp mina maxa pts))))))"
    if ok: "raised (landwatch_run repr net c s minp maxp mina maxa pts) = None"
  proof -
    let ?pages = "pages_read net (landwatch_base_url c s minp maxp mina maxa pts)
                     (landwatch_page_url (landwatch_base_url c s minp maxp mina maxa pts))"
    let ?step = "landwatch_step repr"
    from landwatch_run_ok[OF ok]
    have l: "listings (landwatch_run repr net c s minp maxp mina maxa pts) =
        concat (map (kept ?step) ?pages)" by simp
    have m: "map listing_id (concat (map (kept ?step) ?pages)) =
        map (\<lambda>p. ''landwatch_'' @ native_id_text repr ''lwPropertyId'' p)
          (concat (map (kept_records ?step) ?pages))"
      by (rule pages_ids) (rule landwatch_step_id)
    from m distinct_prefixed[of "''landwatch_''" "native_id_text repr ''lwPropertyId''"
        "concat (map (kept_records ?step) ?pages)"]
    have "distinct (map listing_id (concat (map (kept ?step) ?pages))) =
        distinct (map (native_id_text repr ''lwPropertyId'')
          (concat (map (kept_records ?step) ?pages)))"
      by (simp only:)
    with m l show ?thesis by (simp add: scrape_landwatch_def)
  qed
  from a b c d e f g h show ?thesis by blast
qed

theorem listing_id_prefix_counterexample:
  "scrape_landwatch demo_repr repeated_listing (PyStr ''Austin'') (PyStr ''TX'') 0 1000000 0 100 [] =
     Inr [demo_listing ''landwatch_7'' ''LandWatch'' ''https://www.landwatch.com''
            (PyFloat 30.25) (PyFloat (- 97.75)) (PyInt 0) (PyInt 5000000),
          demo_listing ''landwatch_7'' ''LandWatch'' ''https://www.landwatch.com''
            (PyFloat 30.25) (PyFloat (- 97.75)) (PyInt 0) (PyInt 5000000)]
   \<and> map listing_id
        [demo_listing ''landwatch_7'' ''LandWatch'' ''https://www.landwatch.com''
            (PyFloat 30.25) (PyFloat (- 97.75)) (PyInt 0) (PyInt 5000000),
          demo_listing ''landwatch_7'' ''LandWatch'' ''https://www.landwatch.com''
            (PyFloat 30.25) (PyFloat (- 97.75)) (PyInt 0) (PyInt 5000000)] =
       [''landwatch_7'', ''landwatch_7'']
   \<and> \<not> distinct [''landwatch_7'', ''landwatch_7'']
   \<and> raised (landwatch_run demo_repr repeated_listing ''Austin'' ''TX'' 0 1000000 0 100 []) = None"
  by (simp add: scrape_landwatch_def repeated_listing_run demo_listing_def)

theorem listing_id_prefix_witness:
  "scrape_land_com demo_repr demo_net (PyStr ''Austin'') (PyStr ''TX'') 0 1000000 0 100 [] =
     Inr [demo_listing ''landcom_1'' ''Land.com'' ''https://www.land.com''
            (PyFloat 30.25) (PyFloat (- 97.75)) (PyInt 5) PyNone,
          demo_listing ''landcom_3'' ''Land.com'' ''https://www.land.com''
            (PyFloat 30.75) (PyFloat (- 97.25)) (PyInt 10) (PyInt 50000)]
   \<and> scrape_landwatch demo_repr demo_net (PyStr ''Austin'') (PyStr ''TX'') 0 1000000 0 100 [] =
       Inr [demo_listing ''landwatch_7'' ''LandWatch'' ''https://www.landwatch.com''
              (PyFloat 30.25) (PyFloat (- 97.75)) (PyInt 0) (PyInt 5000000)]
   \<and> listing_id (demo_listing ''landcom_1'' ''Land.com'' ''https://www.land.com''
            (PyFloat 30.25) (PyFloat (- 97.75)) (PyInt 5) PyNone)
       \<noteq> listing_id (demo_listing ''landwatch_7'' ''LandWatch'' ''https://www.landwatch.com''
              (PyFloat 30.25) (PyFloat (- 97.75)) (PyInt 0) (PyInt 5000000))
   \<and> raised (landwatch_run demo_repr same_id_filtered ''Austin'' ''TX'' 0 1000000 0 100 []) = None
   \<and> scrape_landwatch demo_repr same_id_filtered (PyStr ''Austin'') (PyStr ''TX'') 0 1000000 0 100 [] =
       Inr [demo_listing ''landwatch_7'' ''LandWatch'' ''https://www.landwatch.com''
              (PyFloat 30.25) (PyFloat (- 97.75)) (PyInt 0) (PyInt 5000000)]
   \<and> distinct (map (native_id_text demo_repr ''lwPropertyId'')
        (concat (map (kept_records (landwatch_step demo_repr))
           (pages_read same_id_filtered demo_landwatch_url (landwatch_page_url demo_landwatch_url)))))
   \<and> map (native_id_text demo_repr ''lwPropertyId'')
        [landwatch_record (PyInt 7) PyNone (PyFloat (- 97.75)) (PyInt 0) (PyInt 5000000),
         landwatch_record (PyStr ''7'') (PyFloat 30.25) (PyFloat (- 97.75)) (PyInt 0) (PyInt 5000000)] =
       [''7'', ''7'']
   \<and> map listing_id
        [(demo_listing ''landwatch_7'' ''LandWatch'' ''https://www.landwatch.com''
            (PyFloat 30.25) (PyFloat (- 97.75)) (PyInt 0) (PyInt 5000000))
           \<lparr>distance_to_center := Some PyNone\<rparr>] = [''landwatch_7'']"
proof -
  let ?l1 = "demo_listing ''landcom_1'' ''Land.com'' ''https://www.land.com''
            (PyFloat 30.25) (PyFloat (- 97.75)) (PyInt 5) PyNone"
  let ?l7 = "demo_listing ''landwatch_7'' ''LandWatch'' ''https://www.landwatch.com''
            (PyFloat 30.25) (PyFloat (- 97.75)) (PyInt 0) (PyInt 5000000)"
  note t = listing_id_prefix[where repr=demo_repr and cv="PyStr ''Austin''" and sv="PyStr ''TX''"
      and c="''Austin''" and s="''TX''" and minp=0 and maxp=1000000 and mina=0 and maxa=100
      and pts="[]" and city_lat=PyNone and city_lon=PyNone and ls="[?l7]"
      and out="[?l7\<lparr>distance_to_center := Some PyNone\<rparr>]"]
  note A = demo_scrapes(1)
  note B = demo_scrapes(2)
  from t[where net=demo_net] A B have d: "listing_id ?l1 \<noteq> listing_id ?l7" by simp
  have ok: "raised (landwatch_run demo_repr same_id_filtered ''Austin'' ''TX'' 0 1000000 0 100 []) = None"
    by (simp add: same_id_filtered_run)
  have S: "scrape_landwatch demo_repr same_id_filtered (PyStr ''Austin'') (PyStr ''TX'')
      0 1000000 0 100 [] = Inr [?l7]"
    by (simp add: scrape_landwatch_def same_id_filtered_run)
  from t[where net=same_id_filtered] ok S
  have k: "distinct (map (native_id_text demo_repr ''lwPropertyId'')
        (concat (map (kept_records (landwatch_step demo_repr))
           (pages_read same_id_filtered demo_landwatch_url (landwatch_page_url demo_landwatch_url)))))"
    by (simp add: demo_urls)
  have n: "map (native_id_text demo_repr ''lwPropertyId'')
        [landwatch_record (PyInt 7) PyNone (PyFloat (- 97.75)) (PyInt 0) (PyInt 5000000),
         landwatch_record (PyStr ''7'') (PyFloat 30.25) (PyFloat (- 97.75)) (PyInt 0) (PyInt 5000000)] =
       [''7'', ''7'']"
    by (simp add: native_id_text_def landwatch_record_def dict_get_def str_int_def str_nat.simps)
  have "annotate PyNone PyNone [?l7] = Inr [?l7\<lparr>distance_to_center := Some PyNone\<rparr>]"
    by (simp add: annotate_def)
  with t[where net=demo_net]
  have m: "map listing_id [?l7\<lparr>distance_to_center := Some PyNone\<rparr>] = map listing_id [?l7]"
    by blast
  from A B d ok S k n m show ?thesis by (simp add: demo_listing_def)
qed

text \<open>
  Claim C10 (presence is truthiness). Every presence test on an optional field is
  Python's truth value test, so a zero counts as absent: a listing whose latitude or
  longitude is 0 or 0.0 is excluded by both adapters; a Land.com record with price 0 is
  filtered as if it had no price (by the acres alone); one with acres 0 is excluded
  whatever min_acres is, also 0; and a reference location whose latitude or longitude is
  0 gives distance_to_center null for every listing.
\<close>

theorem zero_is_absent:
  "(is_zero v \<longrightarrow> \<not> truthy v)
   \<and> (is_zero (latitude l) \<or> is_zero (longitude l) \<longrightarrow>
        landcom_keep minp maxp mina maxa l = Inr False \<and> \<not> landwatch_keep l)
   \<and> (\<forall>xs. scrape_land_com repr net cv sv minp maxp mina maxa pts = Inr xs \<longrightarrow>
        (\<forall>x \<in> set xs. \<not> is_zero (latitude x) \<and> \<not> is_zero (longitude x)))
   \<and> (\<forall>xs. scrape_landwatch repr net cv sv minp maxp mina maxa pts = Inr xs \<longrightarrow>
        (\<forall>x \<in> set xs. \<not> is_zero (latitude x) \<and> \<not> is_zero (longitude x)))
   \<and> (\<exists>xs ys. scrape_land_com repr net (PyStr c) (PyStr s) minp maxp mina maxa pts = Inr xs
        \<and> scrape_landwatch repr net (PyStr c) (PyStr s) minp maxp mina maxa pts = Inr ys
        \<and> (\<forall>x \<in> set (xs @ ys). \<not> is_zero (latitude x) \<and> \<not> is_zero (longitude x)))
   \<and> (is_zero (price l) \<longrightarrow>
        landcom_keep minp maxp mina maxa l = landcom_keep minp maxp mina maxa (l\<lparr>price := PyNone\<rparr>))
   \<and> (is_zero (acres l) \<longrightarrow> landcom_keep minp maxp mina maxa l = Inr False)
   \<and> (is_zero city_lat \<or> is_zero city_lon \<longrightarrow>
        annotate city_lat city_lon ls = Inr (map (\<lambda>l. l\<lparr>distance_to_center := Some PyNone\<rparr>) ls))"
proof -
  have a: "is_zero v \<longrightarrow> \<not> truthy v" by (simp add: truthy_zero)
  have b: "is_zero (latitude l) \<or> is_zero (longitude l) \<longrightarrow>
        landcom_keep minp maxp mina maxa l = Inr False \<and> \<not> landwatch_keep l"
    by (auto simp: landcom_keep_def landwatch_keep_def dest: truthy_zero)
  have c1: "\<forall>xs. scrape_land_com repr net cv sv minp maxp mina maxa pts = Inr xs \<longrightarrow>
        (\<forall>x \<in> set xs. \<not> is_zero (latitude x) \<and> \<not> is_zero (longitude x))" for cv sv
  proof (intro allI impI ballI)
    fix xs x
    assume "scrape_land_com repr net cv sv minp maxp mina maxa pts = Inr xs" and "x \<in> set xs"
    from scrape_land_com_member[OF this] obtain p
      where "landcom_step repr minp maxp mina maxa p = Inr (Some x)" by blast
    then have "landcom_policy minp maxp mina maxa x" by (simp add: landcom_step_iff)
    then have "truthy (latitude x)" "truthy (longitude x)" by (simp_all add: landcom_policy_def)
    with truthy_zero show "\<not> is_zero (latitude x) \<and> \<not> is_zero (longitude x)" by blast
  qed
  have c2: "\<forall>xs. scrape_landwatch repr net cv sv minp maxp mina maxa pts = Inr xs \<longrightarrow>
        (\<forall>x \<in> set xs. \<not> is_zero (latitude x) \<and> \<not> is_zero (longitude x))" for cv sv
  proof (intro allI impI ballI)
    fix xs x
    assume "scrape_landwatch repr net cv sv minp maxp mina maxa pts = Inr xs" and "x \<in> set xs"
    from scrape_landwatch_member[OF this] obtain p
      where "landwatch_step repr p = Inr (Some x)" by blast
    then have "truthy (latitude x)" "truthy (longitude x)" by (simp_all add: landwatch_step_iff)
    with truthy_zero show "\<not> is_zero (latitude x) \<and> \<not> is_zero (longitude x)" by blast
  qed
  have c3: "\<exists>xs ys. scrape_land_com repr net (PyStr c) (PyStr s) minp maxp mina maxa pts = Inr xs
        \<and> scrape_landwatch repr net (PyStr c) (PyStr s) minp maxp mina maxa pts = Inr ys
        \<and> (\<forall>x \<in> set (xs @ ys). \<not> is_zero (latitude x) \<and> \<not> is_zero (longitude x))"
    using c1[of "PyStr c" "PyStr s"] c2[of "PyStr c" "PyStr s"]
      scrape_land_com_str[of repr net c "PyStr s" minp maxp mina maxa pts]
      scrape_landwatch_str[of repr net c s minp maxp mina maxa pts]
    by auto
  have d: "is_zero (price l) \<longrightarrow>
        landcom_keep minp maxp mina maxa l = landcom_keep minp maxp mina maxa (l\<lparr>price := PyNone\<rparr>)"
    by (auto simp: landcom_keep_def dest: truthy_zero)
  have e: "is_zero (acres l) \<longrightarrow> landcom_keep minp maxp mina maxa l = Inr False"
    by (auto simp: landcom_keep_def dest: truthy_zero)
  have f: "is_zero city_lat \<or> is_zero city_lon \<longrightarrow>
        annotate city_lat city_lon ls = Inr (map (\<lambda>l. l\<lparr>distance_to_center := Some PyNone\<rparr>) ls)"
    using annotate_no_reference[of city_lat city_lon ls] truthy_zero by blast
  from a b c1[of cv sv] c2[of cv sv] c3 d e f show ?thesis by blast
qed

theorem zero_is_absent_witness:
  "is_zero (PyFloat 0) \<and> \<not> truthy (PyFloat 0)
   \<and> landcom_keep 0 1000000 0 100
       (demo_listing ''landcom_1'' ''Land.com'' ''https://www.land.com''
          (PyInt 0) (PyFloat (- 97.75)) (PyInt 5) (PyInt 50000)) = Inr False
   \<and> \<not> landwatch_keep
       (demo_listing ''landwatch_7'' ''LandWatch'' ''https://www.landwatch.com''
          (PyFloat 30.25) (PyFloat 0) (PyInt 5) (PyInt 50000))
   \<and> landcom_keep 10 1000000 0 100
       (demo_listing ''landcom_1'' ''Land.com'' ''https://www.land.com''
          (PyFloat 30.25) (PyFloat (- 97.75)) (PyInt 5) (PyInt 0)) = Inr True
   \<and> landcom_keep 0 1000000 0 100
       (demo_listing ''landcom_1'' ''Land.com'' ''https://www.land.com''
          (PyFloat 30.25) (PyFloat (- 97.75)) (PyInt 0) (PyInt 50000)) = Inr False
   \<and> scrape_landwatch demo_repr demo_net (PyStr ''Austin'') (PyStr ''TX'') 0 1000000 0 100 [] =
       Inr [demo_listing ''landwatch_7'' ''LandWatch'' ''https://www.landwatch.com''
              (PyFloat 30.25) (PyFloat (- 97.75)) (PyInt 0) (PyInt 5000000)]
   \<and> \<not> is_zero (latitude (demo_listing ''landwatch_7'' ''LandWatch'' ''https://www.landwatch.com''
              (PyFloat 30.25) (PyFloat (- 97.75)) (PyInt 0) (PyInt 5000000)))
   \<and> \<not> is_zero (latitude (demo_listing ''landcom_1'' ''Land.com'' ''https://www.land.com''
              (PyFloat 30.25) (PyFloat (- 97.75)) (PyInt 5) PyNone))
   \<and> annotate (PyFloat 30.25) (PyInt 0)
       [demo_listing ''landwatch_7'' ''LandWatch'' ''https://www.landwatch.com''
          (PyFloat 30.25) (PyFloat (- 97.75)) (PyInt 0) (PyInt 5000000)] =
       Inr [(demo_listing ''landwatch_7'' ''LandWatch'' ''https://www.landwatch.com''
          (PyFloat 30.25) (PyFloat (- 97.75)) (PyInt 0) (PyInt 5000000))
            \<lparr>distance_to_center := Some PyNone\<rparr>]"
proof -
  let ?lat0 = "demo_listing ''landcom_1'' ''Land.com'' ''https://www.land.com''
          (PyInt 0) (PyFloat (- 97.75)) (PyInt 5) (PyInt 50000)"
  let ?lon0 = "demo_listing ''landwatch_7'' ''LandWatch'' ''https://www.landwatch.com''
          (PyFloat 30.25) (PyFloat 0) (PyInt 5) (PyInt 50000)"
  let ?price0 = "demo_listing ''landcom_1'' ''Land.com'' ''https://www.land.com''
          (PyFloat 30.25) (PyFloat (- 97.75)) (PyInt 5) (PyInt 0)"
  let ?acres0 = "demo_listing ''landcom_1'' ''Land.com'' ''https://www.land.com''
          (PyFloat 30.25) (PyFloat (- 97.75)) (PyInt 0) (PyInt 50000)"
  let ?l7 = "demo_listing ''landwatch_7'' ''LandWatch'' ''https://www.landwatch.com''
          (PyFloat 30.25) (PyFloat (- 97.75)) (PyInt 0) (PyInt 5000000)"
  let ?l1 = "demo_listing ''landcom_1'' ''Land.com'' ''https://www.land.com''
          (PyFloat 30.25) (PyFloat (- 97.75)) (PyInt 5) PyNone"
  have z: "is_zero (PyFloat 0)" "is_zero (PyInt 0)" by (simp_all add: is_zero_def)
  note t = zero_is_absent[where v="PyFloat 0" and minp=0 and maxp=1000000 and mina=0 and maxa=100
      and repr=demo_repr and net=demo_net and cv="PyStr ''Austin''" and sv="PyStr ''TX''"
      and c="''Austin''" and s="''TX''" and pts="[]" and city_lat="PyFloat 30.25"
      and city_lon="PyInt 0" and ls="[?l7]"]
  note lw = demo_scrapes(2)
  note lc = demo_scrapes(1)
  from t[where l="?lat0"] z lw lc
  have 1: "\<not> truthy (PyFloat 0)"
    and 2: "landcom_keep 0 1000000 0 100 ?lat0 = Inr False"
    and 3: "\<not> is_zero (latitude ?l1)"
    and 4: "\<not> is_zero (latitude ?l7)"
    and 5: "annotate (PyFloat 30.25) (PyInt 0) [?l7] =
       Inr [?l7\<lparr>distance_to_center := Some PyNone\<rparr>]"
    by (simp_all add: demo_listing_def)
  from t[where l="?lon0"] z
  have 6: "\<not> landwatch_keep ?lon0" by (simp add: demo_listing_def)
  from zero_is_absent[where v="PyFloat 0" and l="?price0" and minp=10 and maxp=1000000
      and mina=0 and maxa=100] z
  have 7: "landcom_keep 10 1000000 0 100 ?price0 = Inr True"
    by (simp add: demo_listing_def landcom_keep_def between_def)
  from t[where l="?acres0"] z
  have 8: "landcom_keep 0 1000000 0 100 ?acres0 = Inr False" by (simp add: demo_listing_def)
  from z 1 2 lw 3 4 5 6 7 8 show ?thesis by simp
qed


end
